theory Spec2Isabelle
  imports Complex_Main
begin

section \<open>Array elements\<close>

text \<open>
  Every array of \<^verbatim>\<open>clearSkyRadiation_REST2v5.py\<close> holds float64 values. An element is
  modelled as a real number or one of the three special values of IEEE 754 that the
  code itself depends on: it writes \<^verbatim>\<open>np.nan\<close>, tests \<^verbatim>\<open>np.isnan\<close> and runs with every
  numeric warning switched off, so that a division by zero or an invalid operation
  yields an infinity or a NaN instead of an exception. Arithmetic on finite values is
  exact: rounding, overflow to an infinity and the sign of zero are not modelled.
\<close>

datatype fl = Fin real | PInf | NInf | NaN

fun isnan :: "fl \<Rightarrow> bool" where
  "isnan NaN = True"
| "isnan _ = False"

fun isfinite :: "fl \<Rightarrow> bool" where
  "isfinite (Fin a) = True"
| "isfinite _ = False"

fun fadd :: "fl \<Rightarrow> fl \<Rightarrow> fl" where
  "fadd NaN _ = NaN"
| "fadd _ NaN = NaN"
| "fadd (Fin a) (Fin b) = Fin (a + b)"
| "fadd PInf NInf = NaN"
| "fadd NInf PInf = NaN"
| "fadd PInf _ = PInf"
| "fadd NInf _ = NInf"
| "fadd (Fin a) y = y"

fun fneg :: "fl \<Rightarrow> fl" where
  "fneg (Fin a) = Fin (- a)"
| "fneg PInf = NInf"
| "fneg NInf = PInf"
| "fneg NaN = NaN"

fun fmul :: "fl \<Rightarrow> fl \<Rightarrow> fl" where
  "fmul NaN _ = NaN"
| "fmul _ NaN = NaN"
| "fmul (Fin a) (Fin b) = Fin (a * b)"
| "fmul (Fin a) PInf = (if a = 0 then NaN else if 0 < a then PInf else NInf)"
| "fmul (Fin a) NInf = (if a = 0 then NaN else if 0 < a then NInf else PInf)"
| "fmul PInf (Fin b) = (if b = 0 then NaN else if 0 < b then PInf else NInf)"
| "fmul NInf (Fin b) = (if b = 0 then NaN else if 0 < b then NInf else PInf)"
| "fmul PInf PInf = PInf"
| "fmul NInf NInf = PInf"
| "fmul PInf NInf = NInf"
| "fmul NInf PInf = NInf"

fun fdiv :: "fl \<Rightarrow> fl \<Rightarrow> fl" where
  "fdiv NaN _ = NaN"
| "fdiv _ NaN = NaN"
| "fdiv (Fin a) (Fin b) =
     (if b \<noteq> 0 then Fin (a / b)
      else if a = 0 then NaN else if 0 < a then PInf else NInf)"
| "fdiv (Fin a) _ = Fin 0"
| "fdiv PInf (Fin b) = (if 0 \<le> b then PInf else NInf)"
| "fdiv NInf (Fin b) = (if 0 \<le> b then NInf else PInf)"
| "fdiv _ _ = NaN"

fun fabs :: "fl \<Rightarrow> fl" where
  "fabs (Fin a) = Fin \<bar>a\<bar>"
| "fabs NaN = NaN"
| "fabs _ = PInf"

text \<open>Comparisons: every comparison with a NaN is false.\<close>

fun flt :: "fl \<Rightarrow> fl \<Rightarrow> bool" where
  "flt NaN _ = False"
| "flt _ NaN = False"
| "flt (Fin a) (Fin b) = (a < b)"
| "flt _ NInf = False"
| "flt NInf _ = True"
| "flt PInf _ = False"
| "flt (Fin a) PInf = True"

fun fle :: "fl \<Rightarrow> fl \<Rightarrow> bool" where
  "fle NaN _ = False"
| "fle _ NaN = False"
| "fle (Fin a) (Fin b) = (a \<le> b)"
| "fle NInf _ = True"
| "fle _ PInf = True"
| "fle _ _ = False"

text \<open>The usual notation for these operations.\<close>

instantiation fl :: "{zero, one, plus, minus, uminus, times, inverse, abs, ord}"
begin

definition zero_fl :: fl where "zero_fl = Fin 0"
definition one_fl :: fl where "one_fl = Fin 1"
definition plus_fl :: "fl \<Rightarrow> fl \<Rightarrow> fl" where "plus_fl = fadd"
definition uminus_fl :: "fl \<Rightarrow> fl" where "uminus_fl = fneg"
definition minus_fl :: "fl \<Rightarrow> fl \<Rightarrow> fl" where "minus_fl x y = fadd x (fneg y)"
definition times_fl :: "fl \<Rightarrow> fl \<Rightarrow> fl" where "times_fl = fmul"
definition divide_fl :: "fl \<Rightarrow> fl \<Rightarrow> fl" where "divide_fl = fdiv"
definition inverse_fl :: "fl \<Rightarrow> fl" where "inverse_fl x = fdiv (Fin 1) x"
definition abs_fl :: "fl \<Rightarrow> fl" where "abs_fl = fabs"
definition less_fl :: "fl \<Rightarrow> fl \<Rightarrow> bool" where "less_fl = flt"
definition less_eq_fl :: "fl \<Rightarrow> fl \<Rightarrow> bool" where "less_eq_fl = fle"

instance ..

end

text \<open>
  \<^verbatim>\<open>np.power\<close> on float64 arguments is C's \<^verbatim>\<open>pow\<close>: a zero exponent gives 1 for every
  base, a negative base is allowed with an integer exponent only.
\<close>

fun fpow :: "fl \<Rightarrow> fl \<Rightarrow> fl" where
  "fpow x (Fin b) =
     (if b = 0 then Fin 1
      else case x of
        NaN \<Rightarrow> NaN
      | Fin a \<Rightarrow>
          (if 0 < a then Fin (a powr b)
           else if a = 0 then (if 0 < b then Fin 0 else PInf)
           else if b = of_int \<lfloor>b\<rfloor>
             then Fin ((if even \<lfloor>b\<rfloor> then 1 else - 1) * (\<bar>a\<bar> powr b))
           else NaN)
      | PInf \<Rightarrow> (if 0 < b then PInf else Fin 0)
      | NInf \<Rightarrow>
          (if b < 0 then Fin 0
           else if b = of_int \<lfloor>b\<rfloor> \<and> odd \<lfloor>b\<rfloor> then NInf else PInf))"
| "fpow x NaN = (if x = Fin 1 then Fin 1 else NaN)"
| "fpow x PInf =
     (case x of
        NaN \<Rightarrow> NaN
      | Fin a \<Rightarrow> (if \<bar>a\<bar> < 1 then Fin 0 else if \<bar>a\<bar> = 1 then Fin 1 else PInf)
      | _ \<Rightarrow> PInf)"
| "fpow x NInf =
     (case x of
        NaN \<Rightarrow> NaN
      | Fin a \<Rightarrow> (if \<bar>a\<bar> < 1 then PInf else if \<bar>a\<bar> = 1 then Fin 1 else Fin 0)
      | _ \<Rightarrow> Fin 0)"

fun fexp :: "fl \<Rightarrow> fl" where
  "fexp (Fin a) = Fin (exp a)"
| "fexp PInf = PInf"
| "fexp NInf = Fin 0"
| "fexp NaN = NaN"

fun flog :: "fl \<Rightarrow> fl" where
  "flog (Fin a) = (if 0 < a then Fin (ln a) else if a = 0 then NInf else NaN)"
| "flog PInf = PInf"
| "flog _ = NaN"

fun fcos :: "fl \<Rightarrow> fl" where
  "fcos (Fin a) = Fin (cos a)"
| "fcos _ = NaN"

definition rad2deg :: "fl \<Rightarrow> fl" where
  "rad2deg x = x * Fin (180 / pi)"

subsection \<open>Complex intermediates\<close>

text \<open>
  The air masses and the band 2 aerosol depth go through \<^verbatim>\<open>dtype=np.complex\<close> arrays.
  A complex element is a finite complex number or \<open>CNaN\<close>, which stands for every
  complex value with a component that is not finite; its magnitude is NaN. The power
  follows numpy's complex power: exponent zero gives 1 for every base, base zero gives
  zero for a positive exponent and is invalid otherwise, and every other finite base is
  raised through its polar form with the principal argument.
\<close>

datatype cfl = CFin complex | CNaN

fun c_of_fl :: "fl \<Rightarrow> cfl" where
  "c_of_fl (Fin a) = CFin (complex_of_real a)"
| "c_of_fl _ = CNaN"

fun cadd :: "cfl \<Rightarrow> cfl \<Rightarrow> cfl" where
  "cadd (CFin a) (CFin b) = CFin (a + b)"
| "cadd _ _ = CNaN"

fun csub :: "cfl \<Rightarrow> cfl \<Rightarrow> cfl" where
  "csub (CFin a) (CFin b) = CFin (a - b)"
| "csub _ _ = CNaN"

fun cmul :: "cfl \<Rightarrow> cfl \<Rightarrow> cfl" where
  "cmul (CFin a) (CFin b) = CFin (a * b)"
| "cmul _ _ = CNaN"

fun cdiv :: "cfl \<Rightarrow> cfl \<Rightarrow> cfl" where
  "cdiv (CFin a) (CFin b) = (if b = 0 then CNaN else CFin (a / b))"
| "cdiv _ _ = CNaN"

instantiation cfl :: "{plus, minus, times, inverse}"
begin

definition plus_cfl :: "cfl \<Rightarrow> cfl \<Rightarrow> cfl" where "plus_cfl = cadd"
definition minus_cfl :: "cfl \<Rightarrow> cfl \<Rightarrow> cfl" where "minus_cfl = csub"
definition times_cfl :: "cfl \<Rightarrow> cfl \<Rightarrow> cfl" where "times_cfl = cmul"
definition divide_cfl :: "cfl \<Rightarrow> cfl \<Rightarrow> cfl" where "divide_cfl = cdiv"
definition inverse_cfl :: "cfl \<Rightarrow> cfl" where "inverse_cfl x = cdiv (CFin 1) x"

instance ..

end

fun cpow :: "cfl \<Rightarrow> fl \<Rightarrow> cfl" where
  "cpow x (Fin b) =
     (if b = 0 then CFin 1
      else case x of
        CNaN \<Rightarrow> CNaN
      | CFin z \<Rightarrow>
          (if z = 0 then (if 0 < b then CFin 0 else CNaN)
           else CFin (rcis (cmod z powr b) (b * Arg z))))"
| "cpow x _ = CNaN"

fun cabs :: "cfl \<Rightarrow> fl" where
  "cabs (CFin z) = Fin (cmod z)"
| "cabs CNaN = NaN"

section \<open>Arrays and the arguments of \<^verbatim>\<open>clear_sky_REST2V5\<close>\<close>

text \<open>
  An array is the list of its rows (\<^verbatim>\<open>REST2v5\<close> hands over two-dimensional arrays,
  time by site; a one-dimensional array is a single row). The nine array arguments
  form a record; the same record over \<open>fl\<close> is one element of each array, taken at
  the same position.
\<close>

type_synonym ndarray = "fl list list"

record 'a args =
  zenith_angle :: 'a
  Eext :: 'a
  pressure :: 'a
  water_vapour :: 'a
  ozone :: 'a
  nitrogen_dioxide :: 'a
  AOD550 :: 'a
  Angstrom_exponent :: 'a
  surface_albedo :: 'a

subsection \<open>Lines 60 to 71: clamping the atmospheric fields in place\<close>

text \<open>
  \<^verbatim>\<open>a[a > hi] = hi\<close> followed by \<^verbatim>\<open>a[a < lo] = lo\<close>, on one element and on an array.
\<close>

definition clamp :: "fl \<Rightarrow> fl \<Rightarrow> fl \<Rightarrow> fl" where
  "clamp hi lo x = (let x1 = (if x > hi then hi else x) in if x1 < lo then lo else x1)"

definition clamp_array :: "fl \<Rightarrow> fl \<Rightarrow> ndarray \<Rightarrow> ndarray" where
  "clamp_array hi lo a = map (map (clamp hi lo)) a"

definition clamp_inputs :: "ndarray args \<Rightarrow> ndarray args" where
  "clamp_inputs a = a
     \<lparr> Angstrom_exponent := clamp_array (Fin 2.5) (Fin 0) (Angstrom_exponent a),
       pressure := clamp_array (Fin 1100) (Fin 300) (pressure a),
       water_vapour := clamp_array (Fin 10) (Fin 0) (water_vapour a),
       ozone := clamp_array (Fin 0.6) (Fin 0) (ozone a),
       nitrogen_dioxide := clamp_array (Fin 0.03) (Fin 0) (nitrogen_dioxide a),
       surface_albedo := clamp_array (Fin 1) (Fin 0) (surface_albedo a) \<rparr>"

text \<open>An array lies within \<open>[lo, hi]\<close> when each of its elements does.\<close>

definition all_within :: "fl \<Rightarrow> fl \<Rightarrow> ndarray \<Rightarrow> bool" where
  "all_within lo hi a = (\<forall>r \<in> set a. \<forall>x \<in> set r. lo \<le> x \<and> x \<le> hi)"

definition in_bounds :: "ndarray args \<Rightarrow> bool" where
  "in_bounds a \<longleftrightarrow>
     all_within (Fin 0) (Fin 2.5) (Angstrom_exponent a) \<and>
     all_within (Fin 300) (Fin 1100) (pressure a) \<and>
     all_within (Fin 0) (Fin 10) (water_vapour a) \<and>
     all_within (Fin 0) (Fin 0.6) (ozone a) \<and>
     all_within (Fin 0) (Fin 0.03) (nitrogen_dioxide a) \<and>
     all_within (Fin 0) (Fin 1) (surface_albedo a)"


section \<open>The REST2v5 formulas, element by element\<close>

text \<open>
  Every statement of \<^verbatim>\<open>clear_sky_REST2V5\<close> after line 71 works element by element on
  arrays of one shape. Each variable of the source is a function of \<open>s\<close>, the elements
  of the nine argument arrays at one position as they stand after the clamping of
  lines 60 to 71. A boolean-mask assignment \<^verbatim>\<open>a[c] = v\<close> is \<open>if c then v else a\<close>
  on an element. The source binds \<^verbatim>\<open>g1\<close>, \<^verbatim>\<open>g2\<close>, \<^verbatim>\<open>h1\<close> and \<^verbatim>\<open>h2\<close> twice; the second
  bindings, read by \<^verbatim>\<open>F1\<close> and \<^verbatim>\<open>F2\<close> only, carry that suffix.
\<close>

definition complex_temp :: "fl args \<Rightarrow> cfl" where
  \<comment> \<open>line 74\<close>
  "complex_temp s = c_of_fl (zenith_angle s * Fin 180 / Fin pi)"

definition ama :: "fl args \<Rightarrow> fl" where
  \<comment> \<open>line 76\<close>
  "ama s = cabs (cpow (c_of_fl (fcos (zenith_angle s)) + c_of_fl (Fin 0.16851)
      * cpow (complex_temp s) (Fin 0.18198) / cpow (c_of_fl (Fin 95.318)
      - complex_temp s) (Fin 1.9542)) (Fin (- 1)))"

definition amw :: "fl args \<Rightarrow> fl" where
  \<comment> \<open>line 79\<close>
  "amw s = cabs (cpow (c_of_fl (fcos (zenith_angle s)) + c_of_fl (Fin 0.10648)
      * cpow (complex_temp s) (Fin 0.11423) / cpow (c_of_fl (Fin 93.781)
      - complex_temp s) (Fin 1.9203)) (Fin (- 1)))"

definition amo :: "fl args \<Rightarrow> fl" where
  \<comment> \<open>line 85\<close>
  "amo s = cabs (cpow (c_of_fl (fcos (zenith_angle s)) + c_of_fl (Fin 1.0651)
      * cpow (complex_temp s) (Fin 0.6379) / cpow (c_of_fl (Fin 101.8)
      - complex_temp s) (Fin 2.2694)) (Fin (- 1)))"

definition amR :: "fl args \<Rightarrow> fl" where
  \<comment> \<open>line 88\<close>
  "amR s = cabs (cpow (c_of_fl (fcos (zenith_angle s)) + c_of_fl (Fin 0.48353)
      * cpow (complex_temp s) (Fin 0.095846) / cpow (c_of_fl (Fin 96.741)
      - complex_temp s) (Fin 1.754)) (Fin (- 1)))"

definition amRe :: "fl args \<Rightarrow> fl" where
  \<comment> \<open>line 90\<close>
  "amRe s = cabs (c_of_fl (pressure s / Fin 1013.25) * cpow (c_of_fl (fcos (zenith_angle s))
      + c_of_fl (Fin 0.48353) * cpow (complex_temp s) (Fin 0.095846)
      / cpow (c_of_fl (Fin 96.741) - complex_temp s) (Fin 1.754)) (Fin (- 1)))"

definition ang_beta :: "fl args \<Rightarrow> fl" where
  \<comment> \<open>lines 95 to 97\<close>
  "ang_beta s = clamp (Fin 1.1) (Fin 0) (AOD550 s / fpow (Fin 0.55) (Fin (- 1)
      * Angstrom_exponent s))"

definition TR1 :: "fl args \<Rightarrow> fl" where
  \<comment> \<open>line 102\<close>
  "TR1 s = (Fin 1 + Fin 1.8169 * amRe s - Fin 0.033454 * fpow (amRe s) (Fin 2)) / (Fin 1
      + Fin 2.063 * amRe s + Fin 0.31978 * fpow (amRe s) (Fin 2))"

definition Tg1 :: "fl args \<Rightarrow> fl" where
  \<comment> \<open>line 104\<close>
  "Tg1 s = (Fin 1 + Fin 0.95885 * amRe s + Fin 0.012871 * fpow (amRe s) (Fin 2)) / (Fin 1
      + Fin 0.96321 * amRe s + Fin 0.015455 * fpow (amRe s) (Fin 2))"

definition uo :: "fl args \<Rightarrow> fl" where
  \<comment> \<open>line 106\<close>
  "uo s = ozone s"

definition f1 :: "fl args \<Rightarrow> fl" where
  \<comment> \<open>line 107\<close>
  "f1 s = uo s * (Fin 10.979 - Fin 8.5421 * uo s) / (Fin 1 + Fin 2.0115 * uo s + Fin 40.189
      * fpow (uo s) (Fin 2))"

definition f2 :: "fl args \<Rightarrow> fl" where
  \<comment> \<open>line 108\<close>
  "f2 s = uo s * (Fin (- 0.027589) - Fin 0.005138 * uo s) / (Fin 1 - Fin 2.4857 * uo s
      + Fin 13.942 * fpow (uo s) (Fin 2))"

definition f3 :: "fl args \<Rightarrow> fl" where
  \<comment> \<open>line 109\<close>
  "f3 s = uo s * (Fin 10.995 - Fin 5.5001 * uo s) / (Fin 1 + Fin 1.6784 * uo s + Fin 42.406
      * fpow (uo s) (Fin 2))"

definition To1 :: "fl args \<Rightarrow> fl" where
  \<comment> \<open>line 110\<close>
  "To1 s = (Fin 1 + f1 s * amo s + f2 s * fpow (amo s) (Fin 2)) / (Fin 1 + f3 s * amo s)"

definition un :: "fl args \<Rightarrow> fl" where
  \<comment> \<open>line 112\<close>
  "un s = nitrogen_dioxide s"

definition g1 :: "fl args \<Rightarrow> fl" where
  \<comment> \<open>line 113\<close>
  "g1 s = (Fin 0.17499 + Fin 41.654 * un s - Fin 2146.4 * fpow (un s) (Fin 2)) / (Fin 1
      + Fin 22295 * fpow (un s) (Fin 2))"

definition g2 :: "fl args \<Rightarrow> fl" where
  \<comment> \<open>line 114\<close>
  "g2 s = un s * (Fin (- 1.2134) + Fin 59.324 * un s) / (Fin 1 + Fin 8847.8 * fpow (un s) (Fin 2))"

definition g3 :: "fl args \<Rightarrow> fl" where
  \<comment> \<open>line 115\<close>
  "g3 s = (Fin 0.17499 + Fin 61.658 * un s + Fin 9196.4 * fpow (un s) (Fin 2)) / (Fin 1
      + Fin 74109 * fpow (un s) (Fin 2))"

definition Tn1_middle :: "fl args \<Rightarrow> fl" where
  \<comment> \<open>line 116\<close>
  "Tn1_middle s = (Fin 1 + g1 s * amw s + g2 s * fpow (amw s) (Fin 2)) / (Fin 1 + g3 s * amw s)"

definition Tn1 :: "fl args \<Rightarrow> fl" where
  \<comment> \<open>lines 117 and 118\<close>
  "Tn1 s = (if Tn1_middle s > Fin 1 then Fin 1 else Tn1_middle s)"

definition Tn1166_middle :: "fl args \<Rightarrow> fl" where
  \<comment> \<open>line 120\<close>
  "Tn1166_middle s = (Fin 1 + g1 s * Fin 1.66 + g2 s * fpow (Fin 1.66) (Fin 2)) / (Fin 1 + g3 s
      * Fin 1.66)"

definition Tn1166 :: "fl args \<Rightarrow> fl" where
  \<comment> \<open>lines 121 and 122\<close>
  "Tn1166 s = (if Tn1166_middle s > Fin 1 then Fin 1 else Tn1166_middle s)"

definition h1 :: "fl args \<Rightarrow> fl" where
  \<comment> \<open>line 125\<close>
  "h1 s = water_vapour s * (Fin 0.065445 + Fin 0.00029901 * water_vapour s) / (Fin 1
      + Fin 1.2728 * water_vapour s)"

definition h2 :: "fl args \<Rightarrow> fl" where
  \<comment> \<open>line 126\<close>
  "h2 s = water_vapour s * (Fin 0.065687 + Fin 0.0013218 * water_vapour s) / (Fin 1
      + Fin 1.2008 * water_vapour s)"

definition Tw1 :: "fl args \<Rightarrow> fl" where
  \<comment> \<open>line 127\<close>
  "Tw1 s = (Fin 1 + h1 s * amw s) / (Fin 1 + h2 s * amw s)"

definition Tw1166 :: "fl args \<Rightarrow> fl" where
  \<comment> \<open>line 128\<close>
  "Tw1166 s = (Fin 1 + h1 s * Fin 1.66) / (Fin 1 + h2 s * Fin 1.66)"

definition AB1 :: "fl args \<Rightarrow> fl" where
  \<comment> \<open>line 131\<close>
  "AB1 s = ang_beta s"

definition alph1 :: "fl args \<Rightarrow> fl" where
  \<comment> \<open>line 132\<close>
  "alph1 s = Angstrom_exponent s"

definition d0 :: "fl args \<Rightarrow> fl" where
  \<comment> \<open>line 133\<close>
  "d0 s = Fin 0.57664 - Fin 0.024743 * alph1 s"

definition d1 :: "fl args \<Rightarrow> fl" where
  \<comment> \<open>line 134\<close>
  "d1 s = (Fin 0.093942 - Fin 0.2269 * alph1 s + Fin 0.12848 * fpow (alph1 s) (Fin 2)) / (Fin 1
      + Fin 0.6418 * alph1 s)"

definition d2 :: "fl args \<Rightarrow> fl" where
  \<comment> \<open>line 135\<close>
  "d2 s = (Fin (- 0.093819) + Fin 0.36668 * alph1 s - Fin 0.12775 * fpow (alph1 s) (Fin 2))
      / (Fin 1 - Fin 0.11651 * alph1 s)"

definition d3 :: "fl args \<Rightarrow> fl" where
  \<comment> \<open>line 136\<close>
  "d3 s = alph1 s * (Fin 0.15232 - Fin 0.087214 * alph1 s + Fin 0.012664
      * fpow (alph1 s) (Fin 2)) / (Fin 1 - Fin 0.90454 * alph1 s + Fin 0.26167
      * fpow (alph1 s) (Fin 2))"

definition ua1 :: "fl args \<Rightarrow> fl" where
  \<comment> \<open>line 138\<close>
  "ua1 s = flog (Fin 1 + ama s * AB1 s)"

definition lam1 :: "fl args \<Rightarrow> fl" where
  \<comment> \<open>line 139\<close>
  "lam1 s = (d0 s + d1 s * ua1 s + d2 s * fpow (ua1 s) (Fin 2)) / (Fin 1 + d3 s
      * fpow (ua1 s) (Fin 2))"

definition ta1 :: "fl args \<Rightarrow> fl" where
  \<comment> \<open>line 142\<close>
  "ta1 s = \<bar>AB1 s * fpow (lam1 s) (Fin (- 1) * alph1 s)\<bar>"

definition TA1 :: "fl args \<Rightarrow> fl" where
  \<comment> \<open>line 143\<close>
  "TA1 s = fexp (- ama s * ta1 s)"

definition TAS1 :: "fl args \<Rightarrow> fl" where
  \<comment> \<open>line 146\<close>
  "TAS1 s = fexp (- ama s * Fin 0.92 * ta1 s)"

definition BR1 :: "fl args \<Rightarrow> fl" where
  \<comment> \<open>line 149\<close>
  "BR1 s = Fin 0.5 * (Fin 0.89013 - Fin 0.0049558 * amR s + Fin 0.000045721 * fpow (amR s) (Fin 2))"

definition g0 :: "fl args \<Rightarrow> fl" where
  \<comment> \<open>line 152\<close>
  "g0 s = (Fin 3.715 + Fin 0.368 * ama s + Fin 0.036294 * fpow (ama s) (Fin 2)) / (Fin 1
      + Fin 0.0009391 * fpow (ama s) (Fin 2))"

definition g1_F1 :: "fl args \<Rightarrow> fl" where
  \<comment> \<open>line 153\<close>
  "g1_F1 s = (Fin (- 0.164) - Fin 0.72567 * ama s + Fin 0.20701 * fpow (ama s) (Fin 2))
      / (Fin 1 + Fin 0.0019012 * fpow (ama s) (Fin 2))"

definition g2_F1 :: "fl args \<Rightarrow> fl" where
  \<comment> \<open>line 154\<close>
  "g2_F1 s = (Fin (- 0.052288) + Fin 0.31902 * ama s + Fin 0.17871 * fpow (ama s) (Fin 2))
      / (Fin 1 + Fin 0.0069592 * fpow (ama s) (Fin 2))"

definition F1 :: "fl args \<Rightarrow> fl" where
  \<comment> \<open>line 155\<close>
  "F1 s = (g0 s + g1_F1 s * ta1 s) / (Fin 1 + g2_F1 s * ta1 s)"

definition rs1 :: "fl args \<Rightarrow> fl" where
  \<comment> \<open>line 158\<close>
  "rs1 s = (Fin 0.13363 + Fin 0.00077358 * alph1 s + AB1 s * (Fin 0.37567 + Fin 0.22946
      * alph1 s) / (Fin 1 - Fin 0.10832 * alph1 s)) / (Fin 1 + AB1 s * (Fin 0.84057
      + Fin 0.68683 * alph1 s) / (Fin 1 - Fin 0.08158 * alph1 s))"

definition rg :: "fl args \<Rightarrow> fl" where
  \<comment> \<open>line 161\<close>
  "rg s = surface_albedo s"

definition TR2 :: "fl args \<Rightarrow> fl" where
  \<comment> \<open>line 166\<close>
  "TR2 s = (Fin 1 - Fin 0.010394 * amRe s) / (Fin 1 - Fin 0.00011042 * fpow (amRe s) (Fin 2))"

definition Tg2 :: "fl args \<Rightarrow> fl" where
  \<comment> \<open>line 168\<close>
  "Tg2 s = (Fin 1 + Fin 0.27284 * amRe s - Fin 0.00063699 * fpow (amRe s) (Fin 2)) / (Fin 1
      + Fin 0.30306 * amRe s)"

definition To2 :: "fl args \<Rightarrow> fl" where
  \<comment> \<open>line 170\<close>
  "To2 s = Fin 1"

definition Tn2 :: "fl args \<Rightarrow> fl" where
  \<comment> \<open>line 172\<close>
  "Tn2 s = Fin 1"

definition Tn2166 :: "fl args \<Rightarrow> fl" where
  \<comment> \<open>line 173\<close>
  "Tn2166 s = Fin 1"

definition c1 :: "fl args \<Rightarrow> fl" where
  \<comment> \<open>line 176\<close>
  "c1 s = water_vapour s * (Fin 19.566 - Fin 1.6506 * water_vapour s + Fin 1.0672
      * fpow (water_vapour s) (Fin 2)) / (Fin 1 + Fin 5.4248 * water_vapour s + Fin 1.6005
      * fpow (water_vapour s) (Fin 2))"

definition c2 :: "fl args \<Rightarrow> fl" where
  \<comment> \<open>line 178\<close>
  "c2 s = water_vapour s * (Fin 0.50158 - Fin 0.14732 * water_vapour s + Fin 0.047584
      * fpow (water_vapour s) (Fin 2)) / (Fin 1 + Fin 1.1811 * water_vapour s + Fin 1.0699
      * fpow (water_vapour s) (Fin 2))"

definition c3 :: "fl args \<Rightarrow> fl" where
  \<comment> \<open>line 180\<close>
  "c3 s = water_vapour s * (Fin 21.286 - Fin 0.39232 * water_vapour s + Fin 1.2692
      * fpow (water_vapour s) (Fin 2)) / (Fin 1 + Fin 4.8318 * water_vapour s + Fin 1.412
      * fpow (water_vapour s) (Fin 2))"

definition c4 :: "fl args \<Rightarrow> fl" where
  \<comment> \<open>line 182\<close>
  "c4 s = water_vapour s * (Fin 0.70992 - Fin 0.23155 * water_vapour s + Fin 0.096514
      * fpow (water_vapour s) (Fin 2)) / (Fin 1 + Fin 0.44907 * water_vapour s + Fin 0.75425
      * fpow (water_vapour s) (Fin 2))"

definition Tw2 :: "fl args \<Rightarrow> fl" where
  \<comment> \<open>line 184\<close>
  "Tw2 s = (Fin 1 + c1 s * amw s + c2 s * fpow (amw s) (Fin 2)) / (Fin 1 + c3 s * amw s + c4 s
      * fpow (amw s) (Fin 2))"

definition Tw2166 :: "fl args \<Rightarrow> fl" where
  \<comment> \<open>line 185\<close>
  "Tw2166 s = (Fin 1 + c1 s * Fin 1.66 + c2 s * fpow (Fin 1.66) (Fin 2)) / (Fin 1 + c3 s
      * Fin 1.66 + c4 s * fpow (Fin 1.66) (Fin 2))"

definition AB2 :: "fl args \<Rightarrow> fl" where
  \<comment> \<open>line 188\<close>
  "AB2 s = ang_beta s"

definition alph2 :: "fl args \<Rightarrow> fl" where
  \<comment> \<open>line 189\<close>
  "alph2 s = Angstrom_exponent s"

definition e0 :: "fl args \<Rightarrow> fl" where
  \<comment> \<open>line 190\<close>
  "e0 s = (Fin 1.183 - Fin 0.022989 * alph2 s + Fin 0.020829 * fpow (alph2 s) (Fin 2)) / (Fin 1
      + Fin 0.11133 * alph2 s)"

definition e1 :: "fl args \<Rightarrow> fl" where
  \<comment> \<open>line 191\<close>
  "e1 s = (Fin (- 0.50003) - Fin 0.18329 * alph2 s + Fin 0.23835 * fpow (alph2 s) (Fin 2))
      / (Fin 1 + Fin 1.6756 * alph2 s)"

definition e2 :: "fl args \<Rightarrow> fl" where
  \<comment> \<open>line 192\<close>
  "e2 s = (Fin (- 0.50001) + Fin 1.1414 * alph2 s + Fin 0.0083589 * fpow (alph2 s) (Fin 2))
      / (Fin 1 + Fin 11.168 * alph2 s)"

definition e3 :: "fl args \<Rightarrow> fl" where
  \<comment> \<open>line 193\<close>
  "e3 s = (Fin (- 0.70003) - Fin 0.73587 * alph2 s + Fin 0.51509 * fpow (alph2 s) (Fin 2))
      / (Fin 1 + Fin 4.7665 * alph2 s)"

definition ua2 :: "fl args \<Rightarrow> fl" where
  \<comment> \<open>line 194\<close>
  "ua2 s = flog (Fin 1 + ama s * AB2 s)"

definition lam2 :: "fl args \<Rightarrow> fl" where
  \<comment> \<open>line 195\<close>
  "lam2 s = (e0 s + e1 s * ua2 s + e2 s * fpow (ua2 s) (Fin 2)) / (Fin 1 + e3 s * ua2 s)"

definition lam2_temp :: "fl args \<Rightarrow> cfl" where
  \<comment> \<open>line 198\<close>
  "lam2_temp s = c_of_fl (lam2 s)"

definition ta2 :: "fl args \<Rightarrow> fl" where
  \<comment> \<open>line 199\<close>
  "ta2 s = cabs (c_of_fl (AB2 s) * cpow (lam2_temp s) (Fin (- 1) * alph2 s))"

definition TA2 :: "fl args \<Rightarrow> fl" where
  \<comment> \<open>line 200\<close>
  "TA2 s = fexp (Fin (- 1) * ama s * ta2 s)"

definition TAS2 :: "fl args \<Rightarrow> fl" where
  \<comment> \<open>line 201\<close>
  "TAS2 s = fexp (Fin (- 1) * ama s * Fin 0.84 * ta2 s)"

definition BR2 :: "fl args \<Rightarrow> fl" where
  \<comment> \<open>line 204\<close>
  "BR2 s = Fin 0.5"

definition Ba :: "fl args \<Rightarrow> fl" where
  \<comment> \<open>line 206\<close>
  "Ba s = Fin 1 - fexp (Fin (- 0.6931) - Fin 1.8326 * fcos (zenith_angle s))"

definition h0 :: "fl args \<Rightarrow> fl" where
  \<comment> \<open>line 209\<close>
  "h0 s = (Fin 3.4352 + Fin 0.65267 * ama s + Fin 0.00034328 * fpow (ama s) (Fin 2)) / (Fin 1
      + Fin 0.034388 * fpow (ama s) (Fin 1.5))"

definition h1_F2 :: "fl args \<Rightarrow> fl" where
  \<comment> \<open>line 210\<close>
  "h1_F2 s = (Fin 1.231 - Fin 1.63853 * ama s + Fin 0.20667 * fpow (ama s) (Fin 2)) / (Fin 1
      + Fin 0.1451 * fpow (ama s) (Fin 1.5))"

definition h2_F2 :: "fl args \<Rightarrow> fl" where
  \<comment> \<open>line 211\<close>
  "h2_F2 s = (Fin 0.8889 - Fin 0.55063 * ama s + Fin 0.50152 * fpow (ama s) (Fin 2)) / (Fin 1
      + Fin 0.14865 * fpow (ama s) (Fin 1.5))"

definition F2 :: "fl args \<Rightarrow> fl" where
  \<comment> \<open>line 212\<close>
  "F2 s = (h0 s + h1_F2 s * ta2 s) / (Fin 1 + h2_F2 s * ta2 s)"

definition rs2 :: "fl args \<Rightarrow> fl" where
  \<comment> \<open>line 215\<close>
  "rs2 s = (Fin 0.010191 + Fin 0.00085547 * alph2 s + AB2 s * (Fin 0.14618 + Fin 0.062758
      * alph2 s) / (Fin 1 - Fin 0.19402 * alph2 s)) / (Fin 1 + AB2 s * (Fin 0.58101
      + Fin 0.17426 * alph2 s) / (Fin 1 - Fin 0.17586 * alph2 s))"

definition E0n1 :: "fl args \<Rightarrow> fl" where
  \<comment> \<open>line 219\<close>
  "E0n1 s = Eext s * Fin 0.46512"

definition Ebn1 :: "fl args \<Rightarrow> fl" where
  \<comment> \<open>line 221\<close>
  "Ebn1 s = E0n1 s * TR1 s * Tg1 s * To1 s * Tn1 s * Tw1 s * TA1 s"

definition Edp1 :: "fl args \<Rightarrow> fl" where
  \<comment> \<open>line 224\<close>
  "Edp1 s = E0n1 s * fcos (zenith_angle s) * To1 s * Tg1 s * Tn1166 s * Tw1166 s * (BR1 s
      * (Fin 1 - TR1 s) * fpow (TA1 s) (Fin 0.25) + Ba s * F1 s * TR1 s * (Fin 1
      - fpow (TAS1 s) (Fin 0.25)))"

definition Edd1 :: "fl args \<Rightarrow> fl" where
  \<comment> \<open>line 227\<close>
  "Edd1 s = rg s * rs1 s * (Ebn1 s * fcos (zenith_angle s) + Edp1 s) / (Fin 1 - rg s * rs1 s)"

definition E0n2 :: "fl args \<Rightarrow> fl" where
  \<comment> \<open>line 230\<close>
  "E0n2 s = Eext s * Fin 0.51951"

definition Ebn2 :: "fl args \<Rightarrow> fl" where
  \<comment> \<open>line 232\<close>
  "Ebn2 s = E0n2 s * TR2 s * Tg2 s * To2 s * Tn2 s * Tw2 s * TA2 s"

definition Edp2 :: "fl args \<Rightarrow> fl" where
  \<comment> \<open>line 234\<close>
  "Edp2 s = E0n2 s * fcos (zenith_angle s) * To2 s * Tg2 s * Tn2166 s * Tw2166 s * (BR2 s
      * (Fin 1 - TR2 s) * fpow (TA2 s) (Fin 0.25) + Ba s * F2 s * TR2 s * (Fin 1
      - fpow (TAS2 s) (Fin 0.25)))"

definition Edd2 :: "fl args \<Rightarrow> fl" where
  \<comment> \<open>line 237\<close>
  "Edd2 s = rg s * rs2 s * (Ebn2 s * fcos (zenith_angle s) + Edp2 s) / (Fin 1 - rg s * rs2 s)"

text \<open>
  Lines 240 to 261 assign \<^verbatim>\<open>Ebh\<close>, \<^verbatim>\<open>dni\<close>, \<^verbatim>\<open>dhi\<close> and \<^verbatim>\<open>ghi\<close> and then overwrite
  them through boolean masks. Each state of a variable has a definition of its own:
  the index 0 is the value first assigned, 1 the value after the zenith mask of lines
  243 to 248, 2 the value after the negative elements became NaN (lines 255 to 257),
  and the name without index is the value returned, after the NaN elements became
  zero (lines 259 to 261).
\<close>

definition night :: "fl args \<Rightarrow> bool" where
  \<comment> \<open>the mask \<^verbatim>\<open>np.rad2deg(zenith_angle) > 90\<close> of lines 243, 244 and 248\<close>
  "night s \<longleftrightarrow> rad2deg (zenith_angle s) > Fin 90"

definition Ebh0 :: "fl args \<Rightarrow> fl" where
  \<comment> \<open>line 240\<close>
  "Ebh0 s = (Ebn1 s + Ebn2 s) * fcos (zenith_angle s)"

definition dni0 :: "fl args \<Rightarrow> fl" where
  \<comment> \<open>line 241\<close>
  "dni0 s = Ebn1 s + Ebn2 s"

definition dni1 :: "fl args \<Rightarrow> fl" where
  \<comment> \<open>line 243\<close>
  "dni1 s = (if night s then Fin 0 else dni0 s)"

definition Ebh1 :: "fl args \<Rightarrow> fl" where
  \<comment> \<open>line 244\<close>
  "Ebh1 s = (if night s then Fin 0 else Ebh0 s)"

definition dhi0 :: "fl args \<Rightarrow> fl" where
  \<comment> \<open>line 247\<close>
  "dhi0 s = Edp1 s + Edd1 s + Edp2 s + Edd2 s"

definition dhi1 :: "fl args \<Rightarrow> fl" where
  \<comment> \<open>line 248\<close>
  "dhi1 s = (if night s then Fin 0 else dhi0 s)"

definition ghi0 :: "fl args \<Rightarrow> fl" where
  \<comment> \<open>line 251\<close>
  "ghi0 s = Ebh1 s + dhi1 s"

definition lower :: fl where
  \<comment> \<open>line 254\<close>
  "lower = Fin 0"

definition ghi2 :: "fl args \<Rightarrow> fl" where
  \<comment> \<open>line 255\<close>
  "ghi2 s = (if ghi0 s < lower then NaN else ghi0 s)"

definition dni2 :: "fl args \<Rightarrow> fl" where
  \<comment> \<open>line 256\<close>
  "dni2 s = (if dni1 s < lower then NaN else dni1 s)"

definition dhi2 :: "fl args \<Rightarrow> fl" where
  \<comment> \<open>line 257\<close>
  "dhi2 s = (if dhi1 s < lower then NaN else dhi1 s)"

definition ghi :: "fl args \<Rightarrow> fl" where
  \<comment> \<open>line 259\<close>
  "ghi s = (if isnan (ghi2 s) then Fin 0 else ghi2 s)"

definition dni :: "fl args \<Rightarrow> fl" where
  \<comment> \<open>line 260\<close>
  "dni s = (if isnan (dni2 s) then Fin 0 else dni2 s)"

definition dhi :: "fl args \<Rightarrow> fl" where
  \<comment> \<open>line 261\<close>
  "dhi s = (if isnan (dhi2 s) then Fin 0 else dhi2 s)"



section \<open>\<^verbatim>\<open>clear_sky_REST2V5\<close> on arrays\<close>

text \<open>
  \<open>elem a i j\<close> collects the elements at row \<open>i\<close>, column \<open>j\<close> of the nine arrays;
  \<open>elementwise f a\<close> is the array of the values of \<open>f\<close> at every position, in the
  shape of the zenith array. The model covers calls whose nine arrays have one shape
  (\<open>same_shape\<close>), as \<^verbatim>\<open>REST2v5\<close> makes them; numpy's broadcasting of different
  shapes is not modelled.

  The function returns the list \<^verbatim>\<open>[ghi, dni, dhi]\<close>. Lines 60 to 71 assign into the
  caller's arrays, so the model returns the argument arrays as they stand after the
  call as well, in the first component.
\<close>

definition elem :: "ndarray args \<Rightarrow> nat \<Rightarrow> nat \<Rightarrow> fl args" where
  "elem a i j =
     \<lparr> zenith_angle = zenith_angle a ! i ! j,
       Eext = Eext a ! i ! j,
       pressure = pressure a ! i ! j,
       water_vapour = water_vapour a ! i ! j,
       ozone = ozone a ! i ! j,
       nitrogen_dioxide = nitrogen_dioxide a ! i ! j,
       AOD550 = AOD550 a ! i ! j,
       Angstrom_exponent = Angstrom_exponent a ! i ! j,
       surface_albedo = surface_albedo a ! i ! j \<rparr>"

definition elementwise :: "(fl args \<Rightarrow> fl) \<Rightarrow> ndarray args \<Rightarrow> ndarray" where
  "elementwise f a =
     map (\<lambda>i. map (\<lambda>j. f (elem a i j)) [0..<length (zenith_angle a ! i)])
       [0..<length (zenith_angle a)]"

definition shape_of :: "ndarray \<Rightarrow> nat list" where
  "shape_of x = map length x"

definition same_shape :: "ndarray args \<Rightarrow> bool" where
  "same_shape a \<longleftrightarrow>
     (\<forall>x \<in> set [Eext a, pressure a, water_vapour a, ozone a, nitrogen_dioxide a,
                 AOD550 a, Angstrom_exponent a, surface_albedo a].
        shape_of x = shape_of (zenith_angle a))"

definition clear_sky_REST2V5 ::
  "ndarray args \<Rightarrow> ndarray args \<times> ndarray \<times> ndarray \<times> ndarray" where
  "clear_sky_REST2V5 a0 =
     (let a = clamp_inputs a0
      in (a, elementwise ghi a, elementwise dni a, elementwise dhi a))"

definition args_after :: "ndarray args \<times> ndarray \<times> ndarray \<times> ndarray \<Rightarrow> ndarray args" where
  "args_after r = fst r"

definition ghi_of :: "ndarray args \<times> ndarray \<times> ndarray \<times> ndarray \<Rightarrow> ndarray" where
  "ghi_of r = fst (snd r)"

definition dni_of :: "ndarray args \<times> ndarray \<times> ndarray \<times> ndarray \<Rightarrow> ndarray" where
  "dni_of r = fst (snd (snd r))"

definition dhi_of :: "ndarray args \<times> ndarray \<times> ndarray \<times> ndarray \<Rightarrow> ndarray" where
  "dhi_of r = snd (snd (snd r))"

section \<open>The constructor\<close>

text \<open>
  \<^verbatim>\<open>__init__\<close> takes the coordinates as arrays of any shape: an array is its shape and
  its elements in storage order. The two explicit \<^verbatim>\<open>raise\<close> statements for the range
  of the coordinates and the one for the shapes are errors of their own; numpy itself
  raises \<^verbatim>\<open>ValueError\<close> when \<^verbatim>\<open>np.max\<close> reduces an empty array (lines 13 and 15) and
  when \<^verbatim>\<open>reshape\<close> is given a shape of another size (lines 19 to 21).
\<close>

datatype error = LatLonNotMatch | LatitudeRange | LongitudeRange | ValueError

record coord_array =
  shape :: "nat list"
  vals :: "fl list"

type_synonym timestamp = int

record model =
  self_lat :: "fl list"
  self_lon :: "fl list"
  self_elev :: ndarray
  self_time :: "timestamp list list"
  self_datadir :: string
  pandas_output :: bool

text \<open>\<^verbatim>\<open>np.max\<close> hands a NaN on and has no value on an empty array.\<close>

definition maximum :: "fl \<Rightarrow> fl \<Rightarrow> fl" where
  "maximum x y = (if isnan x \<or> isnan y then NaN else if x < y then y else x)"

fun np_max :: "fl list \<Rightarrow> error + fl" where
  "np_max [] = Inl ValueError"
| "np_max (x # xs) = Inr (fold (\<lambda>y m. maximum m y) xs x)"

definition reshape_ok :: "coord_array \<Rightarrow> nat \<Rightarrow> bool" where
  "reshape_ok x n \<longleftrightarrow> length (vals x) = n"

definition ClearSkyREST2v5 ::
  "coord_array \<Rightarrow> coord_array \<Rightarrow> coord_array \<Rightarrow> timestamp list list \<Rightarrow> string \<Rightarrow> bool
     \<Rightarrow> error + model" where
  "ClearSkyREST2v5 lat lon elev time datadir pandas =
     (if shape lat \<noteq> shape lon then Inl LatLonNotMatch
      else case np_max (map abs (vals lat)) of
        Inl e \<Rightarrow> Inl e
      | Inr mlat \<Rightarrow>
          if mlat > Fin 90 then Inl LatitudeRange
          else case np_max (map abs (vals lon)) of
            Inl e \<Rightarrow> Inl e
          | Inr mlon \<Rightarrow>
              if mlon > Fin 180 then Inl LongitudeRange
              else let station_num = length (vals lat) in
                if \<not> reshape_ok lat station_num then Inl ValueError
                else if \<not> reshape_ok lon station_num then Inl ValueError
                else if \<not> reshape_ok elev station_num then Inl ValueError
                else Inr \<lparr> self_lat = vals lat, self_lon = vals lon,
                           self_elev = map (\<lambda>e. [e]) (vals elev), self_time = time,
                           self_datadir = datadir, pandas_output = pandas \<rparr>)"

text \<open>
  Coordinate and elevation arrays as a caller with at least one station and no missing
  value passes them. A numpy array holds as many elements as the product of its shape;
  the coordinate arrays are not empty and hold no NaN; the elevation array has as many
  elements as the latitude array. Nothing relates the latitude array to the longitude
  array: their shapes may differ.
\<close>

definition well_formed :: "coord_array \<Rightarrow> coord_array \<Rightarrow> coord_array \<Rightarrow> bool" where
  "well_formed lat lon elev \<longleftrightarrow>
     length (vals lat) = prod_list (shape lat) \<and> length (vals lon) = prod_list (shape lon) \<and>
     vals lat \<noteq> [] \<and> (\<forall>x \<in> set (vals lat). \<not> isnan x) \<and> (\<forall>x \<in> set (vals lon). \<not> isnan x) \<and>
     length (vals elev) = length (vals lat)"

section \<open>\<^verbatim>\<open>REST2v5\<close>: one batch or one call for each site\<close>
























text \<open>
  The real-domain computation of an air mass that the specification allows in place
  of the complex-valued path, for a zenith angle \<open>\<theta>\<close> in radians and the fitted
  coefficients \<open>a\<close>, \<open>b\<close>, \<open>c\<close>, \<open>d\<close>: below \<open>c\<close> degrees the base \<open>c - \<theta>deg\<close> is
  positive and the magnitude is that of a real number; above, the power of the negative
  base has the argument \<open>pi * d\<close>, and the magnitude is that of a complex number given
  by its real and imaginary part.
\<close>

definition air_mass_den :: "real \<Rightarrow> real \<Rightarrow> real \<Rightarrow> real \<Rightarrow> real \<Rightarrow> real" where
  "air_mass_den a b c d \<theta> =
     (let t = \<theta> * 180 / pi;
          r = a * t powr b / \<bar>c - t\<bar> powr d
      in if t < c then \<bar>cos \<theta> + r\<bar>
         else sqrt ((cos \<theta> + r * cos (pi * d))\<^sup>2 + (r * sin (pi * d))\<^sup>2))"

definition air_mass_real :: "real \<Rightarrow> real \<Rightarrow> real \<Rightarrow> real \<Rightarrow> real \<Rightarrow> real" where
  "air_mass_real a b c d \<theta> = 1 / air_mass_den a b c d \<theta>"

text \<open>
  A call on arrays of one row and two columns. The first column is the boundary
  scenario of the specification (sun at the zenith); the second is a night element
  (zenith angle 2 rad) with the pressure, the water vapour and the Angstrom exponent
  out of range.
\<close>

definition sample :: "ndarray args" where
  "sample =
     \<lparr> zenith_angle = [[Fin 0, Fin 2]],
       Eext = [[Fin 1361, Fin 1361]],
       pressure = [[Fin 1013.25, Fin 2000]],
       water_vapour = [[Fin 1.42, Fin (- 1)]],
       ozone = [[Fin 0.34, Fin 0.34]],
       nitrogen_dioxide = [[Fin 0.0002, Fin 0.0002]],
       AOD550 = [[Fin 0.1, Fin 0.1]],
       Angstrom_exponent = [[Fin 1.3, Fin 5]],
       surface_albedo = [[Fin 0.2, Fin 0.2]] \<rparr>"

text \<open>
  A call at noon under a clean, dry atmosphere with an extraterrestrial irradiance of
  positive infinity, and the elements of its arrays after clamping.
\<close>

definition unbounded_sun :: "ndarray args" where
  "unbounded_sun =
     \<lparr> zenith_angle = [[Fin 0]],
       Eext = [[PInf]],
       pressure = [[Fin 1013.25]],
       water_vapour = [[Fin 0]],
       ozone = [[Fin 0]],
       nitrogen_dioxide = [[Fin 0]],
       AOD550 = [[Fin 0]],
       Angstrom_exponent = [[Fin 0]],
       surface_albedo = [[Fin 0]] \<rparr>"

definition s2 :: "fl args" where
  "s2 = \<lparr> zenith_angle = Fin 0, Eext = PInf, pressure = Fin 1013.25, water_vapour = Fin 0,
       ozone = Fin 0, nitrogen_dioxide = Fin 0, AOD550 = Fin 0, Angstrom_exponent = Fin 0,
       surface_albedo = Fin 0 \<rparr>"

text \<open>
  A call at the nadir of the sun (zenith angle \<open>pi\<close>, 180 degrees) under a dry
  atmosphere with a heavy load of coarse aerosol (optical depth 1.1, Angstrom exponent
  0) over black ground, and the elements of its arrays after clamping.
\<close>

definition dust_night :: "ndarray args" where
  "dust_night =
     \<lparr> zenith_angle = [[Fin pi]],
       Eext = [[Fin 1361]],
       pressure = [[Fin 1013.25]],
       water_vapour = [[Fin 0]],
       ozone = [[Fin 0]],
       nitrogen_dioxide = [[Fin 0]],
       AOD550 = [[Fin 1.1]],
       Angstrom_exponent = [[Fin 0]],
       surface_albedo = [[Fin 0]] \<rparr>"

definition s1 :: "fl args" where
  "s1 = \<lparr> zenith_angle = Fin pi, Eext = Fin 1361, pressure = Fin 1013.25, water_vapour = Fin 0,
       ozone = Fin 0, nitrogen_dioxide = Fin 0, AOD550 = Fin 1.1, Angstrom_exponent = Fin 0,
       surface_albedo = Fin 0 \<rparr>"

text \<open>
  A call by day on one row of two columns: the sun 60 degrees from the zenith under a
  pressure of 900 mb, and the sun at the nadir (180 degrees, above every fitted
  coefficient \<open>c\<close>) with a pressure out of range.
\<close>

definition slant :: "ndarray args" where
  "slant =
     \<lparr> zenith_angle = [[Fin (pi / 3), Fin pi]],
       Eext = [[Fin 1361, Fin 1361]],
       pressure = [[Fin 900, Fin 2000]],
       water_vapour = [[Fin 1.42, Fin 1.42]],
       ozone = [[Fin 0.34, Fin 0.34]],
       nitrogen_dioxide = [[Fin 0.0002, Fin 0.0002]],
       AOD550 = [[Fin 0.1, Fin 0.1]],
       Angstrom_exponent = [[Fin 1.3, Fin 1.3]],
       surface_albedo = [[Fin 0.2, Fin 0.2]] \<rparr>"

text \<open>
  A call with a missing value: the pressure and the aerosol optical depth of the only
  element are NaN.
\<close>

definition gap :: "ndarray args" where
  "gap =
     \<lparr> zenith_angle = [[Fin 0]],
       Eext = [[Fin 1361]],
       pressure = [[NaN]],
       water_vapour = [[Fin 1.42]],
       ozone = [[Fin 0.34]],
       nitrogen_dioxide = [[Fin 0.0002]],
       AOD550 = [[NaN]],
       Angstrom_exponent = [[Fin 1.3]],
       surface_albedo = [[Fin 0.2]] \<rparr>"

text \<open>
  A call with the zenith angle \<open>- pi\<close> under a clean, dry atmosphere over black ground,
  and the elements of its arrays after clamping. The angle is not above 90 degrees, so
  that the masks of lines 243 to 248 leave the element alone, and its cosine is negative.
\<close>

definition negative_zenith :: "ndarray args" where
  "negative_zenith =
     \<lparr> zenith_angle = [[Fin (- pi)]],
       Eext = [[Fin 1361]],
       pressure = [[Fin 1013.25]],
       water_vapour = [[Fin 0]],
       ozone = [[Fin 0]],
       nitrogen_dioxide = [[Fin 0]],
       AOD550 = [[Fin 0]],
       Angstrom_exponent = [[Fin 0]],
       surface_albedo = [[Fin 0]] \<rparr>"

definition s3 :: "fl args" where
  "s3 = \<lparr> zenith_angle = Fin (- pi), Eext = Fin 1361, pressure = Fin 1013.25, water_vapour = Fin 0,
       ozone = Fin 0, nitrogen_dioxide = Fin 0, AOD550 = Fin 0, Angstrom_exponent = Fin 0,
       surface_albedo = Fin 0 \<rparr>"

section \<open>Valid elements and values that are not infinite\<close>

text \<open>
  The arguments at one position are valid when each of the nine is a finite number and
  the zenith angle is not negative (the solar geometry gives an angle between 0 and 180
  degrees). A value is free of infinity when it is a finite number or NaN; it is not
  negative when it is NaN, a non-negative number or the positive infinity.
\<close>

definition valid_element :: "fl args \<Rightarrow> bool" where
  "valid_element s \<longleftrightarrow>
     isfinite (zenith_angle s) \<and> Fin 0 \<le> zenith_angle s \<and> isfinite (Eext s) \<and>
     isfinite (pressure s) \<and> isfinite (water_vapour s) \<and> isfinite (ozone s) \<and>
     isfinite (nitrogen_dioxide s) \<and> isfinite (AOD550 s) \<and> isfinite (Angstrom_exponent s) \<and>
     isfinite (surface_albedo s)"

definition no_inf :: "fl \<Rightarrow> bool" where
  "no_inf x \<longleftrightarrow> x \<noteq> PInf \<and> x \<noteq> NInf"

definition not_neg :: "fl \<Rightarrow> bool" where
  "not_neg x \<longleftrightarrow> isnan x \<or> Fin 0 \<le> x"

section \<open>Basic facts on the element operations\<close>

lemmas fl_ops =
  zero_fl_def one_fl_def plus_fl_def uminus_fl_def minus_fl_def times_fl_def
  divide_fl_def inverse_fl_def abs_fl_def less_fl_def less_eq_fl_def

lemmas cfl_ops =
  plus_cfl_def minus_cfl_def times_cfl_def divide_cfl_def inverse_cfl_def

section \<open>Clamping\<close>

lemma clamp_Fin:
  "clamp (Fin hi) (Fin lo) (Fin x) =
     Fin (if (if hi < x then hi else x) < lo then lo else (if hi < x then hi else x))"
  by (simp add: clamp_def Let_def fl_ops)

lemma clamp_special [simp]:
  "clamp (Fin hi) (Fin lo) NaN = NaN"
  "clamp (Fin hi) (Fin lo) PInf = Fin (if hi < lo then lo else hi)"
  "clamp (Fin hi) (Fin lo) NInf = Fin lo"
  by (simp_all add: clamp_def Let_def fl_ops)

lemma clamp_idem:
  "clamp (Fin hi) (Fin lo) (clamp (Fin hi) (Fin lo) x) = clamp (Fin hi) (Fin lo) x"
  by (cases x) (auto simp: clamp_Fin)

lemma clamp_noop:
  "Fin lo \<le> x \<Longrightarrow> x \<le> Fin hi \<Longrightarrow> clamp (Fin hi) (Fin lo) x = x"
  by (cases x) (auto simp: clamp_Fin fl_ops)

lemma clamp_array_idem:
  "clamp_array (Fin hi) (Fin lo) (clamp_array (Fin hi) (Fin lo) a) = clamp_array (Fin hi) (Fin lo) a"
  by (simp add: clamp_array_def clamp_idem comp_def)

lemma clamp_array_noop:
  "all_within (Fin lo) (Fin hi) a \<Longrightarrow> clamp_array (Fin hi) (Fin lo) a = a"
  unfolding clamp_array_def all_within_def
  by (simp add: map_idI clamp_noop)

lemma clamp_inputs_idem: "clamp_inputs (clamp_inputs a) = clamp_inputs a"
  by (simp add: clamp_inputs_def clamp_array_idem)

lemma clamp_inputs_noop: "in_bounds a \<Longrightarrow> clamp_inputs a = a"
  by (simp add: clamp_inputs_def in_bounds_def clamp_array_noop)


text \<open>
  C6: clamping a field whose elements all lie within the documented bound changes
  nothing, field by field, and clamping twice is clamping once.
\<close>

theorem clamp_inputs_idempotent:
  "(all_within (Fin 0) (Fin 2.5) (Angstrom_exponent a) \<longrightarrow>
      Angstrom_exponent (clamp_inputs a) = Angstrom_exponent a) \<and>
   (all_within (Fin 300) (Fin 1100) (pressure a) \<longrightarrow> pressure (clamp_inputs a) = pressure a) \<and>
   (all_within (Fin 0) (Fin 10) (water_vapour a) \<longrightarrow>
      water_vapour (clamp_inputs a) = water_vapour a) \<and>
   (all_within (Fin 0) (Fin 0.6) (ozone a) \<longrightarrow> ozone (clamp_inputs a) = ozone a) \<and>
   (all_within (Fin 0) (Fin 0.03) (nitrogen_dioxide a) \<longrightarrow>
      nitrogen_dioxide (clamp_inputs a) = nitrogen_dioxide a) \<and>
   (all_within (Fin 0) (Fin 1) (surface_albedo a) \<longrightarrow>
      surface_albedo (clamp_inputs a) = surface_albedo a) \<and>
   (in_bounds a \<longrightarrow> clamp_inputs a = a) \<and>
   clamp_inputs (clamp_inputs a) = clamp_inputs a \<and>
   (\<forall>hi lo x. clamp (Fin hi) (Fin lo) (clamp (Fin hi) (Fin lo) x) = clamp (Fin hi) (Fin lo) x)"
  by (simp add: clamp_inputs_def clamp_array_noop clamp_array_idem clamp_idem in_bounds_def)

theorem clamp_inputs_idempotent_witness:
  "in_bounds (clamp_inputs sample) \<and>
   all_within (Fin 300) (Fin 1100) (pressure (clamp_inputs sample)) \<and>
   clamp_inputs (clamp_inputs sample) = clamp_inputs sample \<and>
   pressure (clamp_inputs (clamp_inputs sample)) = [[Fin 1013.25, Fin 1100]]"
proof -
  have b: "in_bounds (clamp_inputs sample)"
    by (simp add: in_bounds_def all_within_def clamp_inputs_def clamp_array_def sample_def
        clamp_Fin fl_ops)
  have p: "pressure (clamp_inputs sample) = [[Fin 1013.25, Fin 1100]]"
    by (simp add: clamp_inputs_def clamp_array_def sample_def clamp_Fin)
  from b have w: "all_within (Fin 300) (Fin 1100) (pressure (clamp_inputs sample))"
    by (simp add: in_bounds_def)
  from clamp_inputs_idempotent [of "clamp_inputs sample"] b w p show ?thesis
    by simp
qed


section \<open>Arrays, masks and the quality control\<close>


lemma length_elementwise_row:
  "i < length (zenith_angle a) \<Longrightarrow> length (elementwise f a ! i) = length (zenith_angle a ! i)"
  by (simp add: elementwise_def)

lemma nth_elementwise:
  "i < length (zenith_angle a) \<Longrightarrow> j < length (zenith_angle a ! i) \<Longrightarrow>
     elementwise f a ! i ! j = f (elem a i j)"
  by (simp add: elementwise_def)

lemma clamp_inputs_simps:
  "zenith_angle (clamp_inputs a) = zenith_angle a"
  "Eext (clamp_inputs a) = Eext a"
  "AOD550 (clamp_inputs a) = AOD550 a"
  "Angstrom_exponent (clamp_inputs a) = clamp_array (Fin 2.5) (Fin 0) (Angstrom_exponent a)"
  "pressure (clamp_inputs a) = clamp_array (Fin 1100) (Fin 300) (pressure a)"
  "water_vapour (clamp_inputs a) = clamp_array (Fin 10) (Fin 0) (water_vapour a)"
  "ozone (clamp_inputs a) = clamp_array (Fin 0.6) (Fin 0) (ozone a)"
  "nitrogen_dioxide (clamp_inputs a) = clamp_array (Fin 0.03) (Fin 0) (nitrogen_dioxide a)"
  "surface_albedo (clamp_inputs a) = clamp_array (Fin 1) (Fin 0) (surface_albedo a)"
  by (simp_all add: clamp_inputs_def)

lemma nth_clamp_array:
  "i < length x \<Longrightarrow> j < length (x ! i) \<Longrightarrow> clamp_array hi lo x ! i ! j = clamp hi lo (x ! i ! j)"
  by (simp add: clamp_array_def)

lemma shape_of_clamp_array: "shape_of (clamp_array hi lo x) = shape_of x"
  by (simp add: shape_of_def clamp_array_def)

lemma shape_of_index:
  "shape_of x = shape_of z \<Longrightarrow> i < length z \<Longrightarrow> j < length (z ! i) \<Longrightarrow>
     i < length x \<and> j < length (x ! i)"
  unfolding shape_of_def
  by (metis length_map nth_map)

lemma same_shape_clamp_inputs: "same_shape (clamp_inputs a) = same_shape a"
  by (simp add: same_shape_def clamp_inputs_simps shape_of_clamp_array)

lemma clamp_bounds:
  "lo \<le> hi \<Longrightarrow> \<not> isnan x \<Longrightarrow> Fin lo \<le> clamp (Fin hi) (Fin lo) x \<and> clamp (Fin hi) (Fin lo) x \<le> Fin hi"
  by (cases x) (auto simp: clamp_Fin fl_ops)

lemma clamp_cases:
  "clamp (Fin hi) (Fin lo) x =
     (if x > Fin hi then (if hi < lo then Fin lo else Fin hi) else if x < Fin lo then Fin lo else x)"
  by (cases x) (auto simp: clamp_Fin fl_ops)

text \<open>quality control\<close>

lemma ghi_qc: "ghi s = (if ghi0 s < Fin 0 \<or> isnan (ghi0 s) then Fin 0 else ghi0 s)"
  by (cases "ghi0 s") (auto simp: ghi_def ghi2_def lower_def fl_ops)

lemma dni_qc: "dni s = (if dni1 s < Fin 0 \<or> isnan (dni1 s) then Fin 0 else dni1 s)"
  by (cases "dni1 s") (auto simp: dni_def dni2_def lower_def fl_ops)

lemma dhi_qc: "dhi s = (if dhi1 s < Fin 0 \<or> isnan (dhi1 s) then Fin 0 else dhi1 s)"
  by (cases "dhi1 s") (auto simp: dhi_def dhi2_def lower_def fl_ops)

lemma qc_ok:
  fixes x :: fl
  defines "y \<equiv> (if x < Fin 0 \<or> isnan x then Fin 0 else x)"
  shows "\<not> isnan y \<and> \<not> y < Fin 0 \<and> (y = PInf \<or> (\<exists>r\<ge>0. y = Fin r))"
  unfolding y_def by (cases x) (auto simp: fl_ops)

lemma night_dni: "night s \<Longrightarrow> dni s = Fin 0"
  by (simp add: dni_qc dni1_def)

lemma night_dhi: "night s \<Longrightarrow> dhi s = Fin 0"
  by (simp add: dhi_qc dhi1_def)

lemma night_ghi: "night s \<Longrightarrow> ghi s = Fin 0"
  by (simp add: ghi_qc ghi0_def dhi1_def Ebh1_def fl_ops)

lemma night_elem:
  "night (elem (clamp_inputs a) i j) \<longleftrightarrow> rad2deg (zenith_angle a ! i ! j) > Fin 90"
  by (simp add: night_def elem_def clamp_inputs_simps)

lemma clear_sky_sel:
  "args_after (clear_sky_REST2V5 a) = clamp_inputs a"
  "ghi_of (clear_sky_REST2V5 a) = elementwise ghi (clamp_inputs a)"
  "dni_of (clear_sky_REST2V5 a) = elementwise dni (clamp_inputs a)"
  "dhi_of (clear_sky_REST2V5 a) = elementwise dhi (clamp_inputs a)"
  by (simp_all add: clear_sky_REST2V5_def args_after_def ghi_of_def dni_of_def dhi_of_def Let_def)

lemma out_nth:
  assumes "i < length (zenith_angle a)" "j < length (zenith_angle a ! i)"
  shows "ghi_of (clear_sky_REST2V5 a) ! i ! j = ghi (elem (clamp_inputs a) i j)"
    and "dni_of (clear_sky_REST2V5 a) ! i ! j = dni (elem (clamp_inputs a) i j)"
    and "dhi_of (clear_sky_REST2V5 a) ! i ! j = dhi (elem (clamp_inputs a) i j)"
  using assms by (simp_all add: clear_sky_sel nth_elementwise clamp_inputs_simps)

lemma rad2deg_2: "rad2deg (Fin 2) > Fin 90"
  using pi_less_4 by (simp add: rad2deg_def field_simps fl_ops)

lemma elem_clamped_fields:
  assumes "same_shape a" "i < length (zenith_angle a)" "j < length (zenith_angle a ! i)"
  shows "Angstrom_exponent (elem (clamp_inputs a) i j) = clamp (Fin 2.5) (Fin 0) (Angstrom_exponent a ! i ! j)"
    and "pressure (elem (clamp_inputs a) i j) = clamp (Fin 1100) (Fin 300) (pressure a ! i ! j)"
    and "water_vapour (elem (clamp_inputs a) i j) = clamp (Fin 10) (Fin 0) (water_vapour a ! i ! j)"
    and "ozone (elem (clamp_inputs a) i j) = clamp (Fin 0.6) (Fin 0) (ozone a ! i ! j)"
    and "nitrogen_dioxide (elem (clamp_inputs a) i j) = clamp (Fin 0.03) (Fin 0) (nitrogen_dioxide a ! i ! j)"
    and "surface_albedo (elem (clamp_inputs a) i j) = clamp (Fin 1) (Fin 0) (surface_albedo a ! i ! j)"
    and "zenith_angle (elem (clamp_inputs a) i j) = zenith_angle a ! i ! j"
    and "Eext (elem (clamp_inputs a) i j) = Eext a ! i ! j"
    and "AOD550 (elem (clamp_inputs a) i j) = AOD550 a ! i ! j"
proof -
  have sh: "shape_of x = shape_of (zenith_angle a)"
    if "x \<in> {Eext a, pressure a, water_vapour a, ozone a, nitrogen_dioxide a,
                 AOD550 a, Angstrom_exponent a, surface_albedo a}" for x
    using assms(1) that unfolding same_shape_def by auto
  have ix: "i < length x \<and> j < length (x ! i)"
    if "x \<in> {Eext a, pressure a, water_vapour a, ozone a, nitrogen_dioxide a,
                 AOD550 a, Angstrom_exponent a, surface_albedo a}" for x
    using shape_of_index [OF sh [OF that] assms(2,3)] .
  show "Angstrom_exponent (elem (clamp_inputs a) i j) = clamp (Fin 2.5) (Fin 0) (Angstrom_exponent a ! i ! j)"
    using ix [of "Angstrom_exponent a"] by (simp add: elem_def clamp_inputs_simps nth_clamp_array)
  show "pressure (elem (clamp_inputs a) i j) = clamp (Fin 1100) (Fin 300) (pressure a ! i ! j)"
    using ix [of "pressure a"] by (simp add: elem_def clamp_inputs_simps nth_clamp_array)
  show "water_vapour (elem (clamp_inputs a) i j) = clamp (Fin 10) (Fin 0) (water_vapour a ! i ! j)"
    using ix [of "water_vapour a"] by (simp add: elem_def clamp_inputs_simps nth_clamp_array)
  show "ozone (elem (clamp_inputs a) i j) = clamp (Fin 0.6) (Fin 0) (ozone a ! i ! j)"
    using ix [of "ozone a"] by (simp add: elem_def clamp_inputs_simps nth_clamp_array)
  show "nitrogen_dioxide (elem (clamp_inputs a) i j) = clamp (Fin 0.03) (Fin 0) (nitrogen_dioxide a ! i ! j)"
    using ix [of "nitrogen_dioxide a"] by (simp add: elem_def clamp_inputs_simps nth_clamp_array)
  show "surface_albedo (elem (clamp_inputs a) i j) = clamp (Fin 1) (Fin 0) (surface_albedo a ! i ! j)"
    using ix [of "surface_albedo a"] by (simp add: elem_def clamp_inputs_simps nth_clamp_array)
  show "zenith_angle (elem (clamp_inputs a) i j) = zenith_angle a ! i ! j"
    "Eext (elem (clamp_inputs a) i j) = Eext a ! i ! j"
    "AOD550 (elem (clamp_inputs a) i j) = AOD550 a ! i ! j"
    by (simp_all add: elem_def clamp_inputs_simps)
qed

lemma sample_shape:
  "same_shape sample" "0 < length (zenith_angle sample)"
  "0 < length (zenith_angle sample ! 0)" "Suc 0 < length (zenith_angle sample ! 0)"
  by (simp_all add: same_shape_def sample_def shape_of_def)

lemma sample_night: "rad2deg (zenith_angle sample ! 0 ! Suc 0) > Fin 90"
  using rad2deg_2 by (simp add: sample_def)

text \<open>
  C1 (as amended): at every position where the zenith angle exceeds 90 degrees the
  returned DNI is zero, the direct horizontal irradiance \<open>Ebh\<close> is zero, and line 248
  sets the DHI to zero by the same mask, so that the GHI is zero as well.
\<close>

theorem night_forces_zero:
  assumes "i < length (zenith_angle a)" "j < length (zenith_angle a ! i)"
    and "rad2deg (zenith_angle a ! i ! j) > Fin 90"
  shows "dni_of (clear_sky_REST2V5 a) ! i ! j = Fin 0 \<and>
         Ebh1 (elem (clamp_inputs a) i j) = Fin 0 \<and>
         dhi_of (clear_sky_REST2V5 a) ! i ! j = Fin 0 \<and>
         ghi_of (clear_sky_REST2V5 a) ! i ! j = Fin 0"
proof -
  have n: "night (elem (clamp_inputs a) i j)"
    using assms(3) by (simp add: night_elem)
  show ?thesis
    using n by (simp add: out_nth [OF assms(1,2)] night_dni night_dhi night_ghi Ebh1_def)
qed

theorem night_forces_zero_witness:
  "0 < length (zenith_angle sample) \<and> Suc 0 < length (zenith_angle sample ! 0) \<and>
   rad2deg (zenith_angle sample ! 0 ! Suc 0) > Fin 90 \<and>
   dni_of (clear_sky_REST2V5 sample) ! 0 ! Suc 0 = Fin 0 \<and>
   dhi_of (clear_sky_REST2V5 sample) ! 0 ! Suc 0 = Fin 0 \<and>
   ghi_of (clear_sky_REST2V5 sample) ! 0 ! Suc 0 = Fin 0"
  using night_forces_zero [OF sample_shape(2) sample_shape(4) sample_night]
    sample_shape sample_night by simp

text \<open>
  Whatever the arguments are, no element of the returned GHI, DNI and DHI is NaN or
  negative; each is a non-negative real number or the positive infinity, which lines 255
  to 261 leave alone.
\<close>

lemma outputs_never_negative_never_nan:
  assumes "i < length (zenith_angle a)" "j < length (zenith_angle a ! i)"
  shows "\<forall>x \<in> {ghi_of (clear_sky_REST2V5 a) ! i ! j, dni_of (clear_sky_REST2V5 a) ! i ! j,
                dhi_of (clear_sky_REST2V5 a) ! i ! j}.
           \<not> isnan x \<and> \<not> x < Fin 0 \<and> (x = PInf \<or> (\<exists>r\<ge>0. x = Fin r))"
  unfolding out_nth [OF assms] ghi_qc dni_qc dhi_qc
  using qc_ok [of "ghi0 (elem (clamp_inputs a) i j)"] qc_ok [of "dni1 (elem (clamp_inputs a) i j)"]
    qc_ok [of "dhi1 (elem (clamp_inputs a) i j)"]
  by simp

text \<open>
  C4: on arrays of one shape, each of GHI, DNI and DHI is replaced with zero where its
  own value before the quality control is negative (or NaN) and is left as it is
  elsewhere, whatever the other two are; the GHI tested is the sum formed before the DHI
  was floored. Lines 255 to 261 assign through masks and raise nothing: every position
  of the result holds a value.
\<close>

theorem negative_outputs_become_zero:
  assumes "same_shape a" "i < length (zenith_angle a)" "j < length (zenith_angle a ! i)"
  shows "ghi_of (clear_sky_REST2V5 a) ! i ! j =
           (let x = ghi0 (elem (clamp_inputs a) i j) in if x < Fin 0 \<or> isnan x then Fin 0 else x) \<and>
         dni_of (clear_sky_REST2V5 a) ! i ! j =
           (let x = dni1 (elem (clamp_inputs a) i j) in if x < Fin 0 \<or> isnan x then Fin 0 else x) \<and>
         dhi_of (clear_sky_REST2V5 a) ! i ! j =
           (let x = dhi1 (elem (clamp_inputs a) i j) in if x < Fin 0 \<or> isnan x then Fin 0 else x) \<and>
         ghi0 (elem (clamp_inputs a) i j) =
           Ebh1 (elem (clamp_inputs a) i j) + dhi1 (elem (clamp_inputs a) i j)"
  by (simp add: out_nth [OF assms(2,3)] ghi_qc dni_qc dhi_qc Let_def ghi0_def)

text \<open>
  C10: after a call the six clamped argument arrays hold the clamped values and the
  other three are unchanged; a second call on the arrays left by the first finds them
  clamped and returns the same. On \<open>sample\<close> the pressure array is changed.
\<close>

theorem inputs_mutated_in_place:
  "args_after (clear_sky_REST2V5 a) = clamp_inputs a \<and>
   Angstrom_exponent (args_after (clear_sky_REST2V5 a)) =
     map (map (clamp (Fin 2.5) (Fin 0))) (Angstrom_exponent a) \<and>
   pressure (args_after (clear_sky_REST2V5 a)) = map (map (clamp (Fin 1100) (Fin 300))) (pressure a) \<and>
   water_vapour (args_after (clear_sky_REST2V5 a)) =
     map (map (clamp (Fin 10) (Fin 0))) (water_vapour a) \<and>
   ozone (args_after (clear_sky_REST2V5 a)) = map (map (clamp (Fin 0.6) (Fin 0))) (ozone a) \<and>
   nitrogen_dioxide (args_after (clear_sky_REST2V5 a)) =
     map (map (clamp (Fin 0.03) (Fin 0))) (nitrogen_dioxide a) \<and>
   surface_albedo (args_after (clear_sky_REST2V5 a)) =
     map (map (clamp (Fin 1) (Fin 0))) (surface_albedo a) \<and>
   zenith_angle (args_after (clear_sky_REST2V5 a)) = zenith_angle a \<and>
   Eext (args_after (clear_sky_REST2V5 a)) = Eext a \<and>
   AOD550 (args_after (clear_sky_REST2V5 a)) = AOD550 a \<and>
   clear_sky_REST2V5 (args_after (clear_sky_REST2V5 a)) = clear_sky_REST2V5 a \<and>
   pressure sample = [[Fin 1013.25, Fin 2000]] \<and>
   pressure (args_after (clear_sky_REST2V5 sample)) = [[Fin 1013.25, Fin 1100]]"
proof -
  have "clear_sky_REST2V5 (clamp_inputs a) = clear_sky_REST2V5 a"
    by (simp add: clear_sky_REST2V5_def clamp_inputs_idem)
  moreover have "pressure (clamp_inputs sample) = [[Fin 1013.25, Fin 1100]]"
    by (simp add: clamp_inputs_def clamp_array_def sample_def clamp_Fin)
  moreover have "pressure sample = [[Fin 1013.25, Fin 2000]]"
    by (simp add: sample_def)
  ultimately show ?thesis
    by (simp add: clear_sky_sel clamp_inputs_simps clamp_array_def)
qed

lemma clamp_nan_iff:
  "lo \<le> hi \<Longrightarrow>
   (if isnan x then isnan (clamp (Fin hi) (Fin lo) x)
    else Fin lo \<le> clamp (Fin hi) (Fin lo) x \<and> clamp (Fin hi) (Fin lo) x \<le> Fin hi)"
  by (cases x) (auto simp: clamp_Fin fl_ops)

text \<open>
  C5 (as amended): every element of the six atmospheric fields that is not NaN is
  clamped into its documented bound and a NaN element stays NaN; no value is rejected.
  The outputs at a position are computed from the clamped elements at that position,
  and two calls whose arguments agree after clamping return the same.
\<close>

theorem clamped_values_flow_downstream:
  assumes "same_shape a" "i < length (zenith_angle a)" "j < length (zenith_angle a ! i)"
  shows "let s = elem (clamp_inputs a) i j in
      Angstrom_exponent s = clamp (Fin 2.5) (Fin 0) (Angstrom_exponent a ! i ! j) \<and>
      pressure s = clamp (Fin 1100) (Fin 300) (pressure a ! i ! j) \<and>
      water_vapour s = clamp (Fin 10) (Fin 0) (water_vapour a ! i ! j) \<and>
      ozone s = clamp (Fin 0.6) (Fin 0) (ozone a ! i ! j) \<and>
      nitrogen_dioxide s = clamp (Fin 0.03) (Fin 0) (nitrogen_dioxide a ! i ! j) \<and>
      surface_albedo s = clamp (Fin 1) (Fin 0) (surface_albedo a ! i ! j) \<and>
      (if isnan (Angstrom_exponent a ! i ! j) then isnan (Angstrom_exponent s)
       else Fin 0 \<le> Angstrom_exponent s \<and> Angstrom_exponent s \<le> Fin 2.5) \<and>
      (if isnan (pressure a ! i ! j) then isnan (pressure s)
       else Fin 300 \<le> pressure s \<and> pressure s \<le> Fin 1100) \<and>
      (if isnan (water_vapour a ! i ! j) then isnan (water_vapour s)
       else Fin 0 \<le> water_vapour s \<and> water_vapour s \<le> Fin 10) \<and>
      (if isnan (ozone a ! i ! j) then isnan (ozone s)
       else Fin 0 \<le> ozone s \<and> ozone s \<le> Fin 0.6) \<and>
      (if isnan (nitrogen_dioxide a ! i ! j) then isnan (nitrogen_dioxide s)
       else Fin 0 \<le> nitrogen_dioxide s \<and> nitrogen_dioxide s \<le> Fin 0.03) \<and>
      (if isnan (surface_albedo a ! i ! j) then isnan (surface_albedo s)
       else Fin 0 \<le> surface_albedo s \<and> surface_albedo s \<le> Fin 1) \<and>
      ghi_of (clear_sky_REST2V5 a) ! i ! j = ghi s \<and>
      dni_of (clear_sky_REST2V5 a) ! i ! j = dni s \<and>
      dhi_of (clear_sky_REST2V5 a) ! i ! j = dhi s \<and>
      (\<forall>b. clamp_inputs b = clamp_inputs a \<longrightarrow> clear_sky_REST2V5 b = clear_sky_REST2V5 a) \<and>
      (\<forall>hi lo x. lo \<le> hi \<longrightarrow>
         clamp (Fin hi) (Fin lo) x =
           (if x > Fin hi then Fin hi else if x < Fin lo then Fin lo else x))"
proof -
  have c: "\<forall>hi lo x. lo \<le> hi \<longrightarrow> clamp (Fin hi) (Fin lo) x =
           (if x > Fin hi then Fin hi else if x < Fin lo then Fin lo else x)"
    by (simp add: clamp_cases)
  have d: "\<forall>b. clamp_inputs b = clamp_inputs a \<longrightarrow> clear_sky_REST2V5 b = clear_sky_REST2V5 a"
    by (simp add: clear_sky_REST2V5_def)
  show ?thesis
    unfolding Let_def elem_clamped_fields [OF assms] out_nth [OF assms(2,3)]
    by (intro conjI refl c d clamp_nan_iff) simp_all
qed

theorem clamped_values_flow_downstream_witness:
  "same_shape sample \<and> 0 < length (zenith_angle sample) \<and>
   Suc 0 < length (zenith_angle sample ! 0) \<and>
   Angstrom_exponent sample ! 0 ! Suc 0 = Fin 5 \<and>
   Angstrom_exponent (elem (clamp_inputs sample) 0 (Suc 0)) = Fin 2.5 \<and>
   pressure (elem (clamp_inputs sample) 0 (Suc 0)) = Fin 1100 \<and>
   water_vapour (elem (clamp_inputs sample) 0 (Suc 0)) = Fin 0 \<and>
   dni_of (clear_sky_REST2V5 sample) ! 0 ! Suc 0 = dni (elem (clamp_inputs sample) 0 (Suc 0)) \<and>
   clear_sky_REST2V5 (sample \<lparr> Angstrom_exponent := [[Fin 1.3, Fin 2.5]] \<rparr>) =
     clear_sky_REST2V5 sample"
proof -
  note t = clamped_values_flow_downstream [OF sample_shape(1,2,4), unfolded Let_def]
  have e: "clamp_inputs (sample \<lparr> Angstrom_exponent := [[Fin 1.3, Fin 2.5]] \<rparr>) = clamp_inputs sample"
    by (simp add: clamp_inputs_def clamp_array_def sample_def clamp_Fin)
  have v: "Angstrom_exponent sample ! 0 ! Suc 0 = Fin 5" "pressure sample ! 0 ! Suc 0 = Fin 2000"
    "water_vapour sample ! 0 ! Suc 0 = Fin (- 1)"
    by (simp_all add: sample_def)
  from t have "Angstrom_exponent (elem (clamp_inputs sample) 0 (Suc 0)) =
      clamp (Fin 2.5) (Fin 0) (Angstrom_exponent sample ! 0 ! Suc 0)"
    by (rule conjunct1)
  then have 1: "Angstrom_exponent (elem (clamp_inputs sample) 0 (Suc 0)) = Fin 2.5"
    by (simp add: v clamp_Fin)
  from t have "pressure (elem (clamp_inputs sample) 0 (Suc 0)) =
      clamp (Fin 1100) (Fin 300) (pressure sample ! 0 ! Suc 0)"
    by blast
  then have 2: "pressure (elem (clamp_inputs sample) 0 (Suc 0)) = Fin 1100"
    by (simp add: v clamp_Fin)
  from t have "water_vapour (elem (clamp_inputs sample) 0 (Suc 0)) =
      clamp (Fin 10) (Fin 0) (water_vapour sample ! 0 ! Suc 0)"
    by blast
  then have 3: "water_vapour (elem (clamp_inputs sample) 0 (Suc 0)) = Fin 0"
    by (simp add: v clamp_Fin)
  from t have 4: "dni_of (clear_sky_REST2V5 sample) ! 0 ! Suc 0 = dni (elem (clamp_inputs sample) 0 (Suc 0))"
    by blast
  from t e have 5: "clear_sky_REST2V5 (sample \<lparr> Angstrom_exponent := [[Fin 1.3, Fin 2.5]] \<rparr>) =
     clear_sky_REST2V5 sample"
    by blast
  from 1 2 3 4 5 v(1) sample_shape show ?thesis
    by (intro conjI)
qed

text \<open>
  A NaN pressure passes both comparisons of lines 62 and 63: after the call the element
  is still NaN, within no bound.
\<close>

theorem clamp_nan_counterexample:
  "pressure gap ! 0 ! 0 = NaN \<and>
   pressure (args_after (clear_sky_REST2V5 gap)) ! 0 ! 0 = NaN \<and>
   pressure (elem (clamp_inputs gap) 0 0) = NaN \<and>
   \<not> Fin 300 \<le> pressure (elem (clamp_inputs gap) 0 0) \<and>
   \<not> pressure (elem (clamp_inputs gap) 0 0) \<le> Fin 1100"
  by (simp add: clear_sky_sel elem_def clamp_inputs_def clamp_array_def gap_def fl_ops)

lemma ang_beta_elem:
  "ang_beta s = clamp (Fin 1.1) (Fin 0) (AOD550 s / fpow (Fin 0.55) (Fin (- 1) * Angstrom_exponent s))"
  by (simp add: ang_beta_def)

lemma ang_beta_cases:
  assumes "al = clamp (Fin 2.5) (Fin 0) x"
  shows "if isnan q \<or> isnan x
     then isnan (clamp (Fin 1.1) (Fin 0) (q / fpow (Fin 0.55) (Fin (- 1) * al)))
     else Fin 0 \<le> clamp (Fin 1.1) (Fin 0) (q / fpow (Fin 0.55) (Fin (- 1) * al)) \<and>
          clamp (Fin 1.1) (Fin 0) (q / fpow (Fin 0.55) (Fin (- 1) * al)) \<le> Fin 1.1"
  unfolding assms
  by (cases x; cases q) (auto simp: clamp_Fin fl_ops)

text \<open>
  C8 (as amended): the Angstrom turbidity is \<open>AOD550 / 0.55 ^ (- alpha)\<close> for the clamped
  exponent \<open>alpha\<close>, clamped to \<open>[0, 1.1]\<close>; it lies in that interval unless the optical
  depth or the exponent is NaN, and is NaN then. \<open>AB1\<close> of band 1 and \<open>AB2\<close> of band 2
  are this one value, and the aerosol terms of both bands read it.
\<close>

theorem turbidity_shared_by_both_bands:
  assumes "same_shape a" "i < length (zenith_angle a)" "j < length (zenith_angle a ! i)"
  shows "let s = elem (clamp_inputs a) i j;
             alpha = clamp (Fin 2.5) (Fin 0) (Angstrom_exponent a ! i ! j);
             beta = clamp (Fin 1.1) (Fin 0) (AOD550 a ! i ! j / fpow (Fin 0.55) (Fin (- 1) * alpha))
         in ang_beta s = beta \<and> AB1 s = beta \<and> AB2 s = beta \<and>
            (if isnan (AOD550 a ! i ! j) \<or> isnan (Angstrom_exponent a ! i ! j) then isnan beta
             else Fin 0 \<le> beta \<and> beta \<le> Fin 1.1) \<and>
            ua1 s = flog (Fin 1 + ama s * beta) \<and> ua2 s = flog (Fin 1 + ama s * beta) \<and>
            ta1 s = \<bar>beta * fpow (lam1 s) (Fin (- 1) * alpha)\<bar> \<and>
            ta2 s = cabs (c_of_fl beta * cpow (lam2_temp s) (Fin (- 1) * alpha))"
proof -
  note b = ang_beta_cases [OF refl, of "AOD550 a ! i ! j" "Angstrom_exponent a ! i ! j"]
  have e: "ang_beta (elem (clamp_inputs a) i j) =
      clamp (Fin 1.1) (Fin 0) (AOD550 a ! i ! j / fpow (Fin 0.55)
        (Fin (- 1) * clamp (Fin 2.5) (Fin 0) (Angstrom_exponent a ! i ! j)))"
    by (simp add: ang_beta_elem elem_clamped_fields [OF assms])
  show ?thesis
    unfolding Let_def AB1_def AB2_def ua1_def ua2_def ta1_def ta2_def alph1_def alph2_def e
      elem_clamped_fields [OF assms]
    using b by (intro conjI refl)
qed

theorem turbidity_shared_by_both_bands_witness:
  "same_shape sample \<and> 0 < length (zenith_angle sample) \<and>
   Suc 0 < length (zenith_angle sample ! 0) \<and>
   AB1 (elem (clamp_inputs sample) 0 (Suc 0)) = AB2 (elem (clamp_inputs sample) 0 (Suc 0)) \<and>
   AB1 (elem (clamp_inputs sample) 0 (Suc 0)) =
     clamp (Fin 1.1) (Fin 0) (Fin 0.1 / fpow (Fin 0.55) (Fin (- 1) * Fin 2.5))"
proof -
  have v: "Angstrom_exponent sample ! 0 ! Suc 0 = Fin 5" "AOD550 sample ! 0 ! Suc 0 = Fin 0.1"
    by (simp_all add: sample_def)
  from turbidity_shared_by_both_bands [OF sample_shape(1,2,4)] v sample_shape show ?thesis
    by (simp add: Let_def clamp_Fin)
qed

text \<open>
  A NaN optical depth gives a NaN turbidity in both bands: lines 96 and 97 compare and
  leave it.
\<close>

theorem turbidity_nan_counterexample:
  "AOD550 gap ! 0 ! 0 = NaN \<and>
   ang_beta (elem (clamp_inputs gap) 0 0) = NaN \<and>
   AB1 (elem (clamp_inputs gap) 0 0) = NaN \<and>
   AB2 (elem (clamp_inputs gap) 0 0) = NaN \<and>
   \<not> Fin 0 \<le> ang_beta (elem (clamp_inputs gap) 0 0) \<and>
   \<not> ang_beta (elem (clamp_inputs gap) 0 0) \<le> Fin 1.1"
  by (simp add: AB1_def AB2_def ang_beta_def elem_def clamp_inputs_def clamp_array_def gap_def fl_ops)


section \<open>Errors of the constructor\<close>

lemma maximum_gt:
  "\<not> isnan x \<Longrightarrow> \<not> isnan y \<Longrightarrow>
     \<not> isnan (maximum x y) \<and> (maximum x y > Fin c \<longleftrightarrow> x > Fin c \<or> y > Fin c)"
  by (cases x; cases y) (auto simp: maximum_def fl_ops)

lemma fold_maximum_gt:
  "\<not> isnan x \<Longrightarrow> \<forall>y \<in> set xs. \<not> isnan y \<Longrightarrow>
     \<not> isnan (fold (\<lambda>y m. maximum m y) xs x) \<and>
     (fold (\<lambda>y m. maximum m y) xs x > Fin c \<longleftrightarrow> x > Fin c \<or> (\<exists>y \<in> set xs. y > Fin c))"
proof (induction xs arbitrary: x)
  case Nil
  then show ?case by simp
next
  case (Cons y ys)
  from Cons.prems have y: "\<not> isnan y" and ys: "\<forall>z \<in> set ys. \<not> isnan z"
    by simp_all
  note m = maximum_gt [OF Cons.prems(1) y, of c]
  from Cons.IH [OF conjunct1 [OF m] ys] m show ?case
    by auto
qed

lemma np_max_gt:
  assumes "xs \<noteq> []" "\<forall>y \<in> set xs. \<not> isnan y"
  shows "\<exists>m. np_max xs = Inr m \<and> (m > Fin c \<longleftrightarrow> (\<exists>y \<in> set xs. y > Fin c))"
proof (cases xs)
  case Nil
  with assms show ?thesis by simp
next
  case (Cons x ys)
  with assms have "\<not> isnan x" "\<forall>y \<in> set ys. \<not> isnan y"
    by simp_all
  from fold_maximum_gt [OF this, of c] Cons show ?thesis
    by auto
qed

lemma isnan_abs: "isnan \<bar>x\<bar> = isnan x"
  by (cases x) (simp_all add: fl_ops)

lemma same_shape_index:
  assumes "same_shape a" "i < length (zenith_angle a)" "j < length (zenith_angle a ! i)"
  shows "\<forall>x \<in> set [zenith_angle a, Eext a, pressure a, water_vapour a, ozone a, nitrogen_dioxide a,
                 AOD550 a, Angstrom_exponent a, surface_albedo a].
           i < length x \<and> j < length (x ! i)"
proof -
  have "i < length x \<and> j < length (x ! i)"
    if "x \<in> set [Eext a, pressure a, water_vapour a, ozone a, nitrogen_dioxide a,
                 AOD550 a, Angstrom_exponent a, surface_albedo a]" for x
  proof -
    from assms(1) that have "shape_of x = shape_of (zenith_angle a)"
      unfolding same_shape_def by blast
    from shape_of_index [OF this assms(2,3)] show ?thesis .
  qed
  with assms(2,3) show ?thesis
    by simp
qed

text \<open>
  C7 (as amended): the constructor fails with the shape error whenever the shapes of
  latitude and longitude differ, whatever the arrays hold. When the shapes agree, the
  coordinate arrays are not empty and hold no NaN and the elevation array has as many
  elements as the latitude array, it fails exactly when some latitude exceeds 90 in
  magnitude (the latitude error) or, failing that, some longitude exceeds 180 (the
  longitude error); otherwise it returns the object. The error is the result of the
  construction: no object exists on which \<^verbatim>\<open>REST2v5\<close> could run. On argument arrays of
  one shape the computation reads only elements that exist and returns three arrays of
  that shape; it has no failing branch.
\<close>

theorem constructor_errors:
  assumes "shape lat = shape lon \<Longrightarrow> well_formed lat lon elev"
  shows "ClearSkyREST2v5 lat lon elev time datadir pandas =
     (if shape lat \<noteq> shape lon then Inl LatLonNotMatch
      else if \<exists>x \<in> set (vals lat). \<bar>x\<bar> > Fin 90 then Inl LatitudeRange
      else if \<exists>x \<in> set (vals lon). \<bar>x\<bar> > Fin 180 then Inl LongitudeRange
      else Inr \<lparr> self_lat = vals lat, self_lon = vals lon,
                 self_elev = map (\<lambda>e. [e]) (vals elev), self_time = time,
                 self_datadir = datadir, pandas_output = pandas \<rparr>) \<and>
    (isl (ClearSkyREST2v5 lat lon elev time datadir pandas) \<longleftrightarrow>
       shape lat \<noteq> shape lon \<or> (\<exists>x \<in> set (vals lat). \<bar>x\<bar> > Fin 90) \<or>
       (\<exists>x \<in> set (vals lon). \<bar>x\<bar> > Fin 180)) \<and>
    (\<forall>a. same_shape a \<longrightarrow>
       (\<forall>i < length (zenith_angle a). \<forall>j < length (zenith_angle a ! i).
          \<forall>x \<in> set [zenith_angle a, Eext a, pressure a, water_vapour a, ozone a,
                      nitrogen_dioxide a, AOD550 a, Angstrom_exponent a, surface_albedo a].
            i < length x \<and> j < length (x ! i)) \<and>
       shape_of (ghi_of (clear_sky_REST2V5 a)) = shape_of (zenith_angle a) \<and>
       shape_of (dni_of (clear_sky_REST2V5 a)) = shape_of (zenith_angle a) \<and>
       shape_of (dhi_of (clear_sky_REST2V5 a)) = shape_of (zenith_angle a))"
proof -
  have eq: "ClearSkyREST2v5 lat lon elev time datadir pandas =
     (if shape lat \<noteq> shape lon then Inl LatLonNotMatch
      else if \<exists>x \<in> set (vals lat). \<bar>x\<bar> > Fin 90 then Inl LatitudeRange
      else if \<exists>x \<in> set (vals lon). \<bar>x\<bar> > Fin 180 then Inl LongitudeRange
      else Inr \<lparr> self_lat = vals lat, self_lon = vals lon,
                 self_elev = map (\<lambda>e. [e]) (vals elev), self_time = time,
                 self_datadir = datadir, pandas_output = pandas \<rparr>)"
  proof (cases "shape lat = shape lon")
    case False
    then show ?thesis
      by (simp add: ClearSkyREST2v5_def)
  next
    case True
    from assms [OF True] True have len: "length (vals lon) = length (vals lat)"
      "length (vals elev) = length (vals lat)"
      by (simp_all add: well_formed_def)
    from assms [OF True] len have ne: "map abs (vals lat) \<noteq> []" "map abs (vals lon) \<noteq> []"
      and nn: "\<forall>y \<in> set (map abs (vals lat)). \<not> isnan y" "\<forall>y \<in> set (map abs (vals lon)). \<not> isnan y"
      by (auto simp: well_formed_def isnan_abs)
    obtain mlat where mlat: "np_max (map abs (vals lat)) = Inr mlat"
      "mlat > Fin 90 \<longleftrightarrow> (\<exists>x \<in> set (vals lat). \<bar>x\<bar> > Fin 90)"
      using np_max_gt [OF ne(1) nn(1), of 90] by auto
    obtain mlon where mlon: "np_max (map abs (vals lon)) = Inr mlon"
      "mlon > Fin 180 \<longleftrightarrow> (\<exists>x \<in> set (vals lon). \<bar>x\<bar> > Fin 180)"
      using np_max_gt [OF ne(2) nn(2), of 180] by auto
    show ?thesis
      unfolding ClearSkyREST2v5_def mlat(1) mlon(1)
      using mlat(2) mlon(2) len by (simp add: reshape_ok_def Let_def)
  qed
  have sh: "shape_of (elementwise f (clamp_inputs a)) = shape_of (zenith_angle a)" for f a
    unfolding shape_of_def elementwise_def clamp_inputs_simps
    by (rule nth_equalityI) simp_all
  have ix: "\<forall>a. same_shape a \<longrightarrow>
       (\<forall>i < length (zenith_angle a). \<forall>j < length (zenith_angle a ! i).
          \<forall>x \<in> set [zenith_angle a, Eext a, pressure a, water_vapour a, ozone a,
                      nitrogen_dioxide a, AOD550 a, Angstrom_exponent a, surface_albedo a].
            i < length x \<and> j < length (x ! i))"
    using same_shape_index by blast
  show ?thesis
    unfolding clear_sky_sel sh using ix by (simp add: eq)
qed

theorem constructor_errors_witness:
  "ClearSkyREST2v5 \<lparr>shape = [2], vals = [Fin 10, Fin 20]\<rparr>
     \<lparr>shape = [3], vals = [Fin 0, Fin 5, Fin 10]\<rparr>
     \<lparr>shape = [2], vals = [Fin 0, Fin 100]\<rparr> [[0], [0]] ''data'' True = Inl LatLonNotMatch \<and>
   well_formed \<lparr>shape = [1], vals = [Fin 95]\<rparr> \<lparr>shape = [1], vals = [Fin 20]\<rparr>
     \<lparr>shape = [1], vals = [Fin 0]\<rparr> \<and>
   ClearSkyREST2v5 \<lparr>shape = [1], vals = [Fin 95]\<rparr> \<lparr>shape = [1], vals = [Fin 20]\<rparr>
     \<lparr>shape = [1], vals = [Fin 0]\<rparr> [[0]] ''data'' True = Inl LatitudeRange \<and>
   well_formed \<lparr>shape = [2, 1], vals = [Fin 10, Fin (- 20)]\<rparr>
     \<lparr>shape = [2, 1], vals = [Fin 5, Fin (- 200)]\<rparr> \<lparr>shape = [2], vals = [Fin 0, Fin 100]\<rparr> \<and>
   ClearSkyREST2v5 \<lparr>shape = [2, 1], vals = [Fin 10, Fin (- 20)]\<rparr>
     \<lparr>shape = [2, 1], vals = [Fin 5, Fin (- 200)]\<rparr> \<lparr>shape = [2], vals = [Fin 0, Fin 100]\<rparr>
     [[0], [0]] ''data'' True = Inl LongitudeRange \<and>
   well_formed \<lparr>shape = [2], vals = [Fin 10, Fin (- 90)]\<rparr>
     \<lparr>shape = [2], vals = [Fin 180, Fin 5]\<rparr> \<lparr>shape = [2], vals = [Fin 0, Fin 100]\<rparr> \<and>
   ClearSkyREST2v5 \<lparr>shape = [2], vals = [Fin 10, Fin (- 90)]\<rparr>
     \<lparr>shape = [2], vals = [Fin 180, Fin 5]\<rparr> \<lparr>shape = [2], vals = [Fin 0, Fin 100]\<rparr>
     [[0], [0]] ''data'' True =
     Inr \<lparr> self_lat = [Fin 10, Fin (- 90)], self_lon = [Fin 180, Fin 5],
           self_elev = [[Fin 0], [Fin 100]], self_time = [[0], [0]],
           self_datadir = ''data'', pandas_output = True \<rparr> \<and>
   same_shape sample \<and> shape_of (ghi_of (clear_sky_REST2V5 sample)) = [2]"
proof -
  have 1: "ClearSkyREST2v5 \<lparr>shape = [2], vals = [Fin 10, Fin 20]\<rparr>
     \<lparr>shape = [3], vals = [Fin 0, Fin 5, Fin 10]\<rparr>
     \<lparr>shape = [2], vals = [Fin 0, Fin 100]\<rparr> [[0], [0]] ''data'' True = Inl LatLonNotMatch"
    using constructor_errors [of "\<lparr>shape = [2], vals = [Fin 10, Fin 20]\<rparr>"
        "\<lparr>shape = [3], vals = [Fin 0, Fin 5, Fin 10]\<rparr>" "\<lparr>shape = [2], vals = [Fin 0, Fin 100]\<rparr>"
        "[[0], [0]]" "''data''" True, THEN conjunct1]
    by simp
  have w2: "well_formed \<lparr>shape = [1], vals = [Fin 95]\<rparr> \<lparr>shape = [1], vals = [Fin 20]\<rparr>
     \<lparr>shape = [1], vals = [Fin 0]\<rparr>"
    by (simp add: well_formed_def)
  have 2: "ClearSkyREST2v5 \<lparr>shape = [1], vals = [Fin 95]\<rparr> \<lparr>shape = [1], vals = [Fin 20]\<rparr>
     \<lparr>shape = [1], vals = [Fin 0]\<rparr> [[0]] ''data'' True = Inl LatitudeRange"
    using constructor_errors [OF w2, of "[[0]]" "''data''" True, THEN conjunct1]
    by (simp add: fl_ops)
  have w3: "well_formed \<lparr>shape = [2, 1], vals = [Fin 10, Fin (- 20)]\<rparr>
     \<lparr>shape = [2, 1], vals = [Fin 5, Fin (- 200)]\<rparr> \<lparr>shape = [2], vals = [Fin 0, Fin 100]\<rparr>"
    by (simp add: well_formed_def)
  have 3: "ClearSkyREST2v5 \<lparr>shape = [2, 1], vals = [Fin 10, Fin (- 20)]\<rparr>
     \<lparr>shape = [2, 1], vals = [Fin 5, Fin (- 200)]\<rparr> \<lparr>shape = [2], vals = [Fin 0, Fin 100]\<rparr>
     [[0], [0]] ''data'' True = Inl LongitudeRange"
    using constructor_errors [OF w3, of "[[0], [0]]" "''data''" True, THEN conjunct1]
    by (simp add: fl_ops)
  have w4: "well_formed \<lparr>shape = [2], vals = [Fin 10, Fin (- 90)]\<rparr>
     \<lparr>shape = [2], vals = [Fin 180, Fin 5]\<rparr> \<lparr>shape = [2], vals = [Fin 0, Fin 100]\<rparr>"
    by (simp add: well_formed_def)
  have 4: "ClearSkyREST2v5 \<lparr>shape = [2], vals = [Fin 10, Fin (- 90)]\<rparr>
     \<lparr>shape = [2], vals = [Fin 180, Fin 5]\<rparr> \<lparr>shape = [2], vals = [Fin 0, Fin 100]\<rparr>
     [[0], [0]] ''data'' True =
     Inr \<lparr> self_lat = [Fin 10, Fin (- 90)], self_lon = [Fin 180, Fin 5],
           self_elev = [[Fin 0], [Fin 100]], self_time = [[0], [0]],
           self_datadir = ''data'', pandas_output = True \<rparr>"
    using constructor_errors [OF w4, of "[[0], [0]]" "''data''" True, THEN conjunct1]
    by (simp add: fl_ops)
  have 5: "shape_of (ghi_of (clear_sky_REST2V5 sample)) = [2]"
    using constructor_errors [OF w4, of "[[0], [0]]" "''data''" True, THEN conjunct2, THEN conjunct2,
        THEN spec, of sample] sample_shape(1)
    by (simp add: shape_of_def sample_def)
  from 1 w2 2 w3 3 w4 4 5 sample_shape(1) show ?thesis
    by (intro conjI)
qed

text \<open>
  The constructor on no station at all: the shapes agree and no coordinate is out of
  range, and \<^verbatim>\<open>np.max\<close> raises on the empty latitude array.
\<close>

theorem constructor_counterexample:
  "ClearSkyREST2v5 \<lparr>shape = [0], vals = []\<rparr> \<lparr>shape = [0], vals = []\<rparr>
     \<lparr>shape = [0], vals = []\<rparr> [] ''data'' True = Inl ValueError \<and>
   shape \<lparr>shape = [0::nat], vals = ([]::fl list)\<rparr> = shape \<lparr>shape = [0::nat], vals = ([]::fl list)\<rparr> \<and>
   set (vals \<lparr>shape = [0::nat], vals = ([]::fl list)\<rparr>) = {}"
  by (simp add: ClearSkyREST2v5_def)

text \<open>
  More ways in which the constructor departs from the three conditions: a NaN latitude
  makes \<^verbatim>\<open>np.max\<close> return NaN, which is not greater than 90, so that a latitude of 95
  beside it is accepted, and likewise a longitude of 200 beside a NaN longitude; and an
  elevation array of another size makes \<^verbatim>\<open>reshape\<close> raise.
\<close>

lemma constructor_nan_hides_range:
  "ClearSkyREST2v5 \<lparr>shape = [2], vals = [Fin 95, NaN]\<rparr> \<lparr>shape = [2], vals = [Fin 0, Fin 0]\<rparr>
     \<lparr>shape = [2], vals = [Fin 0, Fin 0]\<rparr> [] ''data'' True =
   Inr \<lparr> self_lat = [Fin 95, NaN], self_lon = [Fin 0, Fin 0], self_elev = [[Fin 0], [Fin 0]],
         self_time = [], self_datadir = ''data'', pandas_output = True \<rparr>"
  by (simp add: ClearSkyREST2v5_def maximum_def reshape_ok_def fl_ops)

lemma constructor_nan_hides_longitude:
  "ClearSkyREST2v5 \<lparr>shape = [2], vals = [Fin 0, Fin 0]\<rparr> \<lparr>shape = [2], vals = [Fin 200, NaN]\<rparr>
     \<lparr>shape = [2], vals = [Fin 0, Fin 0]\<rparr> [] ''data'' True =
   Inr \<lparr> self_lat = [Fin 0, Fin 0], self_lon = [Fin 200, NaN], self_elev = [[Fin 0], [Fin 0]],
         self_time = [], self_datadir = ''data'', pandas_output = True \<rparr>"
  by (simp add: ClearSkyREST2v5_def maximum_def reshape_ok_def fl_ops)


lemma constructor_elevation_size:
  "ClearSkyREST2v5 \<lparr>shape = [1], vals = [Fin 10]\<rparr> \<lparr>shape = [1], vals = [Fin 20]\<rparr>
     \<lparr>shape = [2], vals = [Fin 0, Fin 0]\<rparr> [] ''data'' True = Inl ValueError"
  by (simp add: ClearSkyREST2v5_def maximum_def reshape_ok_def fl_ops)

section \<open>Batch equivalence\<close>






















section \<open>Air masses\<close>

lemma Arg_of_real_pos: "0 < x \<Longrightarrow> Arg (complex_of_real x) = 0"
  by (rule cis_Arg_unique) (simp_all add: sgn_of_real)

lemma Arg_of_real_neg: "x < 0 \<Longrightarrow> Arg (complex_of_real x) = pi"
  by (rule cis_Arg_unique) (simp_all add: sgn_of_real)

lemma cpow_of_real_nonneg:
  "0 \<le> x \<Longrightarrow> 0 < b \<Longrightarrow> cpow (CFin (complex_of_real x)) (Fin b) = CFin (complex_of_real (x powr b))"
  by (cases "x = 0") (simp_all add: Arg_of_real_pos)

lemma cpow_of_real_neg:
  "x < 0 \<Longrightarrow> b \<noteq> 0 \<Longrightarrow> cpow (CFin (complex_of_real x)) (Fin b) = CFin (rcis (\<bar>x\<bar> powr b) (b * pi))"
  by (simp add: Arg_of_real_neg)

lemma cabs_cpow_inverse:
  "x \<noteq> 0 \<Longrightarrow> cabs (cpow (CFin x) (Fin (- 1))) = Fin (1 / cmod x)"
  by (simp add: powr_minus_divide)

lemma cabs_cpow_inverse_zero: "cabs (cpow (CFin 0) (Fin (- 1))) = NaN"
  by simp

lemma complex_temp_Fin:
  "c_of_fl (Fin \<theta> * Fin 180 / Fin pi) = CFin (complex_of_real (\<theta> * 180 / pi))"
  by (simp add: fl_ops)

lemma air_mass_generic:
  assumes b: "0 < b" and d: "0 < d" and th: "0 \<le> \<theta>"
    and tc: "\<theta> * 180 / pi \<noteq> c" and den: "air_mass_den a b c d \<theta> \<noteq> 0"
  shows "cabs (cpow (c_of_fl (fcos (Fin \<theta>)) + c_of_fl (Fin a)
      * cpow (c_of_fl (Fin \<theta> * Fin 180 / Fin pi)) (Fin b) / cpow (c_of_fl (Fin c)
      - c_of_fl (Fin \<theta> * Fin 180 / Fin pi)) (Fin d)) (Fin (- 1)))
    = Fin (air_mass_real a b c d \<theta>)"
proof -
  define t where "t = \<theta> * 180 / pi"
  define r where "r = a * t powr b / \<bar>c - t\<bar> powr d"
  have t0: "0 \<le> t"
    using th by (simp add: t_def)
  have p1: "cpow (CFin (complex_of_real t)) (Fin b) = CFin (complex_of_real (t powr b))"
    using cpow_of_real_nonneg [OF t0 b] .
  have e1: "c_of_fl (Fin c) - CFin (complex_of_real t) = CFin (complex_of_real (c - t))"
    by (simp add: cfl_ops)
  show ?thesis
  proof (cases "t < c")
    case True
    then have p2: "cpow (CFin (complex_of_real (c - t))) (Fin d) = CFin (complex_of_real ((c - t) powr d))"
      using d by (intro cpow_of_real_nonneg) simp_all
    have nz: "(c - t) powr d \<noteq> 0"
      using True by simp
    have x: "c_of_fl (fcos (Fin \<theta>)) + c_of_fl (Fin a) * cpow (CFin (complex_of_real t)) (Fin b)
        / cpow (c_of_fl (Fin c) - CFin (complex_of_real t)) (Fin d)
      = CFin (complex_of_real (cos \<theta> + r))"
      unfolding e1 p1 p2 using True nz by (simp add: cfl_ops r_def)
    have r': "r = a * t powr b / (c - t) powr d"
      using True by (simp add: r_def)
    from den True have "cos \<theta> + r \<noteq> 0"
      by (simp add: air_mass_den_def Let_def t_def [symmetric] r')
    then have "cabs (cpow (CFin (complex_of_real (cos \<theta> + r))) (Fin (- 1))) = Fin (1 / \<bar>cos \<theta> + r\<bar>)"
      by (subst cabs_cpow_inverse) (simp_all del: of_real_add)
    also have "1 / \<bar>cos \<theta> + r\<bar> = air_mass_real a b c d \<theta>"
      using True by (simp add: air_mass_real_def air_mass_den_def Let_def t_def [symmetric] r')
    finally show ?thesis
      unfolding complex_temp_Fin t_def [symmetric] x .
  next
    case False
    with tc have lt: "c - t < 0"
      by (simp add: t_def)
    then have p2: "cpow (CFin (complex_of_real (c - t))) (Fin d) = CFin (rcis (\<bar>c - t\<bar> powr d) (d * pi))"
      using d by (intro cpow_of_real_neg) simp_all
    have nz: "\<bar>c - t\<bar> powr d \<noteq> 0"
      using lt by simp
    have q: "complex_of_real a * complex_of_real (t powr b) / rcis (\<bar>c - t\<bar> powr d) (d * pi)
        = rcis r (- (d * pi))"
    proof -
      have "complex_of_real a * complex_of_real (t powr b) = rcis (a * t powr b) 0"
        by simp
      then show ?thesis
        by (simp only: rcis_divide r_def) simp
    qed
    have "c_of_fl (fcos (Fin \<theta>)) + c_of_fl (Fin a) * CFin (complex_of_real (t powr b))
        / CFin (rcis (\<bar>c - t\<bar> powr d) (d * pi))
      = CFin (complex_of_real (cos \<theta>)
          + complex_of_real a * complex_of_real (t powr b) / rcis (\<bar>c - t\<bar> powr d) (d * pi))"
      using nz by (simp add: cfl_ops)
    then have x: "c_of_fl (fcos (Fin \<theta>)) + c_of_fl (Fin a) * cpow (CFin (complex_of_real t)) (Fin b)
        / cpow (c_of_fl (Fin c) - CFin (complex_of_real t)) (Fin d)
      = CFin (complex_of_real (cos \<theta>) + rcis r (- (d * pi)))"
      unfolding e1 p1 p2 q .
    have m1: "cmod (complex_of_real (cos \<theta>) + rcis r (- (d * pi)))
        = sqrt ((cos \<theta> + r * cos (pi * d))\<^sup>2 + (r * sin (pi * d))\<^sup>2)"
      by (simp add: cmod_def mult.commute)
    have m2: "air_mass_den a b c d \<theta> = sqrt ((cos \<theta> + r * cos (pi * d))\<^sup>2 + (r * sin (pi * d))\<^sup>2)"
      unfolding air_mass_den_def Let_def t_def [symmetric] r_def [symmetric]
      using False by simp
    have m: "cmod (complex_of_real (cos \<theta>) + rcis r (- (d * pi))) = air_mass_den a b c d \<theta>"
      by (simp only: m1 m2)
    from m den have nzx: "complex_of_real (cos \<theta>) + rcis r (- (d * pi)) \<noteq> 0"
      by (metis norm_zero)
    have "cabs (cpow (CFin (complex_of_real (cos \<theta>) + rcis r (- (d * pi)))) (Fin (- 1)))
        = Fin (1 / cmod (complex_of_real (cos \<theta>) + rcis r (- (d * pi))))"
      by (rule cabs_cpow_inverse [OF nzx])
    then have "cabs (cpow (CFin (complex_of_real (cos \<theta>) + rcis r (- (d * pi)))) (Fin (- 1)))
        = Fin (1 / air_mass_den a b c d \<theta>)"
      unfolding m .
    then show ?thesis
      unfolding complex_temp_Fin t_def [symmetric] x air_mass_real_def .
  qed
qed

lemma air_mass_den_day:
  assumes "0 \<le> \<theta>" "\<theta> * 180 / pi \<le> 90" "90 < c" "0 < a"
  shows "air_mass_den a b c d \<theta> \<noteq> 0"
proof -
  define t where "t = \<theta> * 180 / pi"
  from assms have t: "0 \<le> t" "t \<le> 90" "t < c"
    by (simp_all add: t_def)
  from assms(2) have "\<theta> \<le> pi / 2"
    by (simp add: field_simps)
  with assms(1) have c0: "0 \<le> cos \<theta>"
    by (intro cos_ge_zero) simp_all
  have r0: "0 \<le> a * t powr b / \<bar>c - t\<bar> powr d"
    using assms(4) by simp
  have "0 < cos \<theta> + a * t powr b / \<bar>c - t\<bar> powr d"
  proof (cases "\<theta> = 0")
    case True
    then show ?thesis using r0 by simp
  next
    case False
    with assms(1) have "0 < t" by (simp add: t_def)
    with t(3) assms(4) have "0 < a * t powr b / \<bar>c - t\<bar> powr d"
      by simp
    with c0 show ?thesis by simp
  qed
  with t(3) show ?thesis
    by (simp add: air_mass_den_def Let_def t_def [symmetric])
qed

lemma air_mass_of_zenith:
  assumes "zenith_angle s = Fin \<theta>" "0 \<le> \<theta>"
  shows "\<theta> * 180 / pi \<noteq> 95.318 \<Longrightarrow> air_mass_den 0.16851 0.18198 95.318 1.9542 \<theta> \<noteq> 0 \<Longrightarrow>
           ama s = Fin (air_mass_real 0.16851 0.18198 95.318 1.9542 \<theta>)"
    and "\<theta> * 180 / pi \<noteq> 93.781 \<Longrightarrow> air_mass_den 0.10648 0.11423 93.781 1.9203 \<theta> \<noteq> 0 \<Longrightarrow>
           amw s = Fin (air_mass_real 0.10648 0.11423 93.781 1.9203 \<theta>)"
    and "\<theta> * 180 / pi \<noteq> 101.8 \<Longrightarrow> air_mass_den 1.0651 0.6379 101.8 2.2694 \<theta> \<noteq> 0 \<Longrightarrow>
           amo s = Fin (air_mass_real 1.0651 0.6379 101.8 2.2694 \<theta>)"
    and "\<theta> * 180 / pi \<noteq> 96.741 \<Longrightarrow> air_mass_den 0.48353 0.095846 96.741 1.754 \<theta> \<noteq> 0 \<Longrightarrow>
           amR s = Fin (air_mass_real 0.48353 0.095846 96.741 1.754 \<theta>)"
  unfolding ama_def amw_def amo_def amR_def complex_temp_def assms(1)
  using assms(2) by (intro air_mass_generic; simp)+

lemma amRe_amR:
  assumes "isnan (pressure s) \<or> (\<exists>r\<ge>0. pressure s = Fin r)"
  shows "amRe s = pressure s / Fin 1013.25 * amR s"
proof -
  define W where "W = cpow (c_of_fl (fcos (zenith_angle s)) + c_of_fl (Fin 0.48353)
      * cpow (complex_temp s) (Fin 0.095846) / cpow (c_of_fl (Fin 96.741)
      - complex_temp s) (Fin 1.754)) (Fin (- 1))"
  have e: "amRe s = cabs (c_of_fl (pressure s / Fin 1013.25) * W)" "amR s = cabs W"
    by (simp_all add: amRe_def amR_def W_def)
  from assms show ?thesis
    unfolding e
    by (cases W; cases "pressure s") (auto simp: fl_ops cfl_ops norm_mult)
qed

lemma clamp_pressure_cases:
  "isnan (clamp (Fin 1100) (Fin 300) p) \<or> (\<exists>r\<ge>0. clamp (Fin 1100) (Fin 300) p = Fin r)"
  by (cases p) (auto simp: clamp_Fin)

lemma nadir_modulus:
  fixes r x :: real
  assumes "0 \<le> r" "r \<le> \<rho>" "\<rho> < 1"
  shows "1 - \<rho> \<le> sqrt ((cos pi + r * cos x)\<^sup>2 + (r * sin x)\<^sup>2)"
    and "sqrt ((cos pi + r * cos x)\<^sup>2 + (r * sin x)\<^sup>2) \<le> 1 + \<rho>"
proof -
  define u v where "u = r * cos x" and "v = r * sin x"
  have uv: "u\<^sup>2 + v\<^sup>2 = r\<^sup>2"
  proof -
    have "u\<^sup>2 + v\<^sup>2 = r\<^sup>2 * ((cos x)\<^sup>2 + (sin x)\<^sup>2)"
      unfolding u_def v_def power_mult_distrib distrib_left ..
    then show ?thesis by simp
  qed
  have "(- 1 + u)\<^sup>2 + v\<^sup>2 = 1 - 2 * u + (u\<^sup>2 + v\<^sup>2)"
    by (simp add: power2_eq_square algebra_simps)
  then have e': "(cos pi + r * cos x)\<^sup>2 + (r * sin x)\<^sup>2 = 1 - 2 * u + r\<^sup>2"
    unfolding uv by (simp add: u_def v_def)
  have c: "u \<le> r" "- r \<le> u"
  proof -
    have "r * cos x \<le> r * 1"
      using assms(1) cos_le_one [of x] by (intro mult_left_mono)
    then show "u \<le> r" by (simp add: u_def)
    have "r * (- 1) \<le> r * cos x"
      using assms(1) cos_ge_minus_one [of x] by (intro mult_left_mono)
    then show "- r \<le> u" by (simp add: u_def)
  qed
  have lo: "(1 - r)\<^sup>2 \<le> (cos pi + r * cos x)\<^sup>2 + (r * sin x)\<^sup>2"
    unfolding e' using c by (simp add: power2_eq_square algebra_simps)
  have hi: "(cos pi + r * cos x)\<^sup>2 + (r * sin x)\<^sup>2 \<le> (1 + r)\<^sup>2"
    unfolding e' using c by (simp add: power2_eq_square algebra_simps)
  from lo have "1 - r \<le> sqrt ((cos pi + r * cos x)\<^sup>2 + (r * sin x)\<^sup>2)"
    by (rule real_le_rsqrt)
  with assms show "1 - \<rho> \<le> sqrt ((cos pi + r * cos x)\<^sup>2 + (r * sin x)\<^sup>2)"
    by simp
  from hi assms(1) have "sqrt ((cos pi + r * cos x)\<^sup>2 + (r * sin x)\<^sup>2) \<le> 1 + r"
    by (intro real_le_lsqrt) simp_all
  with assms show "sqrt ((cos pi + r * cos x)\<^sup>2 + (r * sin x)\<^sup>2) \<le> 1 + \<rho>"
    by simp
qed

lemma powr_180_half: "0 \<le> b \<Longrightarrow> b \<le> 1 / 2 \<Longrightarrow> (180::real) powr b \<le> 14"
proof -
  assume b: "0 \<le> b" "b \<le> 1 / 2"
  have "(180::real) powr b \<le> 180 powr (1 / 2)"
    using b by (intro powr_mono) simp_all
  also have "\<dots> = sqrt 180"
    by (simp add: powr_half_sqrt)
  also have "\<dots> \<le> sqrt 196"
    by (intro real_sqrt_le_mono) simp
  also have "sqrt 196 = 14"
    using real_sqrt_abs [of 14] by simp
  finally show ?thesis .
qed

lemma powr_180_one: "0 \<le> b \<Longrightarrow> b \<le> 1 \<Longrightarrow> (180::real) powr b \<le> 180"
  using powr_mono [of b 1 180] by simp

lemma base_powr_ge:
  fixes x d :: real
  assumes "78 \<le> x" "1 \<le> d"
  shows "78 \<le> x powr d"
proof -
  have "x powr 1 \<le> x powr d"
    using assms by (intro powr_mono) simp_all
  with assms show ?thesis by simp
qed

lemma base_powr_ge2:
  fixes x d :: real
  assumes "78 \<le> x" "2 \<le> d"
  shows "6084 \<le> x powr d"
proof -
  have "x powr 2 \<le> x powr d"
    using assms by (intro powr_mono) simp_all
  moreover have "(78::real)\<^sup>2 \<le> x\<^sup>2"
    using assms(1) by (intro power_mono) simp_all
  ultimately show ?thesis
    using assms(1) by simp
qed

lemma nadir_air_mass:
  assumes a: "0 \<le> a" and c: "c \<le> 102"
    and n: "180 powr b \<le> N" and d: "D \<le> (180 - c) powr d" "0 < D"
    and r: "a * N / D \<le> \<rho>" "\<rho> < 1"
  shows "air_mass_den a b c d pi \<noteq> 0"
    and "1 / (1 + \<rho>) \<le> air_mass_real a b c d pi"
    and "air_mass_real a b c d pi \<le> 1 / (1 - \<rho>)"
proof -
  define r where "r = a * 180 powr b / \<bar>c - 180\<bar> powr d"
  have abs: "\<bar>c - 180\<bar> = 180 - c"
    using c by simp
  have r0: "0 \<le> r"
    using a by (simp add: r_def)
  have num: "a * 180 powr b \<le> a * N"
    using a n by (intro mult_left_mono)
  have "0 \<le> a * 180 powr b"
    using a by simp
  with num have "0 \<le> a * N"
    by simp
  from this num d(2,1) have "a * 180 powr b / (180 - c) powr d \<le> a * N / D"
    by (rule frac_le)
  with r(1) have r1: "r \<le> \<rho>"
    by (simp add: r_def abs)
  have den: "air_mass_den a b c d pi = sqrt ((cos pi + r * cos (pi * d))\<^sup>2 + (r * sin (pi * d))\<^sup>2)"
    unfolding air_mass_den_def Let_def r_def using c by simp
  note m = nadir_modulus [OF r0 r1 r(2), of "pi * d", folded den]
  from m(1) r(2) have pos: "0 < air_mass_den a b c d pi"
    by simp
  then show "air_mass_den a b c d pi \<noteq> 0"
    by simp
  from r0 r1 have p1: "0 < 1 + \<rho>"
    by simp
  from m(2) pos show "1 / (1 + \<rho>) \<le> air_mass_real a b c d pi"
    unfolding air_mass_real_def by (intro divide_left_mono) simp_all
  from m(1) r(2) pos show "air_mass_real a b c d pi \<le> 1 / (1 - \<rho>)"
    unfolding air_mass_real_def by (intro divide_left_mono) simp_all
qed

lemma slant_shape:
  "same_shape slant" "0 < length (zenith_angle slant)"
  "0 < length (zenith_angle slant ! 0)" "Suc 0 < length (zenith_angle slant ! 0)"
  by (simp_all add: same_shape_def slant_def shape_of_def)

lemma air_mass_real_60:
  assumes "60 < c"
  shows "air_mass_den a b c d (pi / 3) = \<bar>1 / 2 + a * 60 powr b / (c - 60) powr d\<bar>"
  using assms by (simp add: air_mass_den_def Let_def cos_60)

lemma air_mass_real_180:
  assumes "c < 180"
  shows "air_mass_den a b c d pi =
     sqrt ((- 1 + a * 180 powr b / (180 - c) powr d * cos (pi * d))\<^sup>2
       + (a * 180 powr b / (180 - c) powr d * sin (pi * d))\<^sup>2)"
  using assms by (simp add: air_mass_den_def Let_def)

text \<open>
  C9: for a zenith angle \<open>\<theta> \<ge> 0\<close>, each of the four air masses is the reciprocal of
  the magnitude of \<open>cos \<theta> + a * \<theta>deg ^ b / (c - \<theta>deg) ^ d\<close> with its own coefficients,
  as the real-domain computation \<open>air_mass_real\<close> gives it, wherever \<open>\<theta>deg \<noteq> c\<close> and
  the magnitude is not zero (it is not zero up to 90 degrees); the pressure-corrected
  air mass is the clamped pressure over 1013.25 times the Rayleigh air mass.
\<close>

theorem air_masses:
  assumes "same_shape a" "i < length (zenith_angle a)" "j < length (zenith_angle a ! i)"
    and "zenith_angle a ! i ! j = Fin \<theta>" "0 \<le> \<theta>"
  shows "let s = elem (clamp_inputs a) i j in
     (\<forall>(am, k, b, c, d) \<in> {(ama s, 0.16851, 0.18198, 95.318, 1.9542),
                            (amw s, 0.10648, 0.11423, 93.781, 1.9203),
                            (amo s, 1.0651, 0.6379, 101.8, 2.2694),
                            (amR s, 0.48353, 0.095846, 96.741, 1.754)}.
        (\<theta> * 180 / pi \<le> 90 \<longrightarrow> air_mass_den k b c d \<theta> \<noteq> 0) \<and>
        (\<theta> * 180 / pi \<noteq> c \<longrightarrow> air_mass_den k b c d \<theta> \<noteq> 0 \<longrightarrow>
           am = Fin (air_mass_real k b c d \<theta>))) \<and>
     amRe s = pressure s / Fin 1013.25 * amR s"
proof -
  define s where "s = elem (clamp_inputs a) i j"
  have z: "zenith_angle s = Fin \<theta>"
    using assms(4) by (simp add: s_def elem_clamped_fields [OF assms(1,2,3)])
  have p: "isnan (pressure s) \<or> (\<exists>r\<ge>0. pressure s = Fin r)"
    unfolding s_def elem_clamped_fields [OF assms(1,2,3)] by (rule clamp_pressure_cases)
  note am = air_mass_of_zenith [OF z assms(5)]
  have day: "\<theta> * 180 / pi \<le> 90 \<Longrightarrow> 90 < c \<Longrightarrow> 0 < k \<Longrightarrow> air_mass_den k b c d \<theta> \<noteq> 0" for k b c d
    using air_mass_den_day [OF assms(5)] by blast
  show ?thesis
    unfolding Let_def s_def [symmetric]
    using am amRe_amR [OF p] day by simp
qed

theorem air_masses_witness:
  "same_shape slant \<and> 0 < length (zenith_angle slant) \<and> Suc 0 < length (zenith_angle slant ! 0) \<and>
   zenith_angle slant ! 0 ! 0 = Fin (pi / 3) \<and> 0 \<le> pi / 3 \<and>
   ama (elem (clamp_inputs slant) 0 0) =
     Fin (1 / \<bar>1 / 2 + 0.16851 * 60 powr 0.18198 / (95.318 - 60) powr 1.9542\<bar>) \<and>
   amw (elem (clamp_inputs slant) 0 0) =
     Fin (1 / \<bar>1 / 2 + 0.10648 * 60 powr 0.11423 / (93.781 - 60) powr 1.9203\<bar>) \<and>
   amo (elem (clamp_inputs slant) 0 0) =
     Fin (1 / \<bar>1 / 2 + 1.0651 * 60 powr 0.6379 / (101.8 - 60) powr 2.2694\<bar>) \<and>
   amR (elem (clamp_inputs slant) 0 0) =
     Fin (1 / \<bar>1 / 2 + 0.48353 * 60 powr 0.095846 / (96.741 - 60) powr 1.754\<bar>) \<and>
   amRe (elem (clamp_inputs slant) 0 0) =
     Fin 900 / Fin 1013.25 * amR (elem (clamp_inputs slant) 0 0) \<and>
   zenith_angle slant ! 0 ! Suc 0 = Fin pi \<and> 0 \<le> pi \<and>
   amR (elem (clamp_inputs slant) 0 (Suc 0)) =
     Fin (1 / sqrt ((- 1 + 0.48353 * 180 powr 0.095846 / (180 - 96.741) powr 1.754
                           * cos (pi * 1.754))\<^sup>2
                    + (0.48353 * 180 powr 0.095846 / (180 - 96.741) powr 1.754
                           * sin (pi * 1.754))\<^sup>2)) \<and>
   pressure slant ! 0 ! Suc 0 = Fin 2000 \<and>
   amRe (elem (clamp_inputs slant) 0 (Suc 0)) =
     Fin 1100 / Fin 1013.25 * amR (elem (clamp_inputs slant) 0 (Suc 0))"
proof -
  have z: "zenith_angle slant ! 0 ! 0 = Fin (pi / 3)" "zenith_angle slant ! 0 ! Suc 0 = Fin pi"
    and p: "pressure slant ! 0 ! Suc 0 = Fin 2000"
    by (simp_all add: slant_def)
  have le: "0 \<le> pi / 3" "0 \<le> pi"
    by simp_all
  note t = air_masses [OF slant_shape(1,2,3) z(1) le(1), unfolded Let_def]
  note u = air_masses [OF slant_shape(1,2,4) z(2) le(2), unfolded Let_def]
  have n: "pi / 3 * 180 / pi \<le> 90" "pi / 3 * 180 / pi \<noteq> 95.318" "pi / 3 * 180 / pi \<noteq> 93.781"
    "pi / 3 * 180 / pi \<noteq> 101.8" "pi / 3 * 180 / pi \<noteq> 96.741"
    by simp_all
  from t n have 1: "ama (elem (clamp_inputs slant) 0 0) =
      Fin (air_mass_real 0.16851 0.18198 95.318 1.9542 (pi / 3))"
    by simp
  from t n have 2: "amw (elem (clamp_inputs slant) 0 0) =
      Fin (air_mass_real 0.10648 0.11423 93.781 1.9203 (pi / 3))"
    by simp
  from t n have 3: "amo (elem (clamp_inputs slant) 0 0) =
      Fin (air_mass_real 1.0651 0.6379 101.8 2.2694 (pi / 3))"
    by simp
  from t n have 4: "amR (elem (clamp_inputs slant) 0 0) =
      Fin (air_mass_real 0.48353 0.095846 96.741 1.754 (pi / 3))"
    by simp
  have p0: "pressure (elem (clamp_inputs slant) 0 0) = Fin 900"
    unfolding elem_clamped_fields [OF slant_shape(1,2,3)] by (simp add: slant_def clamp_Fin)
  from t have 5: "amRe (elem (clamp_inputs slant) 0 0) =
      Fin 900 / Fin 1013.25 * amR (elem (clamp_inputs slant) 0 0)"
    by (simp add: p0)
  have d: "air_mass_den 0.48353 0.095846 96.741 1.754 pi \<noteq> 0"
    by (rule nadir_air_mass [where N = 14 and D = 78 and \<rho> = "0.09"])
       (simp_all add: powr_180_half base_powr_ge)
  have m: "pi * 180 / pi \<noteq> 96.741"
    by simp
  from u d m have 6: "amR (elem (clamp_inputs slant) 0 (Suc 0)) =
      Fin (air_mass_real 0.48353 0.095846 96.741 1.754 pi)"
    by simp
  have p1: "pressure (elem (clamp_inputs slant) 0 (Suc 0)) = Fin 1100"
    unfolding elem_clamped_fields [OF slant_shape(1,2,4)] by (simp add: slant_def clamp_Fin)
  from u have 7: "amRe (elem (clamp_inputs slant) 0 (Suc 0)) =
      Fin 1100 / Fin 1013.25 * amR (elem (clamp_inputs slant) 0 (Suc 0))"
    by (simp add: p1)
  note e = air_mass_real_def air_mass_real_60 air_mass_real_180
  from 1 have 1: "ama (elem (clamp_inputs slant) 0 0) =
     Fin (1 / \<bar>1 / 2 + 0.16851 * 60 powr 0.18198 / (95.318 - 60) powr 1.9542\<bar>)"
    by (simp add: e)
  from 2 have 2: "amw (elem (clamp_inputs slant) 0 0) =
     Fin (1 / \<bar>1 / 2 + 0.10648 * 60 powr 0.11423 / (93.781 - 60) powr 1.9203\<bar>)"
    by (simp add: e)
  from 3 have 3: "amo (elem (clamp_inputs slant) 0 0) =
     Fin (1 / \<bar>1 / 2 + 1.0651 * 60 powr 0.6379 / (101.8 - 60) powr 2.2694\<bar>)"
    by (simp add: e)
  from 4 have 4: "amR (elem (clamp_inputs slant) 0 0) =
     Fin (1 / \<bar>1 / 2 + 0.48353 * 60 powr 0.095846 / (96.741 - 60) powr 1.754\<bar>)"
    by (simp add: e)
  from 6 have 6: "amR (elem (clamp_inputs slant) 0 (Suc 0)) =
     Fin (1 / sqrt ((- 1 + 0.48353 * 180 powr 0.095846 / (180 - 96.741) powr 1.754
                           * cos (pi * 1.754))\<^sup>2
                    + (0.48353 * 180 powr 0.095846 / (180 - 96.741) powr 1.754
                           * sin (pi * 1.754))\<^sup>2))"
    by (simp add: e)
  from slant_shape(1,2,4) z(1) le(1) 1 2 3 4 5 z(2) le(2) 6 p 7 show ?thesis
    by (intro conjI)
qed



section \<open>An output that is not finite\<close>

lemma elem_unbounded_sun: "elem (clamp_inputs unbounded_sun) 0 0 = s2"
  by (simp add: elem_def clamp_inputs_def clamp_array_def unbounded_sun_def s2_def clamp_Fin)

lemma s2_fields:
  "zenith_angle s2 = Fin 0" "Eext s2 = PInf" "pressure s2 = Fin 1013.25" "water_vapour s2 = Fin 0"
  "ozone s2 = Fin 0" "nitrogen_dioxide s2 = Fin 0" "AOD550 s2 = Fin 0"
  "Angstrom_exponent s2 = Fin 0" "surface_albedo s2 = Fin 0"
  by (simp_all add: s2_def)

lemma air_mass_zero:
  "0 < c \<Longrightarrow> 0 < b \<Longrightarrow> 0 < d \<Longrightarrow>
   cabs (cpow (c_of_fl (fcos (Fin 0)) + c_of_fl (Fin a)
      * cpow (c_of_fl (Fin 0 * Fin 180 / Fin pi)) (Fin b) / cpow (c_of_fl (Fin c)
      - c_of_fl (Fin 0 * Fin 180 / Fin pi)) (Fin d)) (Fin (- 1))) = Fin 1"
  by (subst air_mass_generic) (simp_all add: air_mass_real_def air_mass_den_def)

lemma s2_air: "ama s2 = Fin 1" "amw s2 = Fin 1" "amo s2 = Fin 1" "amR s2 = Fin 1"
  unfolding ama_def amw_def amo_def amR_def complex_temp_def s2_fields
  by (rule air_mass_zero; simp)+

lemma s2_amRe: "amRe s2 = Fin 1"
proof -
  have "isnan (pressure s2) \<or> (\<exists>r\<ge>0. pressure s2 = Fin r)"
    unfolding s2_fields by (intro disjI2 exI [of _ "1013.25"]) simp
  from amRe_amR [OF this] show ?thesis
    by (simp add: s2_fields s2_air fl_ops)
qed

lemma s2_band1:
  "TR1 s2 = Fin ((1 + 1.8169 - 0.033454) / (1 + 2.063 + 0.31978))"
  "Tg1 s2 = Fin ((1 + 0.95885 + 0.012871) / (1 + 0.96321 + 0.015455))"
  "To1 s2 = Fin 1" "Tn1 s2 = Fin 1" "Tw1 s2 = Fin 1"
  by (simp_all add: TR1_def Tg1_def To1_def f1_def f2_def f3_def uo_def Tn1_def Tn1_middle_def
      g1_def g2_def g3_def un_def Tw1_def h1_def h2_def s2_amRe s2_air s2_fields fl_ops)

lemma s2_beta: "ang_beta s2 = Fin 0"
  by (simp add: ang_beta_def s2_fields fl_ops clamp_Fin)

lemma s2_aer1: "ta1 s2 = Fin 0" "TA1 s2 = Fin 1"
  by (simp_all add: ta1_def TA1_def AB1_def alph1_def s2_beta s2_air s2_fields fl_ops)

lemma s2_band2:
  "TR2 s2 = Fin ((1 - 0.010394) / (1 - 0.00011042))"
  "Tg2 s2 = Fin ((1 + 0.27284 - 0.00063699) / (1 + 0.30306))"
  "To2 s2 = Fin 1" "Tn2 s2 = Fin 1" "Tw2 s2 = Fin 1"
  by (simp_all add: TR2_def Tg2_def To2_def Tn2_def Tw2_def c1_def c2_def c3_def c4_def
      s2_amRe s2_air s2_fields fl_ops)

lemma s2_aer2: "ta2 s2 = Fin 0" "TA2 s2 = Fin 1"
proof -
  show "ta2 s2 = Fin 0"
    by (cases "lam2_temp s2") (simp_all add: ta2_def AB2_def alph2_def s2_beta s2_fields fl_ops cfl_ops)
  then show "TA2 s2 = Fin 1"
    by (simp add: TA2_def s2_air fl_ops)
qed

lemma s2_beams: "Ebn1 s2 = PInf" "Ebn2 s2 = PInf"
  by (simp_all add: Ebn1_def E0n1_def Ebn2_def E0n2_def s2_band1 s2_band2 s2_aer1 s2_aer2
      s2_fields fl_ops)

lemma s2_day: "\<not> night s2"
  by (simp add: night_def rad2deg_def s2_fields fl_ops)

lemma s2_dni: "dni s2 = PInf"
  by (simp add: dni_qc dni1_def dni0_def s2_beams s2_day fl_ops)

text \<open>
  With an extraterrestrial irradiance of positive infinity and the sun at the zenith
  the returned DNI is positive infinity: neither negative nor NaN, so lines 255 to 261
  keep it. An output is finite only if the irradiance handed over is.
\<close>

lemma infinite_irradiance_is_returned:
  "dni_of (clear_sky_REST2V5 unbounded_sun) ! 0 ! 0 = PInf \<and>
   \<not> isfinite (dni_of (clear_sky_REST2V5 unbounded_sun) ! 0 ! 0)"
proof -
  have "dni_of (clear_sky_REST2V5 unbounded_sun) ! 0 ! 0 = dni (elem (clamp_inputs unbounded_sun) 0 0)"
    by (rule out_nth) (simp_all add: unbounded_sun_def)
  then show ?thesis
    by (simp add: elem_unbounded_sun s2_dni)
qed


section \<open>The night mask on the diffuse irradiance\<close>

lemma nadir_air_masses:
  assumes "zenith_angle s = Fin pi"
  shows "\<exists>x. ama s = Fin x \<and> 0.9 \<le> x \<and> x \<le> 1.1"
    and "\<exists>x. amw s = Fin x \<and> 0.9 \<le> x \<and> x \<le> 1.1"
    and "\<exists>x. amo s = Fin x \<and> 0.9 \<le> x \<and> x \<le> 1.1"
    and "\<exists>x. amR s = Fin x \<and> 0.9 \<le> x \<and> x \<le> 1.1"
proof -
  have pi0: "0 \<le> pi" by simp
  note am = air_mass_of_zenith [OF assms pi0]
  have b: "1 / (1 + 0.09) \<le> x \<Longrightarrow> x \<le> 1 / (1 - 0.09) \<Longrightarrow> 0.9 \<le> x \<and> x \<le> (1.1::real)" for x
    by simp
  note h = nadir_air_mass [where N = 14 and D = 78 and \<rho> = "0.09"]
  note h2 = nadir_air_mass [where N = 180 and D = 6084 and \<rho> = "0.09"]
  have 1: "air_mass_den 0.16851 0.18198 95.318 1.9542 pi \<noteq> 0"
    "1 / (1 + 0.09) \<le> air_mass_real 0.16851 0.18198 95.318 1.9542 pi"
    "air_mass_real 0.16851 0.18198 95.318 1.9542 pi \<le> 1 / (1 - 0.09)"
    by (rule h; simp add: powr_180_half base_powr_ge)+
  have 2: "air_mass_den 0.10648 0.11423 93.781 1.9203 pi \<noteq> 0"
    "1 / (1 + 0.09) \<le> air_mass_real 0.10648 0.11423 93.781 1.9203 pi"
    "air_mass_real 0.10648 0.11423 93.781 1.9203 pi \<le> 1 / (1 - 0.09)"
    by (rule h; simp add: powr_180_half base_powr_ge)+
  have 3: "air_mass_den 1.0651 0.6379 101.8 2.2694 pi \<noteq> 0"
    "1 / (1 + 0.09) \<le> air_mass_real 1.0651 0.6379 101.8 2.2694 pi"
    "air_mass_real 1.0651 0.6379 101.8 2.2694 pi \<le> 1 / (1 - 0.09)"
    by (rule h2; simp add: powr_180_one base_powr_ge2)+
  have 4: "air_mass_den 0.48353 0.095846 96.741 1.754 pi \<noteq> 0"
    "1 / (1 + 0.09) \<le> air_mass_real 0.48353 0.095846 96.741 1.754 pi"
    "air_mass_real 0.48353 0.095846 96.741 1.754 pi \<le> 1 / (1 - 0.09)"
    by (rule h; simp add: powr_180_half base_powr_ge)+
  show "\<exists>x. ama s = Fin x \<and> 0.9 \<le> x \<and> x \<le> 1.1"
    using am(1) [OF _ 1(1)] b [OF 1(2,3)] by simp
  show "\<exists>x. amw s = Fin x \<and> 0.9 \<le> x \<and> x \<le> 1.1"
    using am(2) [OF _ 2(1)] b [OF 2(2,3)] by simp
  show "\<exists>x. amo s = Fin x \<and> 0.9 \<le> x \<and> x \<le> 1.1"
    using am(3) [OF _ 3(1)] b [OF 3(2,3)] by simp
  show "\<exists>x. amR s = Fin x \<and> 0.9 \<le> x \<and> x \<le> 1.1"
    using am(4) [OF _ 4(1)] b [OF 4(2,3)] by simp
qed

lemma fl_quot: "x = Fin n \<Longrightarrow> y = Fin d \<Longrightarrow> d \<noteq> 0 \<Longrightarrow> x / y = Fin (n / d)"
  by (simp add: fl_ops)

lemma sq_bounds:
  fixes x :: real
  assumes "0.9 \<le> x" "x \<le> 1.1"
  shows "0.81 \<le> x\<^sup>2" "x\<^sup>2 \<le> 1.21" "0 < x"
proof -
  from assms show "0 < x" by simp
  have "(0.9::real)\<^sup>2 \<le> x\<^sup>2"
    using assms by (intro power_mono) simp_all
  then show "0.81 \<le> x\<^sup>2" by (simp add: power2_eq_square)
  have "x\<^sup>2 \<le> (1.1::real)\<^sup>2"
    using assms by (intro power_mono) simp_all
  then show "x\<^sup>2 \<le> 1.21" by (simp add: power2_eq_square)
qed

lemma powr_15_bounds:
  fixes x :: real
  assumes "0.9 \<le> x" "x \<le> 1.1"
  shows "0 \<le> x powr 1.5" "x powr 1.5 \<le> 1.21"
proof -
  show "0 \<le> x powr 1.5" by simp
  have "x powr 1.5 \<le> 1.1 powr 1.5"
    using assms by (intro powr_mono2) simp_all
  also have "\<dots> \<le> (1.1::real) powr 2"
    by (intro powr_mono) simp_all
  also have "\<dots> = 1.21"
    by (simp add: power2_eq_square)
  finally show "x powr 1.5 \<le> 1.21" .
qed

lemma night_TR1:
  assumes "amRe s = Fin R" "0.9 \<le> R" "R \<le> 1.1"
  shows "\<exists>x. TR1 s = Fin x \<and> 0.79 \<le> x \<and> x \<le> 0.85"
proof -
  note b = assms(2,3) sq_bounds [OF assms(2,3)]
  define N where "N = 1 + 1.8169 * R - 0.033454 * R\<^sup>2"
  define D where "D = 1 + 2.063 * R + 0.31978 * R\<^sup>2"
  have D0: "0 < D" unfolding D_def using b by (simp add: algebra_simps)
  have lo: "0.79 * D \<le> N" unfolding N_def D_def using b by (simp add: algebra_simps)
  have hi: "N \<le> 0.85 * D" unfolding N_def D_def using b by (simp add: algebra_simps)
  have "TR1 s = Fin (N / D)"
    unfolding TR1_def assms(1) using b D0
    by (intro fl_quot) (simp_all add: fl_ops N_def D_def)
  moreover from D0 lo hi have "0.79 \<le> N / D" "N / D \<le> 0.85"
    by (simp_all add: pos_le_divide_eq pos_divide_le_eq)
  ultimately show ?thesis by blast
qed

lemma night_Tg1:
  assumes "amRe s = Fin R" "0.9 \<le> R" "R \<le> 1.1"
  shows "\<exists>x. Tg1 s = Fin x \<and> 0 < x"
proof -
  note b = assms(2,3) sq_bounds [OF assms(2,3)]
  define N where "N = 1 + 0.95885 * R + 0.012871 * R\<^sup>2"
  define D where "D = 1 + 0.96321 * R + 0.015455 * R\<^sup>2"
  have D0: "0 < D" unfolding D_def using b by (simp add: algebra_simps)
  have N0: "0 < N" unfolding N_def using b by (simp add: algebra_simps)
  have "Tg1 s = Fin (N / D)"
    unfolding Tg1_def assms(1) using b D0
    by (intro fl_quot) (simp_all add: fl_ops N_def D_def)
  moreover from D0 N0 have "0 < N / D"
    by (simp_all add: pos_le_divide_eq pos_divide_le_eq)
  ultimately show ?thesis by blast
qed

lemma night_g0:
  assumes "ama s = Fin A" "0.9 \<le> A" "A \<le> 1.1"
  shows "\<exists>x. g0 s = Fin x \<and> 4.07 \<le> x"
proof -
  note b = assms(2,3) sq_bounds [OF assms(2,3)]
  define N where "N = 3.715 + 0.368 * A + 0.036294 * A\<^sup>2"
  define D where "D = 1 + 0.0009391 * A\<^sup>2"
  have D0: "0 < D" unfolding D_def using b by (simp add: algebra_simps)
  have lo: "4.07 * D \<le> N" unfolding N_def D_def using b by (simp add: algebra_simps)
  have "g0 s = Fin (N / D)"
    unfolding g0_def assms(1) using b D0
    by (intro fl_quot) (simp_all add: fl_ops N_def D_def)
  moreover from D0 lo have "4.07 \<le> N / D"
    by (simp_all add: pos_le_divide_eq pos_divide_le_eq)
  ultimately show ?thesis by blast
qed

lemma night_g1_F1:
  assumes "ama s = Fin A" "0.9 \<le> A" "A \<le> 1.1"
  shows "\<exists>x. g1_F1 s = Fin x \<and> - 0.8 \<le> x"
proof -
  note b = assms(2,3) sq_bounds [OF assms(2,3)]
  define N where "N = - 0.164 - 0.72567 * A + 0.20701 * A\<^sup>2"
  define D where "D = 1 + 0.0019012 * A\<^sup>2"
  have D0: "0 < D" unfolding D_def using b by (simp add: algebra_simps)
  have lo: "- 0.8 * D \<le> N" unfolding N_def D_def using b by (simp add: algebra_simps)
  have "g1_F1 s = Fin (N / D)"
    unfolding g1_F1_def assms(1) using b D0
    by (intro fl_quot) (simp_all add: fl_ops N_def D_def)
  moreover from D0 lo have "- 0.8 \<le> N / D"
    by (simp_all add: pos_le_divide_eq pos_divide_le_eq)
  ultimately show ?thesis by blast
qed

lemma night_g2_F1:
  assumes "ama s = Fin A" "0.9 \<le> A" "A \<le> 1.1"
  shows "\<exists>x. g2_F1 s = Fin x \<and> 0 \<le> x \<and> x \<le> 0.52"
proof -
  note b = assms(2,3) sq_bounds [OF assms(2,3)]
  define N where "N = - 0.052288 + 0.31902 * A + 0.17871 * A\<^sup>2"
  define D where "D = 1 + 0.0069592 * A\<^sup>2"
  have D0: "0 < D" unfolding D_def using b by (simp add: algebra_simps)
  have lo: "0 * D \<le> N" unfolding N_def D_def using b by (simp add: algebra_simps)
  have hi: "N \<le> 0.52 * D" unfolding N_def D_def using b by (simp add: algebra_simps)
  have "g2_F1 s = Fin (N / D)"
    unfolding g2_F1_def assms(1) using b D0
    by (intro fl_quot) (simp_all add: fl_ops N_def D_def)
  moreover from D0 lo hi have "0 \<le> N / D" "N / D \<le> 0.52"
    by (simp_all add: pos_le_divide_eq pos_divide_le_eq)
  ultimately show ?thesis by blast
qed

lemma night_TR2:
  assumes "amRe s = Fin R" "0.9 \<le> R" "R \<le> 1.1"
  shows "\<exists>x. TR2 s = Fin x \<and> 0.98 \<le> x \<and> x \<le> 1"
proof -
  note b = assms(2,3) sq_bounds [OF assms(2,3)]
  define N where "N = 1 - 0.010394 * R"
  define D where "D = 1 - 0.00011042 * R\<^sup>2"
  have D0: "0 < D" unfolding D_def using b by (simp add: algebra_simps)
  have lo: "0.98 * D \<le> N" unfolding N_def D_def using b by (simp add: algebra_simps)
  have hi: "N \<le> 1 * D" unfolding N_def D_def using b by (simp add: algebra_simps)
  have "TR2 s = Fin (N / D)"
    unfolding TR2_def assms(1) using b D0
    by (intro fl_quot) (simp_all add: fl_ops N_def D_def)
  moreover from D0 lo hi have "0.98 \<le> N / D" "N / D \<le> 1"
    by (simp_all add: pos_le_divide_eq pos_divide_le_eq)
  ultimately show ?thesis by blast
qed

lemma night_Tg2:
  assumes "amRe s = Fin R" "0.9 \<le> R" "R \<le> 1.1"
  shows "\<exists>x. Tg2 s = Fin x \<and> 0 < x"
proof -
  note b = assms(2,3) sq_bounds [OF assms(2,3)]
  define N where "N = 1 + 0.27284 * R - 0.00063699 * R\<^sup>2"
  define D where "D = 1 + 0.30306 * R"
  have D0: "0 < D" unfolding D_def using b by (simp add: algebra_simps)
  have N0: "0 < N" unfolding N_def using b by (simp add: algebra_simps)
  have "Tg2 s = Fin (N / D)"
    unfolding Tg2_def assms(1) using b D0
    by (intro fl_quot) (simp_all add: fl_ops N_def D_def)
  moreover from D0 N0 have "0 < N / D"
    by (simp_all add: pos_le_divide_eq pos_divide_le_eq)
  ultimately show ?thesis by blast
qed

lemma night_h0:
  assumes "ama s = Fin A" "0.9 \<le> A" "A \<le> 1.1"
  shows "\<exists>x. h0 s = Fin x \<and> 3.86 \<le> x"
proof -
  define P where "P = A powr 1.5"
  have p: "0 \<le> P" "P \<le> 1.21"
    unfolding P_def using powr_15_bounds [OF assms(2,3)] by simp_all
  note b = assms(2,3) sq_bounds [OF assms(2,3)] p
  define N where "N = 3.4352 + 0.65267 * A + 0.00034328 * A\<^sup>2"
  define D where "D = 1 + 0.034388 * P"
  have D0: "0 < D" unfolding D_def using b by (simp add: algebra_simps)
  have lo: "3.86 * D \<le> N" unfolding N_def D_def using b by (simp add: algebra_simps)
  have "h0 s = Fin (N / D)"
    unfolding h0_def assms(1) using b D0
    by (intro fl_quot) (simp_all add: fl_ops N_def D_def P_def)
  moreover from D0 lo have "3.86 \<le> N / D"
    by (simp_all add: pos_le_divide_eq pos_divide_le_eq)
  ultimately show ?thesis by blast
qed

lemma night_h1_F2:
  assumes "ama s = Fin A" "0.9 \<le> A" "A \<le> 1.1"
  shows "\<exists>x. h1_F2 s = Fin x \<and> - 0.41 \<le> x"
proof -
  define P where "P = A powr 1.5"
  have p: "0 \<le> P" "P \<le> 1.21"
    unfolding P_def using powr_15_bounds [OF assms(2,3)] by simp_all
  note b = assms(2,3) sq_bounds [OF assms(2,3)] p
  define N where "N = 1.231 - 1.63853 * A + 0.20667 * A\<^sup>2"
  define D where "D = 1 + 0.1451 * P"
  have D0: "0 < D" unfolding D_def using b by (simp add: algebra_simps)
  have lo: "- 0.41 * D \<le> N" unfolding N_def D_def using b by (simp add: algebra_simps)
  have "h1_F2 s = Fin (N / D)"
    unfolding h1_F2_def assms(1) using b D0
    by (intro fl_quot) (simp_all add: fl_ops N_def D_def P_def)
  moreover from D0 lo have "- 0.41 \<le> N / D"
    by (simp_all add: pos_le_divide_eq pos_divide_le_eq)
  ultimately show ?thesis by blast
qed

lemma night_h2_F2:
  assumes "ama s = Fin A" "0.9 \<le> A" "A \<le> 1.1"
  shows "\<exists>x. h2_F2 s = Fin x \<and> 0 \<le> x \<and> x \<le> 1.001"
proof -
  define P where "P = A powr 1.5"
  have p: "0 \<le> P" "P \<le> 1.21"
    unfolding P_def using powr_15_bounds [OF assms(2,3)] by simp_all
  note b = assms(2,3) sq_bounds [OF assms(2,3)] p
  define N where "N = 0.8889 - 0.55063 * A + 0.50152 * A\<^sup>2"
  define D where "D = 1 + 0.14865 * P"
  have D0: "0 < D" unfolding D_def using b by (simp add: algebra_simps)
  have lo: "0 * D \<le> N" unfolding N_def D_def using b by (simp add: algebra_simps)
  have hi: "N \<le> 1.001 * D" unfolding N_def D_def using b by (simp add: algebra_simps)
  have "h2_F2 s = Fin (N / D)"
    unfolding h2_F2_def assms(1) using b D0
    by (intro fl_quot) (simp_all add: fl_ops N_def D_def P_def)
  moreover from D0 lo hi have "0 \<le> N / D" "N / D \<le> 1.001"
    by (simp_all add: pos_le_divide_eq pos_divide_le_eq)
  ultimately show ?thesis by blast
qed

lemma night_BR1:
  assumes "amR s = Fin R" "0.9 \<le> R" "R \<le> 1.1"
  shows "\<exists>x. BR1 s = Fin x \<and> 0 \<le> x \<and> x \<le> 0.45"
proof -
  note b = assms(2,3) sq_bounds [OF assms(2,3)]
  define x where "x = 0.5 * (0.89013 - 0.0049558 * R + 0.000045721 * R\<^sup>2)"
  have "BR1 s = Fin x"
    unfolding BR1_def assms(1) using b by (simp add: fl_ops x_def)
  moreover have "0 \<le> x" "x \<le> 0.45"
    unfolding x_def using b by (simp_all add: algebra_simps)
  ultimately show ?thesis by blast
qed

lemma night_F1:
  assumes "ama s = Fin A" "0.9 \<le> A" "A \<le> 1.1" "ta1 s = Fin 1.1"
  shows "\<exists>x. F1 s = Fin x \<and> 2 \<le> x"
proof -
  from night_g0 [OF assms(1,2,3)] obtain G0 where g0: "g0 s = Fin G0" "4.07 \<le> G0" by blast
  from night_g1_F1 [OF assms(1,2,3)] obtain G1 where g1: "g1_F1 s = Fin G1" "- 0.8 \<le> G1" by blast
  from night_g2_F1 [OF assms(1,2,3)] obtain G2 where g2: "g2_F1 s = Fin G2" "0 \<le> G2" "G2 \<le> 0.52"
    by blast
  define N where "N = G0 + G1 * 1.1"
  define D where "D = 1 + G2 * 1.1"
  have D0: "0 < D" unfolding D_def using g2 by (simp add: algebra_simps)
  have lo: "2 * D \<le> N" unfolding N_def D_def using g0 g1 g2 by (simp add: algebra_simps)
  have "F1 s = Fin (N / D)"
    unfolding F1_def g0 g1 g2 assms(4) using D0
    by (intro fl_quot) (simp_all add: fl_ops N_def D_def)
  moreover from D0 lo have "2 \<le> N / D"
    by (simp add: pos_le_divide_eq)
  ultimately show ?thesis by blast
qed

lemma night_F2:
  assumes "ama s = Fin A" "0.9 \<le> A" "A \<le> 1.1" "ta2 s = Fin 1.1"
  shows "\<exists>x. F2 s = Fin x \<and> 1.6 \<le> x"
proof -
  from night_h0 [OF assms(1,2,3)] obtain H0 where h0: "h0 s = Fin H0" "3.86 \<le> H0" by blast
  from night_h1_F2 [OF assms(1,2,3)] obtain H1 where h1: "h1_F2 s = Fin H1" "- 0.41 \<le> H1" by blast
  from night_h2_F2 [OF assms(1,2,3)] obtain H2 where h2: "h2_F2 s = Fin H2" "0 \<le> H2" "H2 \<le> 1.001"
    by blast
  define N where "N = H0 + H1 * 1.1"
  define D where "D = 1 + H2 * 1.1"
  have D0: "0 < D" unfolding D_def using h2 by (simp add: algebra_simps)
  have lo: "1.6 * D \<le> N" unfolding N_def D_def using h0 h1 h2 by (simp add: algebra_simps)
  have "F2 s = Fin (N / D)"
    unfolding F2_def h0 h1 h2 assms(4) using D0
    by (intro fl_quot) (simp_all add: fl_ops N_def D_def)
  moreover from D0 lo have "1.6 \<le> N / D"
    by (simp add: pos_le_divide_eq)
  ultimately show ?thesis by blast
qed

lemma exp_neg_le:
  fixes u :: real
  assumes "0 \<le> u"
  shows "exp (- u) \<le> 1 / (1 + u)"
proof -
  have "inverse (exp u) \<le> inverse (1 + u)"
    using assms by (intro le_imp_inverse_le) simp_all
  then show ?thesis
    by (simp add: exp_minus inverse_eq_divide)
qed

lemma quarter_power_exp:
  fixes y :: real
  shows "fpow (fexp (Fin y)) (Fin 0.25) = Fin (exp (y / 4))"
  by (simp add: powr_def)

lemma night_aerosol:
  assumes "AOD550 s = Fin 1.1" "Angstrom_exponent s = Fin 0"
  shows "ang_beta s = Fin 1.1" "ta1 s = Fin 1.1" "ta2 s = Fin 1.1"
proof -
  show b: "ang_beta s = Fin 1.1"
    by (simp add: ang_beta_def assms fl_ops clamp_Fin)
  show "ta1 s = Fin 1.1"
    by (simp add: ta1_def AB1_def alph1_def b assms fl_ops)
  show "ta2 s = Fin 1.1"
    by (simp add: ta2_def AB2_def alph2_def b assms fl_ops cfl_ops)
qed

lemma night_quarters:
  assumes "ama s = Fin A" "0.9 \<le> A" "A \<le> 1.1" "ta1 s = Fin 1.1" "ta2 s = Fin 1.1"
  shows "\<exists>p. fpow (TA1 s) (Fin 0.25) = Fin p \<and> 0 \<le> p \<and> p \<le> 1"
    and "\<exists>q. Fin 1 - fpow (TAS1 s) (Fin 0.25) = Fin q \<and> 0.18 \<le> q"
    and "\<exists>p. fpow (TA2 s) (Fin 0.25) = Fin p \<and> 0 \<le> p \<and> p \<le> 1"
    and "\<exists>q. Fin 1 - fpow (TAS2 s) (Fin 0.25) = Fin q \<and> 0.17 \<le> q"
    and "\<exists>x. TA1 s = Fin x" "\<exists>x. TA2 s = Fin x"
proof -
  have ta: "TA1 s = fexp (Fin (- A * 1.1))" "TAS1 s = fexp (Fin (- A * 0.92 * 1.1))"
    "TA2 s = fexp (Fin (- 1 * A * 1.1))" "TAS2 s = fexp (Fin (- 1 * A * 0.84 * 1.1))"
    by (simp_all add: TA1_def TAS1_def TA2_def TAS2_def assms fl_ops)
  show "\<exists>x. TA1 s = Fin x" "\<exists>x. TA2 s = Fin x"
    unfolding ta by simp_all
  have "exp (- A * 1.1 / 4) \<le> 1"
    using assms(2) by simp
  then show "\<exists>p. fpow (TA1 s) (Fin 0.25) = Fin p \<and> 0 \<le> p \<and> p \<le> 1"
    unfolding ta quarter_power_exp by simp
  have "exp (- 1 * A * 1.1 / 4) \<le> 1"
    using assms(2) by simp
  then show "\<exists>p. fpow (TA2 s) (Fin 0.25) = Fin p \<and> 0 \<le> p \<and> p \<le> 1"
    unfolding ta quarter_power_exp by simp
  have u1: "0.2277 \<le> A * 0.92 * 1.1 / 4"
    using assms(2) by simp
  have "exp (- A * 0.92 * 1.1 / 4) = exp (- (A * 0.92 * 1.1 / 4))"
    by simp
  also have "\<dots> \<le> exp (- 0.2277)"
    using u1 by (simp only: exp_le_cancel_iff neg_le_iff_le)
  also have "\<dots> \<le> 1 / (1 + 0.2277)"
    by (rule exp_neg_le) simp
  also have "\<dots> \<le> 0.82"
    by simp
  finally have q1: "0.18 \<le> 1 - exp (- A * 0.92 * 1.1 / 4)"
    by simp
  then show "\<exists>q. Fin 1 - fpow (TAS1 s) (Fin 0.25) = Fin q \<and> 0.18 \<le> q"
    unfolding ta quarter_power_exp by (simp add: fl_ops)
  have u2: "0.2079 \<le> A * 0.84 * 1.1 / 4"
    using assms(2) by simp
  have "exp (- 1 * A * 0.84 * 1.1 / 4) = exp (- (A * 0.84 * 1.1 / 4))"
    by simp
  also have "\<dots> \<le> exp (- 0.2079)"
    using u2 by (simp only: exp_le_cancel_iff neg_le_iff_le)
  also have "\<dots> \<le> 1 / (1 + 0.2079)"
    by (rule exp_neg_le) simp
  also have "\<dots> \<le> 0.83"
    by simp
  finally have q2: "0.17 \<le> 1 - exp (- 1 * A * 0.84 * 1.1 / 4)"
    by simp
  then show "\<exists>q. Fin 1 - fpow (TAS2 s) (Fin 0.25) = Fin q \<and> 0.17 \<le> q"
    unfolding ta quarter_power_exp by (simp add: fl_ops)
qed

lemma night_Ba:
  assumes "zenith_angle s = Fin pi"
  shows "\<exists>x. Ba s = Fin x \<and> x \<le> - 1.1"
proof -
  have "1 + 1.1395 \<le> exp (1.1395::real)"
    by (rule exp_ge_add_one_self)
  then have "1 - exp (- 0.6931 - 1.8326 * cos pi) \<le> (- 1.1::real)"
    by simp
  moreover have "Ba s = Fin (1 - exp (- 0.6931 - 1.8326 * cos pi))"
    unfolding Ba_def assms by (simp add: fl_ops)
  ultimately show ?thesis by blast
qed

lemma night_gases:
  assumes "ozone s = Fin 0" "nitrogen_dioxide s = Fin 0" "water_vapour s = Fin 0"
    and "amo s = Fin O3" "0.9 \<le> O3" "amw s = Fin W" "0.9 \<le> W"
  shows "To1 s = Fin 1" "Tn1 s = Fin 1" "Tn1166 s = Fin 1" "Tw1 s = Fin 1" "Tw1166 s = Fin 1"
    "Tw2 s = Fin 1" "Tw2166 s = Fin 1"
proof -
  from assms(5,7) have pos: "0 < O3" "0 < W"
    by simp_all
  show "To1 s = Fin 1"
    using pos by (simp add: To1_def f1_def f2_def f3_def uo_def assms fl_ops)
  have g: "g1 s = Fin 0.17499" "g2 s = Fin 0" "g3 s = Fin 0.17499"
    by (simp_all add: g1_def g2_def g3_def un_def assms fl_ops)
  have d: "1 + 0.17499 * W \<noteq> 0"
    using pos by (simp add: add_nonneg_eq_0_iff)
  have "Tn1_middle s = Fin ((1 + 0.17499 * W) / (1 + 0.17499 * W))"
    unfolding Tn1_middle_def g assms using pos d
    by (intro fl_quot) (simp_all add: fl_ops)
  with d have "Tn1_middle s = Fin 1"
    by simp
  then show "Tn1 s = Fin 1"
    by (simp add: Tn1_def fl_ops)
  have "Tn1166_middle s = Fin 1"
    unfolding Tn1166_middle_def g by (simp add: fl_ops)
  then show "Tn1166 s = Fin 1"
    by (simp add: Tn1_def Tn1166_def fl_ops)
  show "Tw1 s = Fin 1" "Tw1166 s = Fin 1"
    by (simp_all add: Tw1_def Tw1166_def h1_def h2_def assms fl_ops)
  show "Tw2 s = Fin 1" "Tw2166 s = Fin 1"
    using pos by (simp_all add: Tw2_def Tw2166_def c1_def c2_def c3_def c4_def assms fl_ops)
qed

lemma night_sky_albedo:
  assumes "ang_beta s = Fin 1.1" "Angstrom_exponent s = Fin 0"
  shows "rs1 s = Fin ((0.13363 + 1.1 * 0.37567) / (1 + 1.1 * 0.84057))"
    and "rs2 s = Fin ((0.010191 + 1.1 * 0.14618) / (1 + 1.1 * 0.58101))"
  by (simp_all add: rs1_def rs2_def AB1_def AB2_def alph1_def alph2_def assms fl_ops)

lemma bracket_negative:
  fixes b u p ba f t q :: real
  assumes "0 \<le> b" "b \<le> bU" "0 \<le> u" "u \<le> uU" "0 \<le> p" "p \<le> 1"
    and "ba \<le> - baL" "0 \<le> baL" "fL \<le> f" "0 \<le> fL" "tL \<le> t" "0 \<le> tL" "qL \<le> q" "0 \<le> qL"
    and "bU * uU < baL * fL * tL * qL"
  shows "b * u * p + ba * f * t * q < 0"
proof -
  have "b * u \<le> bU * uU"
    using assms by (intro mult_mono) simp_all
  moreover have "0 \<le> b * u"
    using assms by simp
  ultimately have "b * u * p \<le> bU * uU * 1"
    using assms by (intro mult_mono) simp_all
  then have first: "b * u * p \<le> bU * uU"
    by simp
  have nb: "0 \<le> - ba" "0 \<le> f" "0 \<le> t" "0 \<le> q"
    using assms by simp_all
  have "baL \<le> - ba"
    using assms(7) by simp
  from this assms(9) nb(1) assms(10) have 1: "baL * fL \<le> (- ba) * f"
    by (rule mult_mono)
  have n1: "0 \<le> (- ba) * f"
    using nb by (intro mult_nonneg_nonneg)
  have 2: "baL * fL * tL \<le> (- ba) * f * t"
    using 1 assms(11) n1 assms(12) by (rule mult_mono)
  have n2: "0 \<le> (- ba) * f * t"
    using n1 nb by (intro mult_nonneg_nonneg)
  have "baL * fL * tL * qL \<le> (- ba) * f * t * q"
    using 2 assms(13) n2 assms(14) by (rule mult_mono)
  then have second: "ba * f * t * q \<le> - (baL * fL * tL * qL)"
    by simp
  from first second assms(15) show ?thesis
    by linarith
qed

lemma elem_dust_night: "elem (clamp_inputs dust_night) 0 0 = s1"
  by (simp add: elem_def clamp_inputs_def clamp_array_def dust_night_def s1_def clamp_Fin)

lemma s1_fields:
  "zenith_angle s1 = Fin pi" "Eext s1 = Fin 1361" "pressure s1 = Fin 1013.25"
  "water_vapour s1 = Fin 0" "ozone s1 = Fin 0" "nitrogen_dioxide s1 = Fin 0"
  "AOD550 s1 = Fin 1.1" "Angstrom_exponent s1 = Fin 0" "surface_albedo s1 = Fin 0"
  by (simp_all add: s1_def)

lemma s1_night: "night s1"
  by (simp add: night_def rad2deg_def s1_fields fl_ops)

lemma diffuse_positive:
  fixes E k tg B :: real
  assumes "0 < E" "0 < k" "0 < tg" "B < 0"
  shows "0 < E * k * cos pi * 1 * tg * 1 * 1 * B"
proof -
  have "0 < (E * k * tg) * (- B)"
    using assms by (intro mult_pos_pos) simp_all
  then show ?thesis by simp
qed

lemma s1_dhi0: "\<exists>x. dhi0 s1 = Fin x \<and> 0 < x"
proof -
  note z = s1_fields(1)
  from nadir_air_masses [OF z] obtain A W O3 R where
    A: "ama s1 = Fin A" "0.9 \<le> A" "A \<le> 1.1" and
    W: "amw s1 = Fin W" "0.9 \<le> W" "W \<le> 1.1" and
    O3: "amo s1 = Fin O3" "0.9 \<le> O3" "O3 \<le> 1.1" and
    R: "amR s1 = Fin R" "0.9 \<le> R" "R \<le> 1.1"
    by blast
  have "isnan (pressure s1) \<or> (\<exists>r\<ge>0. pressure s1 = Fin r)"
    unfolding s1_fields by (intro disjI2 exI [of _ "1013.25"]) simp
  from amRe_amR [OF this] have Re: "amRe s1 = Fin R"
    by (simp add: s1_fields R fl_ops)
  note aer = night_aerosol [OF s1_fields(7,8)]
  note gas = night_gases [OF s1_fields(5,6,4) O3(1,2) W(1,2)]
  note alb = night_sky_albedo [OF aer(1) s1_fields(8)]
  from night_TR1 [OF Re R(2,3)] obtain tr1 where tr1: "TR1 s1 = Fin tr1" "0.79 \<le> tr1" "tr1 \<le> 0.85"
    by blast
  from night_Tg1 [OF Re R(2,3)] obtain tg1 where tg1: "Tg1 s1 = Fin tg1" "0 < tg1"
    by blast
  from night_BR1 [OF R] obtain br where br: "BR1 s1 = Fin br" "0 \<le> br" "br \<le> 0.45"
    by blast
  from night_F1 [OF A aer(2)] obtain f1 where f1: "F1 s1 = Fin f1" "2 \<le> f1"
    by blast
  from night_Ba [OF z] obtain ba where ba: "Ba s1 = Fin ba" "ba \<le> - 1.1"
    by blast
  note qt = night_quarters [OF A aer(2,3)]
  from qt(1) obtain p1 where p1: "fpow (TA1 s1) (Fin 0.25) = Fin p1" "0 \<le> p1" "p1 \<le> 1"
    by blast
  from qt(2) obtain q1 where q1: "Fin 1 - fpow (TAS1 s1) (Fin 0.25) = Fin q1" "0.18 \<le> q1"
    by blast
  from qt(3) obtain p2 where p2: "fpow (TA2 s1) (Fin 0.25) = Fin p2" "0 \<le> p2" "p2 \<le> 1"
    by blast
  from qt(4) obtain q2 where q2: "Fin 1 - fpow (TAS2 s1) (Fin 0.25) = Fin q2" "0.17 \<le> q2"
    by blast
  from qt(5) obtain ta1v where ta1v: "TA1 s1 = Fin ta1v" by blast
  from qt(6) obtain ta2v where ta2v: "TA2 s1 = Fin ta2v" by blast
  from night_TR2 [OF Re R(2,3)] obtain tr2 where tr2: "TR2 s1 = Fin tr2" "0.98 \<le> tr2" "tr2 \<le> 1"
    by blast
  from night_Tg2 [OF Re R(2,3)] obtain tg2 where tg2: "Tg2 s1 = Fin tg2" "0 < tg2"
    by blast
  from night_F2 [OF A aer(3)] obtain f2 where f2: "F2 s1 = Fin f2" "1.6 \<le> f2"
    by blast
  define B1 where "B1 = br * (1 - tr1) * p1 + ba * f1 * tr1 * q1"
  define B2 where "B2 = 0.5 * (1 - tr2) * p2 + ba * f2 * tr2 * q2"
  have B1: "B1 < 0"
    unfolding B1_def
    by (rule bracket_negative [where bU = "0.45" and uU = "0.21" and baL = "1.1" and fL = 2
          and tL = "0.79" and qL = "0.18"])
       (use br tr1 p1 ba f1 q1 in simp_all)
  have B2: "B2 < 0"
    unfolding B2_def
    by (rule bracket_negative [where bU = "0.5" and uU = "0.02" and baL = "1.1" and fL = "1.6"
          and tL = "0.98" and qL = "0.17"])
       (use tr2 p2 ba f2 q2 in simp_all)
  define x1 where "x1 = 1361 * 0.46512 * cos pi * 1 * tg1 * 1 * 1 * B1"
  define x2 where "x2 = 1361 * 0.51951 * cos pi * 1 * tg2 * 1 * 1 * B2"
  have x1: "0 < x1"
    unfolding x1_def using tg1(2) B1 by (intro diffuse_positive) simp_all
  have x2: "0 < x2"
    unfolding x2_def using tg2(2) B2 by (intro diffuse_positive) simp_all
  have br1: "BR1 s1 * (Fin 1 - TR1 s1) * fpow (TA1 s1) (Fin 0.25)
      + Ba s1 * F1 s1 * TR1 s1 * (Fin 1 - fpow (TAS1 s1) (Fin 0.25)) = Fin B1"
    unfolding p1 q1 unfolding br tr1 ba f1 by (simp add: fl_ops B1_def)
  have br2: "BR2 s1 * (Fin 1 - TR2 s1) * fpow (TA2 s1) (Fin 0.25)
      + Ba s1 * F2 s1 * TR2 s1 * (Fin 1 - fpow (TAS2 s1) (Fin 0.25)) = Fin B2"
    unfolding p2 q2 unfolding tr2 ba f2 BR2_def by (simp add: fl_ops B2_def)
  have e1: "Edp1 s1 = Fin x1"
    unfolding Edp1_def br1 unfolding E0n1_def s1_fields gas tg1
    by (simp add: fl_ops x1_def)
  have e2: "Edp2 s1 = Fin x2"
    unfolding Edp2_def br2 unfolding E0n2_def s1_fields gas tg2 To2_def Tn2166_def
    by (simp add: fl_ops x2_def)
  have bn1: "Ebn1 s1 = Fin (1361 * 0.46512 * tr1 * tg1 * ta1v)"
    unfolding Ebn1_def E0n1_def s1_fields tr1 tg1 gas ta1v by (simp add: fl_ops)
  have bn2: "Ebn2 s1 = Fin (1361 * 0.51951 * tr2 * tg2 * ta2v)"
    unfolding Ebn2_def E0n2_def s1_fields tr2 tg2 gas ta2v To2_def Tn2_def by (simp add: fl_ops)
  have d1: "Edd1 s1 = Fin 0"
    unfolding Edd1_def rg_def s1_fields alb bn1 e1 by (simp add: fl_ops)
  have d2: "Edd2 s1 = Fin 0"
    unfolding Edd2_def rg_def s1_fields alb bn2 e2 by (simp add: fl_ops)
  have "dhi0 s1 = Fin (x1 + x2)"
    unfolding dhi0_def e1 e2 d1 d2 by (simp add: fl_ops)
  with x1 x2 show ?thesis
    by (intro exI [of _ "x1 + x2"]) simp
qed

text \<open>
  At the nadir of the sun under heavy aerosol the diffuse irradiance of line 247 is a
  positive finite number (the forward scatterance factor \<open>Ba\<close> is negative there and
  so is the cosine of the zenith angle). The floor on negative values would keep it;
  the mask of line 248 sets it to zero.
\<close>

theorem night_diffuse_counterexample:
  "rad2deg (zenith_angle dust_night ! 0 ! 0) > Fin 90 \<and>
   isfinite (dhi0 (elem (clamp_inputs dust_night) 0 0)) \<and>
   Fin 0 < dhi0 (elem (clamp_inputs dust_night) 0 0) \<and>
   dhi_of (clear_sky_REST2V5 dust_night) ! 0 ! 0 = Fin 0 \<and>
   dhi_of (clear_sky_REST2V5 dust_night) ! 0 ! 0 \<noteq>
     (if dhi0 (elem (clamp_inputs dust_night) 0 0) < Fin 0 \<or>
         isnan (dhi0 (elem (clamp_inputs dust_night) 0 0))
      then Fin 0 else dhi0 (elem (clamp_inputs dust_night) 0 0))"
proof -
  from s1_dhi0 obtain x where x: "dhi0 s1 = Fin x" "0 < x"
    by blast
  have n: "rad2deg (zenith_angle dust_night ! 0 ! 0) > Fin 90"
    by (simp add: dust_night_def rad2deg_def fl_ops)
  have "dhi_of (clear_sky_REST2V5 dust_night) ! 0 ! 0 = dhi (elem (clamp_inputs dust_night) 0 0)"
    by (rule out_nth) (simp_all add: dust_night_def)
  then have d: "dhi_of (clear_sky_REST2V5 dust_night) ! 0 ! 0 = Fin 0"
    by (simp add: elem_dust_night night_dhi s1_night)
  from x n d show ?thesis
    by (simp add: elem_dust_night fl_ops)
qed


section \<open>A negative zenith angle\<close>

text \<open>
  At the zenith angle \<open>- pi\<close> the angle in degrees is \<open>- 180\<close>: its power is complex
  and the base \<open>c + 180\<close> is positive. The second term of each air mass is small, so
  that the four air masses lie between 0.9 and 1.1.
\<close>

lemma air_mass_negative:
  assumes b: "0 < b" and d: "0 < d" and c: "0 < c" and a: "0 \<le> a"
    and r: "a * 180 powr b / (c + 180) powr d \<le> \<rho>" "\<rho> < 1"
  shows "\<exists>x. cabs (cpow (c_of_fl (fcos (Fin (- pi))) + c_of_fl (Fin a)
      * cpow (c_of_fl (Fin (- pi) * Fin 180 / Fin pi)) (Fin b) / cpow (c_of_fl (Fin c)
      - c_of_fl (Fin (- pi) * Fin 180 / Fin pi)) (Fin d)) (Fin (- 1))) = Fin x \<and>
      1 / (1 + \<rho>) \<le> x \<and> x \<le> 1 / (1 - \<rho>)"
proof -
  define r where "r = a * 180 powr b / (c + 180) powr d"
  have r0: "0 \<le> r"
    using a by (simp add: r_def)
  have r1: "r \<le> \<rho>"
    using r(1) by (simp add: r_def)
  have t: "c_of_fl (Fin (- pi) * Fin 180 / Fin pi) = CFin (complex_of_real (- 180))"
    unfolding complex_temp_Fin by simp
  have p1: "cpow (CFin (complex_of_real (- 180))) (Fin b) = CFin (rcis (\<bar>- 180\<bar> powr b) (b * pi))"
    using b by (intro cpow_of_real_neg) simp_all
  have e1: "c_of_fl (Fin c) - CFin (complex_of_real (- 180)) = CFin (complex_of_real (c + 180))"
    by (simp add: cfl_ops)
  have p2: "cpow (CFin (complex_of_real (c + 180))) (Fin d) = CFin (complex_of_real ((c + 180) powr d))"
    using c d by (intro cpow_of_real_nonneg) simp_all
  have nz: "(c + 180) powr d \<noteq> 0"
    using c by simp
  have q: "complex_of_real a * rcis (180 powr b) (b * pi) / complex_of_real ((c + 180) powr d)
      = rcis r (b * pi)"
  proof -
    have "complex_of_real a * rcis (180 powr b) (b * pi) = rcis (a * 180 powr b) (b * pi)"
      by (simp add: rcis_def)
    moreover have "complex_of_real ((c + 180) powr d) = rcis ((c + 180) powr d) 0"
      by simp
    ultimately show ?thesis
      by (simp only: rcis_divide r_def) simp
  qed
  have x: "c_of_fl (fcos (Fin (- pi))) + c_of_fl (Fin a) * cpow (CFin (complex_of_real (- 180))) (Fin b)
        / cpow (c_of_fl (Fin c) - CFin (complex_of_real (- 180))) (Fin d)
      = CFin (complex_of_real (cos pi) + rcis r (b * pi))"
    unfolding e1 p1 p2 using nz q by (simp add: cfl_ops)
  have m: "cmod (complex_of_real (cos pi) + rcis r (b * pi))
      = sqrt ((cos pi + r * cos (b * pi))\<^sup>2 + (r * sin (b * pi))\<^sup>2)"
    by (simp add: cmod_def)
  note bd = nadir_modulus [OF r0 r1 r(2), of "b * pi", folded m]
  from bd(1) r(2) have pos: "0 < cmod (complex_of_real (cos pi) + rcis r (b * pi))"
    by linarith
  then have nzx: "complex_of_real (cos pi) + rcis r (b * pi) \<noteq> 0"
    by auto
  have v: "cabs (cpow (CFin (complex_of_real (cos pi) + rcis r (b * pi))) (Fin (- 1)))
      = Fin (1 / cmod (complex_of_real (cos pi) + rcis r (b * pi)))"
    by (rule cabs_cpow_inverse [OF nzx])
  from r0 r1 have p: "0 < 1 + \<rho>"
    by simp
  have lo: "1 / (1 + \<rho>) \<le> 1 / cmod (complex_of_real (cos pi) + rcis r (b * pi))"
    using pos bd(2) by (intro frac_le) simp_all
  have hi: "1 / cmod (complex_of_real (cos pi) + rcis r (b * pi)) \<le> 1 / (1 - \<rho>)"
    using r(2) bd(1) by (intro frac_le) simp_all
  show ?thesis
    unfolding t x v using lo hi by blast
qed

lemma base_powr_ge3:
  fixes x d :: real
  assumes "78 \<le> x" "1 \<le> d"
  shows "78 \<le> (x + 180) powr d"
  using base_powr_ge [of "x + 180" d] assms by simp

lemma base_powr_ge4:
  fixes x d :: real
  assumes "78 \<le> x" "2 \<le> d"
  shows "6084 \<le> (x + 180) powr d"
  using base_powr_ge2 [of "x + 180" d] assms by simp

lemma negative_zenith_air_masses:
  assumes "zenith_angle s = Fin (- pi)"
  shows "\<exists>x. ama s = Fin x \<and> 0.9 \<le> x \<and> x \<le> 1.1"
    and "\<exists>x. amw s = Fin x \<and> 0.9 \<le> x \<and> x \<le> 1.1"
    and "\<exists>x. amo s = Fin x \<and> 0.9 \<le> x \<and> x \<le> 1.1"
    and "\<exists>x. amR s = Fin x \<and> 0.9 \<le> x \<and> x \<le> 1.1"
proof -
  have w: "1 / (1 + 0.09) \<le> x \<and> x \<le> 1 / (1 - 0.09) \<Longrightarrow> 0.9 \<le> x \<and> x \<le> (1.1::real)" for x
    by simp
  have 1: "a * 180 powr b / (c + 180) powr d \<le> 0.09"
    if "0 \<le> a" "a \<le> 0.5" "0 \<le> b" "b \<le> 1 / 2" "78 \<le> c" "1 \<le> d" for a b c d :: real
  proof -
    have "a * 180 powr b \<le> 0.5 * 14"
      using that powr_180_half [of b] by (intro mult_mono) simp_all
    moreover have "78 \<le> (c + 180) powr d"
      using that by (intro base_powr_ge3)
    ultimately have "a * 180 powr b / (c + 180) powr d \<le> 0.5 * 14 / 78"
      using that by (intro frac_le) simp_all
    then show ?thesis by simp
  qed
  have 2: "a * 180 powr b / (c + 180) powr d \<le> 0.09"
    if "0 \<le> a" "a \<le> 1.1" "0 \<le> b" "b \<le> 1" "78 \<le> c" "2 \<le> d" for a b c d :: real
  proof -
    have "a * 180 powr b \<le> 1.1 * 180"
      using that powr_180_one [of b] by (intro mult_mono) simp_all
    moreover have "6084 \<le> (c + 180) powr d"
      using that by (intro base_powr_ge4)
    ultimately have "a * 180 powr b / (c + 180) powr d \<le> 1.1 * 180 / 6084"
      using that by (intro frac_le) simp_all
    then show ?thesis by simp
  qed
  note am = air_mass_negative [where \<rho> = "0.09"]
  show "\<exists>x. ama s = Fin x \<and> 0.9 \<le> x \<and> x \<le> 1.1"
    unfolding ama_def complex_temp_def assms
    using am [of "0.18198" "1.9542" "95.318" "0.16851"] 1 [of "0.16851" "0.18198" "95.318" "1.9542"] w
    by fastforce
  show "\<exists>x. amw s = Fin x \<and> 0.9 \<le> x \<and> x \<le> 1.1"
    unfolding amw_def complex_temp_def assms
    using am [of "0.11423" "1.9203" "93.781" "0.10648"] 1 [of "0.10648" "0.11423" "93.781" "1.9203"] w
    by fastforce
  show "\<exists>x. amo s = Fin x \<and> 0.9 \<le> x \<and> x \<le> 1.1"
    unfolding amo_def complex_temp_def assms
    using am [of "0.6379" "2.2694" "101.8" "1.0651"] 2 [of "1.0651" "0.6379" "101.8" "2.2694"] w
    by fastforce
  show "\<exists>x. amR s = Fin x \<and> 0.9 \<le> x \<and> x \<le> 1.1"
    unfolding amR_def complex_temp_def assms
    using am [of "0.095846" "1.754" "96.741" "0.48353"] 1 [of "0.48353" "0.095846" "96.741" "1.754"] w
    by fastforce
qed

text \<open>
  Without aerosol the optical depths \<open>ta1\<close> and \<open>ta2\<close> are zero and the aerosol
  transmittances are 1, so that the diffuse irradiance is the Rayleigh part alone.
\<close>

lemma clear_air_BR1:
  assumes "amR s = Fin R" "0.9 \<le> R" "R \<le> 1.1"
  shows "\<exists>x. BR1 s = Fin x \<and> 0.4 \<le> x"
proof -
  note b = assms(2,3) sq_bounds [OF assms(2,3)]
  define x where "x = 0.5 * (0.89013 - 0.0049558 * R + 0.000045721 * R\<^sup>2)"
  have "BR1 s = Fin x"
    unfolding BR1_def assms(1) using b by (simp add: fl_ops x_def)
  moreover have "0.4 \<le> x"
    unfolding x_def using b by (simp add: algebra_simps)
  ultimately show ?thesis by blast
qed

lemma clear_air_aerosol:
  assumes "AOD550 s = Fin 0" "Angstrom_exponent s = Fin 0" "ama s = Fin A"
  shows "ang_beta s = Fin 0" "ta1 s = Fin 0" "ta2 s = Fin 0"
    "TA1 s = Fin 1" "TAS1 s = Fin 1" "TA2 s = Fin 1" "TAS2 s = Fin 1"
proof -
  show b: "ang_beta s = Fin 0"
    by (simp add: ang_beta_def assms fl_ops clamp_Fin)
  show t1: "ta1 s = Fin 0"
    by (simp add: ta1_def AB1_def alph1_def b assms fl_ops)
  show t2: "ta2 s = Fin 0"
    by (cases "lam2_temp s") (simp_all add: ta2_def AB2_def alph2_def b assms fl_ops cfl_ops)
  show "TA1 s = Fin 1" "TAS1 s = Fin 1" "TA2 s = Fin 1" "TAS2 s = Fin 1"
    by (simp_all add: TA1_def TAS1_def TA2_def TAS2_def t1 t2 assms fl_ops)
qed

lemma elem_negative_zenith: "elem (clamp_inputs negative_zenith) 0 0 = s3"
  by (simp add: elem_def clamp_inputs_def clamp_array_def negative_zenith_def s3_def clamp_Fin)

lemma s3_fields:
  "zenith_angle s3 = Fin (- pi)" "Eext s3 = Fin 1361" "pressure s3 = Fin 1013.25"
  "water_vapour s3 = Fin 0" "ozone s3 = Fin 0" "nitrogen_dioxide s3 = Fin 0"
  "AOD550 s3 = Fin 0" "Angstrom_exponent s3 = Fin 0" "surface_albedo s3 = Fin 0"
  by (simp_all add: s3_def)

lemma s3_day: "\<not> night s3"
  by (simp add: night_def rad2deg_def s3_fields fl_ops)

lemma s3_signs:
  "\<exists>x y. dni0 s3 = Fin x \<and> 0 < x \<and> dhi0 s3 = Fin y \<and> y < 0 \<and> Ebh0 s3 = Fin (- x)"
proof -
  note z = s3_fields(1)
  from negative_zenith_air_masses [OF z] obtain A W O3 R where
    A: "ama s3 = Fin A" "0.9 \<le> A" "A \<le> 1.1" and
    W: "amw s3 = Fin W" "0.9 \<le> W" "W \<le> 1.1" and
    O3: "amo s3 = Fin O3" "0.9 \<le> O3" "O3 \<le> 1.1" and
    R: "amR s3 = Fin R" "0.9 \<le> R" "R \<le> 1.1"
    by blast
  have "isnan (pressure s3) \<or> (\<exists>r\<ge>0. pressure s3 = Fin r)"
    unfolding s3_fields by (intro disjI2 exI [of _ "1013.25"]) simp
  from amRe_amR [OF this] have Re: "amRe s3 = Fin R"
    by (simp add: s3_fields R fl_ops)
  note aer = clear_air_aerosol [OF s3_fields(7,8) A(1)]
  note gas = night_gases [OF s3_fields(5,6,4) O3(1,2) W(1,2)]
  from night_TR1 [OF Re R(2,3)] obtain tr1 where tr1: "TR1 s3 = Fin tr1" "0.79 \<le> tr1" "tr1 \<le> 0.85"
    by blast
  from night_Tg1 [OF Re R(2,3)] obtain tg1 where tg1: "Tg1 s3 = Fin tg1" "0 < tg1"
    by blast
  from clear_air_BR1 [OF R] obtain br where br: "BR1 s3 = Fin br" "0.4 \<le> br"
    by blast
  from night_TR2 [OF Re R(2,3)] obtain tr2 where tr2: "TR2 s3 = Fin tr2" "0.98 \<le> tr2" "tr2 \<le> 1"
    by blast
  from night_Tg2 [OF Re R(2,3)] obtain tg2 where tg2: "Tg2 s3 = Fin tg2" "0 < tg2"
    by blast
  from night_g0 [OF A] obtain G0 where g0: "g0 s3 = Fin G0" by blast
  from night_g1_F1 [OF A] obtain G1 where g1: "g1_F1 s3 = Fin G1" by blast
  from night_g2_F1 [OF A] obtain G2 where g2: "g2_F1 s3 = Fin G2" by blast
  from night_h0 [OF A] obtain H0 where h0: "h0 s3 = Fin H0" by blast
  from night_h1_F2 [OF A] obtain H1 where h1: "h1_F2 s3 = Fin H1" by blast
  from night_h2_F2 [OF A] obtain H2 where h2: "h2_F2 s3 = Fin H2" by blast
  have f1: "F1 s3 = Fin G0"
    unfolding F1_def g0 g1 g2 aer by (simp add: fl_ops)
  have f2: "F2 s3 = Fin H0"
    unfolding F2_def h0 h1 h2 aer by (simp add: fl_ops)
  have ba: "Ba s3 = Fin (1 - exp (- 0.6931 - 1.8326 * cos (- pi)))"
    unfolding Ba_def z by (simp add: fl_ops)
  define B1 where "B1 = br * (1 - tr1)"
  define B2 where "B2 = 0.5 * (1 - tr2)"
  have B1: "0 < B1"
    unfolding B1_def using br tr1 by (intro mult_pos_pos) simp_all
  have B2: "0 \<le> B2"
    unfolding B2_def using tr2 by simp
  have br1: "BR1 s3 * (Fin 1 - TR1 s3) * fpow (TA1 s3) (Fin 0.25)
      + Ba s3 * F1 s3 * TR1 s3 * (Fin 1 - fpow (TAS1 s3) (Fin 0.25)) = Fin B1"
    unfolding br tr1 ba f1 aer by (simp add: fl_ops B1_def)
  have br2: "BR2 s3 * (Fin 1 - TR2 s3) * fpow (TA2 s3) (Fin 0.25)
      + Ba s3 * F2 s3 * TR2 s3 * (Fin 1 - fpow (TAS2 s3) (Fin 0.25)) = Fin B2"
    unfolding tr2 ba f2 aer BR2_def by (simp add: fl_ops B2_def)
  define y1 where "y1 = - (1361 * 0.46512 * tg1 * B1)"
  define y2 where "y2 = - (1361 * 0.51951 * tg2 * B2)"
  have y1: "y1 < 0"
    unfolding y1_def using tg1(2) B1 by simp
  have y2: "y2 \<le> 0"
    unfolding y2_def using tg2(2) B2 by simp
  have e1: "Edp1 s3 = Fin y1"
    unfolding Edp1_def br1 unfolding E0n1_def s3_fields gas tg1
    by (simp add: fl_ops y1_def)
  have e2: "Edp2 s3 = Fin y2"
    unfolding Edp2_def br2 unfolding E0n2_def s3_fields gas tg2 To2_def Tn2166_def
    by (simp add: fl_ops y2_def)
  define x1 where "x1 = 1361 * 0.46512 * tr1 * tg1"
  define x2 where "x2 = 1361 * 0.51951 * tr2 * tg2"
  have x1: "0 < x1"
    unfolding x1_def using tr1 tg1 by simp
  have x2: "0 < x2"
    unfolding x2_def using tr2 tg2 by simp
  have bn1: "Ebn1 s3 = Fin x1"
    unfolding Ebn1_def E0n1_def s3_fields tr1 tg1 gas aer by (simp add: fl_ops x1_def)
  have bn2: "Ebn2 s3 = Fin x2"
    unfolding Ebn2_def E0n2_def s3_fields tr2 tg2 gas aer To2_def Tn2_def by (simp add: fl_ops x2_def)
  have rs: "rs1 s3 = Fin 0.13363" "rs2 s3 = Fin 0.010191"
    by (simp_all add: rs1_def rs2_def AB1_def AB2_def alph1_def alph2_def aer s3_fields fl_ops)
  have d1: "Edd1 s3 = Fin 0"
    unfolding Edd1_def rg_def s3_fields rs bn1 e1 by (simp add: fl_ops)
  have d2: "Edd2 s3 = Fin 0"
    unfolding Edd2_def rg_def s3_fields rs bn2 e2 by (simp add: fl_ops)
  have "dhi0 s3 = Fin (y1 + y2)"
    unfolding dhi0_def e1 e2 d1 d2 by (simp add: fl_ops)
  moreover have "dni0 s3 = Fin (x1 + x2)"
    unfolding dni0_def bn1 bn2 by (simp add: fl_ops)
  moreover have "Ebh0 s3 = Fin (- (x1 + x2))"
    unfolding Ebh0_def bn1 bn2 z by (simp add: fl_ops)
  moreover have "0 < x1 + x2" "y1 + y2 < 0"
    using x1 x2 y1 y2 by simp_all
  ultimately show ?thesis
    by blast
qed

text \<open>
  At the zenith angle \<open>- pi\<close> under clean air the DNI before the quality control is
  positive and stays, while the DHI and the GHI before it are negative and become zero:
  each output is floored on its own value.
\<close>

theorem negative_outputs_become_zero_witness:
  "same_shape negative_zenith \<and>
   0 < length (zenith_angle negative_zenith) \<and> 0 < length (zenith_angle negative_zenith ! 0) \<and>
   ghi0 (elem (clamp_inputs negative_zenith) 0 0) < Fin 0 \<and>
   ghi_of (clear_sky_REST2V5 negative_zenith) ! 0 ! 0 = Fin 0 \<and>
   dhi1 (elem (clamp_inputs negative_zenith) 0 0) < Fin 0 \<and>
   dhi_of (clear_sky_REST2V5 negative_zenith) ! 0 ! 0 = Fin 0 \<and>
   Fin 0 < dni1 (elem (clamp_inputs negative_zenith) 0 0) \<and>
   dni_of (clear_sky_REST2V5 negative_zenith) ! 0 ! 0 = dni1 (elem (clamp_inputs negative_zenith) 0 0)"
proof -
  have l: "0 < length (zenith_angle negative_zenith)" "0 < length (zenith_angle negative_zenith ! 0)"
    by (simp_all add: negative_zenith_def)
  have sh: "same_shape negative_zenith"
    by (simp add: same_shape_def negative_zenith_def shape_of_def)
  from s3_signs obtain x y where
    v: "dni0 s3 = Fin x" "0 < x" "dhi0 s3 = Fin y" "y < 0" "Ebh0 s3 = Fin (- x)"
    by blast
  have p: "dni1 s3 = Fin x" "dhi1 s3 = Fin y" "ghi0 s3 = Fin (- x + y)"
    by (simp_all add: dni1_def dhi1_def ghi0_def Ebh1_def s3_day v fl_ops)
  note t = negative_outputs_become_zero [OF sh l, unfolded elem_negative_zenith Let_def]
  from t [THEN conjunct1] have g: "ghi_of (clear_sky_REST2V5 negative_zenith) ! 0 ! 0 = Fin 0"
    using v(2,4) by (simp add: p fl_ops)
  from t [THEN conjunct2, THEN conjunct1]
  have n: "dni_of (clear_sky_REST2V5 negative_zenith) ! 0 ! 0 = dni1 s3"
    using v(2) by (simp add: p fl_ops)
  from t [THEN conjunct2, THEN conjunct2, THEN conjunct1]
  have h: "dhi_of (clear_sky_REST2V5 negative_zenith) ! 0 ! 0 = Fin 0"
    using v(4) by (simp add: p fl_ops)
  have s: "ghi0 s3 < Fin 0" "dhi1 s3 < Fin 0" "Fin 0 < dni1 s3"
    using v(2,4) by (simp_all add: p fl_ops)
  from sh l g h n s show ?thesis
    unfolding elem_negative_zenith by (intro conjI)
qed



section \<open>Finite outputs for valid elements\<close>

subsection \<open>Values that are not infinite\<close>

text \<open>
  Sums, differences and products of values free of infinity are free of infinity, and so
  is a quotient by a number that is not zero. The aerosol optical depths are magnitudes:
  whatever the wavelength terms are, they are not negative, and the transmittances
  \<open>exp (- m * ta)\<close> are finite or NaN.
\<close>

lemma no_inf_Fin [simp]: "no_inf (Fin r)" "no_inf NaN"
  by (simp_all add: no_inf_def)

lemma no_inf_cases: "no_inf x \<longleftrightarrow> x = NaN \<or> (\<exists>r. x = Fin r)"
  by (cases x) (simp_all add: no_inf_def)

lemma no_inf_add: "no_inf x \<Longrightarrow> no_inf y \<Longrightarrow> no_inf (x + y)"
  by (cases x; cases y) (simp_all add: no_inf_def fl_ops)

lemma no_inf_diff: "no_inf x \<Longrightarrow> no_inf y \<Longrightarrow> no_inf (x - y)"
  by (cases x; cases y) (simp_all add: no_inf_def fl_ops)

lemma no_inf_mult: "no_inf x \<Longrightarrow> no_inf y \<Longrightarrow> no_inf (x * y)"
  by (cases x; cases y) (simp_all add: no_inf_def fl_ops)

lemma no_inf_div: "no_inf x \<Longrightarrow> y = Fin d \<Longrightarrow> d \<noteq> 0 \<Longrightarrow> no_inf (x / y)"
  by (cases x) (simp_all add: no_inf_def fl_ops)

lemma no_inf_cos: "no_inf (fcos x)"
  by (cases x) simp_all

lemma no_inf_cabs: "no_inf (cabs z)" "not_neg (cabs z)"
  by (cases z; simp add: not_neg_def fl_ops)+

lemma not_neg_abs: "not_neg \<bar>x\<bar>"
  by (cases x) (simp_all add: not_neg_def fl_ops)

lemma exp_decay:
  assumes "not_neg t" "k < 0"
  shows "no_inf (fexp (Fin k * t))" "not_neg (fexp (Fin k * t))"
  using assms by (cases t; simp add: not_neg_def fl_ops)+

lemma quarter_power:
  assumes "no_inf x" "not_neg x"
  shows "no_inf (fpow x (Fin 0.25))"
  using assms by (cases x) (simp_all add: not_neg_def no_inf_def fl_ops)

lemma correction_factor:
  assumes "not_neg t" "0 \<le> G2"
  shows "no_inf ((Fin G0 + Fin G1 * t) / (Fin 1 + Fin G2 * t))"
proof (cases t)
  case (Fin x)
  with assms have "0 \<le> x"
    by (simp add: not_neg_def fl_ops)
  with assms(2) have "0 \<le> G2 * x"
    by simp
  then have "1 + G2 * x \<noteq> 0"
    by linarith
  with Fin show ?thesis
    by (simp add: fl_ops)
next
  case PInf
  then show ?thesis
    by (simp add: fl_ops)
next
  case NInf
  with assms show ?thesis
    by (simp add: not_neg_def fl_ops)
next
  case NaN
  then show ?thesis
    by (simp add: fl_ops)
qed

lemma floor_at_zero:
  assumes "no_inf x"
  shows "\<exists>r\<ge>0. (if x < Fin 0 \<or> isnan x then Fin 0 else x) = Fin r"
  using assms by (cases x) (auto simp: no_inf_def fl_ops)

lemma fpow_two: "fpow (Fin x) (Fin 2) = Fin (x\<^sup>2)"
proof -
  consider "0 < x" | "x = 0" | "x < 0" by linarith
  then show ?thesis
  proof cases
    case 1
    then show ?thesis by simp
  next
    case 2
    then show ?thesis by simp
  next
    case 3
    then have "\<bar>x\<bar> powr 2 = x\<^sup>2"
      by (simp add: powr_numeral)
    with 3 show ?thesis by simp
  qed
qed


subsection \<open>The air masses by day\<close>

text \<open>
  Up to 90 degrees every air mass is the reciprocal of \<open>cos \<theta> + r\<close> with \<open>r \<ge> 0\<close>. The
  aerosol air mass is at least 0.165. The Rayleigh air mass is at most 84: up to
  \<open>90 - 180 / 128\<close> degrees the cosine is at least \<open>sin (pi / 128) \<ge> 1 / 64\<close>, and
  from there on the second term is at least 0.012. The pressure-corrected air mass is
  then below 92, where the denominator of \<open>TR2\<close> is still positive.
\<close>

lemma sin_double_le:
  assumes "0 \<le> x" "x \<le> pi"
  shows "sin (2 * x) \<le> 2 * sin x"
proof -
  have "0 \<le> sin x"
    using assms by (rule sin_ge_zero)
  then have "2 * sin x * cos x \<le> 2 * sin x * 1"
    by (intro mult_left_mono) simp_all
  then show ?thesis
    by (simp add: sin_double)
qed

lemma sin_pi_128: "1 / 64 \<le> sin (pi / 128)"
proof -
  have "sin (pi / 2) \<le> 2 * sin (pi / 4)"
    using sin_double_le [of "pi / 4"] by simp
  also have "\<dots> \<le> 2 * (2 * sin (pi / 8))"
    using sin_double_le [of "pi / 8"] by simp
  also have "\<dots> \<le> 2 * (2 * (2 * sin (pi / 16)))"
    using sin_double_le [of "pi / 16"] by simp
  also have "\<dots> \<le> 2 * (2 * (2 * (2 * sin (pi / 32))))"
    using sin_double_le [of "pi / 32"] by simp
  also have "\<dots> \<le> 2 * (2 * (2 * (2 * (2 * sin (pi / 64)))))"
    using sin_double_le [of "pi / 64"] by simp
  also have "\<dots> \<le> 2 * (2 * (2 * (2 * (2 * (2 * sin (pi / 128))))))"
    using sin_double_le [of "pi / 128"] by simp
  finally show ?thesis
    by simp
qed

lemma cos_before_horizon:
  assumes "0 \<le> \<theta>" "\<theta> \<le> pi / 2 - pi / 128"
  shows "1 / 64 \<le> cos \<theta>"
proof -
  have "cos (pi / 2 - pi / 128) \<le> cos \<theta>"
    using assms by (intro cos_monotone_0_pi_le) simp_all
  moreover have "cos (pi / 2 - pi / 128) = sin (pi / 128)"
    by (simp add: cos_sin_eq)
  ultimately show ?thesis
    using sin_pi_128 by simp
qed

lemma powr_sixteenth:
  fixes t :: real
  assumes "67 \<le> t" "1 / 16 \<le> b"
  shows "1.3 \<le> t powr b"
proof -
  have "(1.3::real) = (1.3 ^ 16) powr (1 / 16)"
    by (simp add: powr_powr flip: powr_numeral)
  also have "\<dots> \<le> t powr (1 / 16)"
  proof -
    have "(1.3::real) ^ 16 \<le> 67"
      by (simp add: power_divide)
    with assms(1) show ?thesis
      by (intro powr_mono2) simp_all
  qed
  also have "\<dots> \<le> t powr b"
    using assms by (intro powr_mono) simp_all
  finally show ?thesis .
qed

lemma powr_below_two:
  fixes x :: real
  assumes "1 \<le> x" "x \<le> 8.15" "d \<le> 1.8"
  shows "x powr d \<le> 50"
proof -
  have "x powr d \<le> x powr 1.8"
    using assms by (intro powr_mono) simp_all
  also have "\<dots> \<le> 8.15 powr 1.8"
    using assms by (intro powr_mono2) simp_all
  also have "\<dots> \<le> 50"
  proof -
    have "((8.15::real) powr 1.8) ^ 5 = 8.15 powr 9"
      by (simp add: powr_powr flip: powr_numeral)
    also have "\<dots> = 8.15 ^ 9"
      by (simp add: powr_numeral)
    also have "\<dots> \<le> (50::real) ^ 5"
      by (simp add: power_divide)
    finally have "((8.15::real) powr 1.8) ^ 5 \<le> 50 ^ 5" .
    then show ?thesis
      by (rule power_le_imp_le_base [where n = 4, simplified]) simp
  qed
  finally show ?thesis .
qed

lemma rayleigh_term_near_horizon:
  fixes t :: real
  assumes "90 - 180 / 128 \<le> t" "t \<le> 90"
  shows "0.012 \<le> 0.48353 * t powr 0.095846 / (96.741 - t) powr 1.754"
proof -
  have n: "1.3 \<le> t powr 0.095846"
    using assms by (intro powr_sixteenth) simp_all
  have d: "(96.741 - t) powr 1.754 \<le> 50"
    using assms by (intro powr_below_two) simp_all
  have p: "0 < (96.741 - t) powr 1.754"
    using assms by simp
  have "0.48353 * 1.3 / 50 \<le> 0.48353 * t powr 0.095846 / (96.741 - t) powr 1.754"
    using n d p by (intro frac_le mult_left_mono) simp_all
  then show ?thesis
    by simp
qed

lemma slant_term_bound:
  fixes t a b c d :: real
  assumes "0 \<le> t" "t \<le> 90" "0 \<le> a" "0 \<le> b" "b \<le> 1" "93 \<le> c" "1 \<le> d"
  shows "0 \<le> a * t powr b / (c - t) powr d" "a * t powr b / (c - t) powr d \<le> 30 * a"
proof -
  show "0 \<le> a * t powr b / (c - t) powr d"
    using assms by simp
  have "t powr b \<le> 90 powr b"
    using assms by (intro powr_mono2) simp_all
  also have "\<dots> \<le> 90 powr 1"
    using assms by (intro powr_mono) simp_all
  finally have n: "t powr b \<le> 90"
    by simp
  have "(3::real) powr 1 \<le> 3 powr d"
    using assms by (intro powr_mono) simp_all
  also have "\<dots> \<le> (c - t) powr d"
    using assms by (intro powr_mono2) simp_all
  finally have m: "3 \<le> (c - t) powr d"
    by simp
  have "a * t powr b \<le> a * 90"
    using assms n by (intro mult_left_mono) simp_all
  then have "a * t powr b / (c - t) powr d \<le> a * 90 / 3"
    using m assms by (intro frac_le) simp_all
  then show "a * t powr b / (c - t) powr d \<le> 30 * a"
    by simp
qed

lemma day_air_mass:
  assumes th: "0 \<le> \<theta>" "\<theta> * 180 / pi \<le> 90"
    and co: "0 < a" "0 \<le> b" "b \<le> 1" "93 \<le> c" "1 \<le> d"
  shows "air_mass_den a b c d \<theta> \<noteq> 0" "\<theta> * 180 / pi \<noteq> c"
    "1 / (1 + 30 * a) \<le> air_mass_real a b c d \<theta>"
proof -
  define t where "t = \<theta> * 180 / pi"
  have t: "0 \<le> t" "t \<le> 90"
    using th by (simp_all add: t_def)
  from co t show "\<theta> * 180 / pi \<noteq> c"
    by (simp add: t_def)
  from co have "90 < c" "0 < a"
    by simp_all
  from air_mass_den_day [OF th this] show nz: "air_mass_den a b c d \<theta> \<noteq> 0" .
  from th(2) have "\<theta> \<le> pi / 2"
    by (simp add: field_simps)
  with th(1) have c0: "0 \<le> cos \<theta>"
    by (intro cos_ge_zero) simp_all
  have r: "0 \<le> a * t powr b / (c - t) powr d" "a * t powr b / (c - t) powr d \<le> 30 * a"
    using slant_term_bound [OF t _ co(2-5)] co(1) by simp_all
  have den: "air_mass_den a b c d \<theta> = cos \<theta> + a * t powr b / (c - t) powr d"
    unfolding air_mass_den_def Let_def t_def [symmetric] using t co c0 r by simp
  have "air_mass_den a b c d \<theta> \<le> 1 + 30 * a"
    unfolding den using r cos_le_one [of \<theta>] by linarith
  moreover have "0 < air_mass_den a b c d \<theta>"
    using nz c0 r unfolding den by linarith
  ultimately show "1 / (1 + 30 * a) \<le> air_mass_real a b c d \<theta>"
    unfolding air_mass_real_def by (intro frac_le) simp_all
qed

lemma day_rayleigh_air_mass:
  assumes th: "0 \<le> \<theta>" "\<theta> * 180 / pi \<le> 90"
  shows "air_mass_real 0.48353 0.095846 96.741 1.754 \<theta> \<le> 84"
proof -
  define t where "t = \<theta> * 180 / pi"
  have t: "0 \<le> t" "t \<le> 90"
    using th by (simp_all add: t_def)
  from th(2) have h: "\<theta> \<le> pi / 2"
    by (simp add: field_simps)
  with th(1) have c0: "0 \<le> cos \<theta>"
    by (intro cos_ge_zero) simp_all
  define r where "r = 0.48353 * t powr 0.095846 / (96.741 - t) powr 1.754"
  have r0: "0 \<le> r"
    unfolding r_def using t by simp
  have den: "air_mass_den 0.48353 0.095846 96.741 1.754 \<theta> = cos \<theta> + r"
    unfolding air_mass_den_def Let_def t_def [symmetric] r_def [symmetric]
    using t c0 r0 by (simp add: r_def)
  have "0.012 \<le> cos \<theta> + r"
  proof (cases "\<theta> \<le> pi / 2 - pi / 128")
    case True
    from cos_before_horizon [OF th(1) True] r0 show ?thesis
      by simp
  next
    case False
    then have "90 - 180 / 128 \<le> t"
      by (simp add: t_def field_simps)
    from rayleigh_term_near_horizon [OF this t(2)] c0 show ?thesis
      by (simp add: r_def)
  qed
  then have "1 / (cos \<theta> + r) \<le> 1 / 0.012"
    by (intro frac_le) simp_all
  then show ?thesis
    unfolding air_mass_real_def den by simp
qed

lemma day_air_masses:
  assumes "zenith_angle s = Fin \<theta>" "0 \<le> \<theta>" "\<theta> * 180 / pi \<le> 90"
  shows "\<exists>x. ama s = Fin x \<and> 0.165 \<le> x"
    and "\<exists>x. amw s = Fin x \<and> 0 < x"
    and "\<exists>x. amo s = Fin x \<and> 0 < x"
    and "\<exists>x. amR s = Fin x \<and> 0 < x \<and> x \<le> 84"
proof -
  note am = air_mass_of_zenith [OF assms(1,2)]
  note d = day_air_mass [OF assms(2,3)]
  note 1 = d [of "0.16851" "0.18198" "95.318" "1.9542", simplified]
  note 2 = d [of "0.10648" "0.11423" "93.781" "1.9203", simplified]
  note 3 = d [of "1.0651" "0.6379" "101.8" "2.2694", simplified]
  note 4 = d [of "0.48353" "0.095846" "96.741" "1.754", simplified]
  note r = day_rayleigh_air_mass [OF assms(2,3), simplified]
  show "\<exists>x. ama s = Fin x \<and> 0.165 \<le> x"
    using am(1) 1 by simp
  show "\<exists>x. amw s = Fin x \<and> 0 < x"
    using am(2) 2 by simp
  show "\<exists>x. amo s = Fin x \<and> 0 < x"
    using am(3) 3 by simp
  show "\<exists>x. amR s = Fin x \<and> 0 < x \<and> x \<le> 84"
    using am(4) 4 r by simp
qed

subsection \<open>The transmittances by day\<close>

text \<open>
  Each rational function of the model has a positive denominator on the clamped range
  of its argument and for air masses that are not negative.
\<close>

lemma uminus_Fin: "- Fin a = Fin (- a)"
  by (simp add: fl_ops)

lemma times_Fin: "Fin a * Fin b = Fin (a * b)"
  by (simp add: fl_ops)

lemma day_TR1:
  assumes "amRe s = Fin R" "0 \<le> R"
  shows "no_inf (TR1 s)"
proof -
  have "0 < 1 + 2.063 * R + 0.31978 * R\<^sup>2"
    using assms(2) by (intro add_pos_nonneg) simp_all
  then show ?thesis
    unfolding TR1_def assms(1) fpow_two
    by (intro no_inf_div [where d = "1 + 2.063 * R + 0.31978 * R\<^sup>2"]) (simp_all add: fl_ops)
qed

lemma day_aerosol:
  assumes "ama s = Fin A" "0 < A"
  shows "no_inf (TA1 s)" "not_neg (TA1 s)" "no_inf (TAS1 s)" "not_neg (TAS1 s)"
    "no_inf (TA2 s)" "not_neg (TA2 s)" "no_inf (TAS2 s)" "not_neg (TAS2 s)"
proof -
  have 1: "not_neg (ta1 s)"
    unfolding ta1_def by (rule not_neg_abs)
  have 2: "not_neg (ta2 s)"
    unfolding ta2_def by (rule no_inf_cabs)
  show "no_inf (TA1 s)" "not_neg (TA1 s)"
    unfolding TA1_def assms(1) uminus_Fin using assms(2) by (intro exp_decay 1; simp)+
  show "no_inf (TAS1 s)" "not_neg (TAS1 s)"
    unfolding TAS1_def assms(1) uminus_Fin times_Fin using assms(2) by (intro exp_decay 1; simp)+
  show "no_inf (TA2 s)" "not_neg (TA2 s)"
    unfolding TA2_def assms(1) times_Fin using assms(2) by (intro exp_decay 2; simp)+
  show "no_inf (TAS2 s)" "not_neg (TAS2 s)"
    unfolding TAS2_def assms(1) times_Fin using assms(2) by (intro exp_decay 2; simp)+
qed


lemma day_Tg1:
  assumes "amRe s = Fin R" "0 \<le> R"
  shows "no_inf (Tg1 s)"
proof -
  have "0 < 1 + 0.96321 * R + 0.015455 * R\<^sup>2"
    using assms(2) by (intro add_pos_nonneg) simp_all
  then show ?thesis
    unfolding Tg1_def assms(1) fpow_two
    by (intro no_inf_div [where d = "1 + 0.96321 * R + 0.015455 * R\<^sup>2"]) (simp_all add: fl_ops)
qed

lemma day_To1:
  assumes "ozone s = Fin u" "0 \<le> u" "u \<le> 0.6" "amo s = Fin m" "0 \<le> m"
  shows "no_inf (To1 s)"
proof -
  define D1 where "D1 = 1 + 2.0115 * u + 40.189 * u\<^sup>2"
  define D2 where "D2 = 1 - 2.4857 * u + 13.942 * u\<^sup>2"
  define D3 where "D3 = 1 + 1.6784 * u + 42.406 * u\<^sup>2"
  have d1: "0 < D1"
    unfolding D1_def using assms(2) by (intro add_pos_nonneg) simp_all
  have d2: "0 < D2"
    unfolding D2_def using zero_le_power2 [of "u - 0.09"] assms(2)
    by (simp add: power2_eq_square algebra_simps)
  have d3: "0 < D3"
    unfolding D3_def using assms(2) by (intro add_pos_nonneg) simp_all
  have f1: "f1 s = Fin (u * (10.979 - 8.5421 * u) / D1)"
    unfolding f1_def uo_def assms(1) fpow_two using d1
    by (intro fl_quot) (simp_all add: fl_ops D1_def)
  have f2: "f2 s = Fin (u * (- 0.027589 - 0.005138 * u) / D2)"
    unfolding f2_def uo_def assms(1) fpow_two using d2
    by (intro fl_quot) (simp_all add: fl_ops D2_def)
  have f3: "f3 s = Fin (u * (10.995 - 5.5001 * u) / D3)"
    unfolding f3_def uo_def assms(1) fpow_two using d3
    by (intro fl_quot) (simp_all add: fl_ops D3_def)
  have "0 \<le> u * (10.995 - 5.5001 * u)"
    using assms(2,3) by (intro mult_nonneg_nonneg) simp_all
  with d3 have "0 \<le> u * (10.995 - 5.5001 * u) / D3"
    by simp
  with assms(5) have "0 \<le> u * (10.995 - 5.5001 * u) / D3 * m"
    by (intro mult_nonneg_nonneg)
  then have "1 + u * (10.995 - 5.5001 * u) / D3 * m \<noteq> 0"
    by linarith
  then show ?thesis
    unfolding To1_def f1 f2 f3 assms(4) fpow_two
    by (intro no_inf_div [where d = "1 + u * (10.995 - 5.5001 * u) / D3 * m"])
       (simp_all add: fl_ops)
qed

lemma day_Tn1:
  assumes "nitrogen_dioxide s = Fin u" "0 \<le> u" "amw s = Fin m" "0 \<le> m"
  shows "no_inf (Tn1 s)" "no_inf (Tn1166 s)"
proof -
  define D1 where "D1 = 1 + 22295 * u\<^sup>2"
  define D2 where "D2 = 1 + 8847.8 * u\<^sup>2"
  define D3 where "D3 = 1 + 74109 * u\<^sup>2"
  have d: "0 < D1" "0 < D2" "0 < D3"
    unfolding D1_def D2_def D3_def by (simp_all add: add_pos_nonneg)
  define G3 where "G3 = (0.17499 + 61.658 * u + 9196.4 * u\<^sup>2) / D3"
  have g1: "g1 s = Fin ((0.17499 + 41.654 * u - 2146.4 * u\<^sup>2) / D1)"
    unfolding g1_def un_def assms(1) fpow_two using d
    by (intro fl_quot) (simp_all add: fl_ops D1_def)
  have g2: "g2 s = Fin (u * (- 1.2134 + 59.324 * u) / D2)"
    unfolding g2_def un_def assms(1) fpow_two using d
    by (intro fl_quot) (simp_all add: fl_ops D2_def)
  have g3: "g3 s = Fin G3"
    unfolding g3_def un_def assms(1) fpow_two G3_def using d
    by (intro fl_quot) (simp_all add: fl_ops D3_def)
  have "0 \<le> 0.17499 + 61.658 * u + 9196.4 * u\<^sup>2"
    using assms(2) by (intro add_nonneg_nonneg) simp_all
  with d have G3: "0 \<le> G3"
    by (simp add: G3_def)
  with assms(4) have "0 \<le> G3 * m"
    by (intro mult_nonneg_nonneg)
  then have nz: "1 + G3 * m \<noteq> 0"
    by linarith
  have "no_inf (Tn1_middle s)"
    unfolding Tn1_middle_def g1 g2 g3 assms(3) fpow_two using nz
    by (intro no_inf_div [where d = "1 + G3 * m"]) (simp_all add: fl_ops)
  then show "no_inf (Tn1 s)"
    by (simp add: Tn1_def)
  from G3 have "0 \<le> G3 * 1.66"
    by simp
  then have nz: "1 + G3 * 1.66 \<noteq> 0"
    by linarith
  have "no_inf (Tn1166_middle s)"
    unfolding Tn1166_middle_def g1 g2 g3 fpow_two using nz
    by (intro no_inf_div [where d = "1 + G3 * 1.66"]) (simp_all add: fl_ops)
  then show "no_inf (Tn1166 s)"
    by (simp add: Tn1166_def)
qed

lemma day_Tw1:
  assumes "water_vapour s = Fin u" "0 \<le> u" "amw s = Fin m" "0 \<le> m"
  shows "no_inf (Tw1 s)" "no_inf (Tw1166 s)"
proof -
  define D1 where "D1 = 1 + 1.2728 * u"
  define D2 where "D2 = 1 + 1.2008 * u"
  have d: "0 < D1" "0 < D2"
    unfolding D1_def D2_def using assms(2) by (simp_all add: add_pos_nonneg)
  define H2 where "H2 = u * (0.065687 + 0.0013218 * u) / D2"
  have h1: "h1 s = Fin (u * (0.065445 + 0.00029901 * u) / D1)"
    unfolding h1_def assms(1) using d
    by (intro fl_quot) (simp_all add: fl_ops D1_def)
  have h2: "h2 s = Fin H2"
    unfolding h2_def assms(1) H2_def using d
    by (intro fl_quot) (simp_all add: fl_ops D2_def)
  have "0 \<le> u * (0.065687 + 0.0013218 * u)"
    using assms(2) by (intro mult_nonneg_nonneg add_nonneg_nonneg) simp_all
  with d have H2: "0 \<le> H2"
    by (simp add: H2_def)
  with assms(4) have "0 \<le> H2 * m"
    by (intro mult_nonneg_nonneg)
  then have nz: "1 + H2 * m \<noteq> 0"
    by linarith
  show "no_inf (Tw1 s)"
    unfolding Tw1_def h1 h2 assms(3) using nz
    by (intro no_inf_div [where d = "1 + H2 * m"]) (simp_all add: fl_ops)
  from H2 have "0 \<le> H2 * 1.66"
    by simp
  then have nz: "1 + H2 * 1.66 \<noteq> 0"
    by linarith
  show "no_inf (Tw1166 s)"
    unfolding Tw1166_def h1 h2 using nz
    by (intro no_inf_div [where d = "1 + H2 * 1.66"]) (simp_all add: fl_ops)
qed

lemma day_beta:
  assumes "AOD550 s = Fin q" "Angstrom_exponent s = Fin al"
  shows "\<exists>b. ang_beta s = Fin b \<and> 0 \<le> b \<and> b \<le> 1.1"
proof -
  have "\<exists>x. 0 < x \<and> fpow (Fin 0.55) (Fin (- 1) * Fin al) = Fin x"
    by (cases "al = 0") (simp_all add: fl_ops)
  then obtain x where x: "0 < x" "fpow (Fin 0.55) (Fin (- 1) * Fin al) = Fin x"
    by blast
  have "ang_beta s = clamp (Fin 1.1) (Fin 0) (Fin (q / x))"
    unfolding ang_beta_def assms x(2) using x(1) by (simp add: fl_ops)
  then show ?thesis
    by (simp add: clamp_Fin)
qed

lemma day_BR1:
  assumes "amR s = Fin R"
  shows "no_inf (BR1 s)"
  unfolding BR1_def assms fpow_two by (simp add: fl_ops)

lemma day_F1:
  assumes "ama s = Fin A" "0.165 \<le> A" "not_neg (ta1 s)"
  shows "no_inf (F1 s)"
proof -
  define D0 where "D0 = 1 + 0.0009391 * A\<^sup>2"
  define D1 where "D1 = 1 + 0.0019012 * A\<^sup>2"
  define D2 where "D2 = 1 + 0.0069592 * A\<^sup>2"
  have d: "0 < D0" "0 < D1" "0 < D2"
    unfolding D0_def D1_def D2_def by (simp_all add: add_pos_nonneg)
  define G2 where "G2 = (- 0.052288 + 0.31902 * A + 0.17871 * A\<^sup>2) / D2"
  have g0: "g0 s = Fin ((3.715 + 0.368 * A + 0.036294 * A\<^sup>2) / D0)"
    unfolding g0_def assms(1) fpow_two using d
    by (intro fl_quot) (simp_all add: fl_ops D0_def)
  have g1: "g1_F1 s = Fin ((- 0.164 - 0.72567 * A + 0.20701 * A\<^sup>2) / D1)"
    unfolding g1_F1_def assms(1) fpow_two using d
    by (intro fl_quot) (simp_all add: fl_ops D1_def)
  have g2: "g2_F1 s = Fin G2"
    unfolding g2_F1_def assms(1) fpow_two G2_def using d
    by (intro fl_quot) (simp_all add: fl_ops D2_def)
  have "0 \<le> - 0.052288 + 0.31902 * A + 0.17871 * A\<^sup>2"
    using assms(2) zero_le_power2 [of A] by simp
  with d have "0 \<le> G2"
    by (simp add: G2_def)
  from correction_factor [OF assms(3) this] show ?thesis
    unfolding F1_def g0 g1 g2 .
qed

lemma day_F2:
  assumes "ama s = Fin A" "0 < A" "not_neg (ta2 s)"
  shows "no_inf (F2 s)"
proof -
  define P where "P = A powr 1.5"
  have P: "0 \<le> P"
    by (simp add: P_def)
  have pw: "fpow (Fin A) (Fin 1.5) = Fin P"
    using assms(2) by (simp add: P_def)
  define D0 where "D0 = 1 + 0.034388 * P"
  define D1 where "D1 = 1 + 0.1451 * P"
  define D2 where "D2 = 1 + 0.14865 * P"
  have d: "0 < D0" "0 < D1" "0 < D2"
    unfolding D0_def D1_def D2_def using P by (simp_all add: add_pos_nonneg)
  define H2 where "H2 = (0.8889 - 0.55063 * A + 0.50152 * A\<^sup>2) / D2"
  have h0: "h0 s = Fin ((3.4352 + 0.65267 * A + 0.00034328 * A\<^sup>2) / D0)"
    unfolding h0_def assms(1) fpow_two pw using d
    by (intro fl_quot) (simp_all add: fl_ops D0_def)
  have h1: "h1_F2 s = Fin ((1.231 - 1.63853 * A + 0.20667 * A\<^sup>2) / D1)"
    unfolding h1_F2_def assms(1) fpow_two pw using d
    by (intro fl_quot) (simp_all add: fl_ops D1_def)
  have h2: "h2_F2 s = Fin H2"
    unfolding h2_F2_def assms(1) fpow_two pw H2_def using d
    by (intro fl_quot) (simp_all add: fl_ops D2_def)
  have "0 \<le> 0.8889 - 0.55063 * A + 0.50152 * A\<^sup>2"
    using zero_le_power2 [of "A - 0.55"] assms(2)
    by (simp add: power2_eq_square algebra_simps)
  with d have "0 \<le> H2"
    by (simp add: H2_def)
  from correction_factor [OF assms(3) this] show ?thesis
    unfolding F2_def h0 h1 h2 .
qed

lemma day_TR2:
  assumes "amRe s = Fin R" "0 \<le> R" "R \<le> 92"
  shows "no_inf (TR2 s)"
proof -
  have "R\<^sup>2 \<le> 92\<^sup>2"
    using assms(2,3) by (intro power_mono) simp_all
  then have "0 < 1 - 0.00011042 * R\<^sup>2"
    by simp
  then show ?thesis
    unfolding TR2_def assms(1) fpow_two
    by (intro no_inf_div [where d = "1 - 0.00011042 * R\<^sup>2"]) (simp_all add: fl_ops)
qed

lemma day_Tg2:
  assumes "amRe s = Fin R" "0 \<le> R"
  shows "no_inf (Tg2 s)"
proof -
  have "0 < 1 + 0.30306 * R"
    using assms(2) by (intro add_pos_nonneg) simp_all
  then show ?thesis
    unfolding Tg2_def assms(1) fpow_two
    by (intro no_inf_div [where d = "1 + 0.30306 * R"]) (simp_all add: fl_ops)
qed

lemma day_Tw2:
  assumes "water_vapour s = Fin u" "0 \<le> u" "u \<le> 10" "amw s = Fin m" "0 \<le> m"
  shows "no_inf (Tw2 s)" "no_inf (Tw2166 s)"
proof -
  define D1 where "D1 = 1 + 5.4248 * u + 1.6005 * u\<^sup>2"
  define D2 where "D2 = 1 + 1.1811 * u + 1.0699 * u\<^sup>2"
  define D3 where "D3 = 1 + 4.8318 * u + 1.412 * u\<^sup>2"
  define D4 where "D4 = 1 + 0.44907 * u + 0.75425 * u\<^sup>2"
  have d: "0 < D1" "0 < D2" "0 < D3" "0 < D4"
    unfolding D1_def D2_def D3_def D4_def using assms(2) by (simp_all add: add_pos_nonneg)
  define C3 where "C3 = u * (21.286 - 0.39232 * u + 1.2692 * u\<^sup>2) / D3"
  define C4 where "C4 = u * (0.70992 - 0.23155 * u + 0.096514 * u\<^sup>2) / D4"
  have c1: "c1 s = Fin (u * (19.566 - 1.6506 * u + 1.0672 * u\<^sup>2) / D1)"
    unfolding c1_def assms(1) fpow_two using d
    by (intro fl_quot) (simp_all add: fl_ops D1_def)
  have c2: "c2 s = Fin (u * (0.50158 - 0.14732 * u + 0.047584 * u\<^sup>2) / D2)"
    unfolding c2_def assms(1) fpow_two using d
    by (intro fl_quot) (simp_all add: fl_ops D2_def)
  have c3: "c3 s = Fin C3"
    unfolding c3_def assms(1) fpow_two C3_def using d
    by (intro fl_quot) (simp_all add: fl_ops D3_def)
  have c4: "c4 s = Fin C4"
    unfolding c4_def assms(1) fpow_two C4_def using d
    by (intro fl_quot) (simp_all add: fl_ops D4_def)
  have "0 \<le> 21.286 - 0.39232 * u + 1.2692 * u\<^sup>2"
    using assms(2,3) zero_le_power2 [of u] by simp
  with assms(2) have "0 \<le> u * (21.286 - 0.39232 * u + 1.2692 * u\<^sup>2)"
    by (intro mult_nonneg_nonneg)
  with d have C3: "0 \<le> C3"
    by (simp add: C3_def)
  have "0 \<le> 0.70992 - 0.23155 * u + 0.096514 * u\<^sup>2"
    using zero_le_power2 [of "u - 1.2"] assms(2)
    by (simp add: power2_eq_square algebra_simps)
  with assms(2) have "0 \<le> u * (0.70992 - 0.23155 * u + 0.096514 * u\<^sup>2)"
    by (intro mult_nonneg_nonneg)
  with d have C4: "0 \<le> C4"
    by (simp add: C4_def)
  from C3 C4 assms(5) have "0 \<le> C3 * m + C4 * m\<^sup>2"
    by (intro add_nonneg_nonneg mult_nonneg_nonneg) simp_all
  then have nz: "1 + C3 * m + C4 * m\<^sup>2 \<noteq> 0"
    by linarith
  show "no_inf (Tw2 s)"
    unfolding Tw2_def c1 c2 c3 c4 assms(4) fpow_two using nz
    by (intro no_inf_div [where d = "1 + C3 * m + C4 * m\<^sup>2"]) (simp_all add: fl_ops)
  from C3 C4 have "0 \<le> C3 * 1.66 + C4 * 1.66\<^sup>2"
    by (intro add_nonneg_nonneg mult_nonneg_nonneg) simp_all
  then have nz: "1 + C3 * 1.66 + C4 * 1.66\<^sup>2 \<noteq> 0"
    by linarith
  show "no_inf (Tw2166 s)"
    unfolding Tw2166_def c1 c2 c3 c4 fpow_two using nz
    by (intro no_inf_div [where d = "1 + C3 * 1.66 + C4 * 1.66\<^sup>2"]) (simp_all add: fl_ops)
qed

lemma day_Ba:
  assumes "zenith_angle s = Fin \<theta>"
  shows "no_inf (Ba s)"
  unfolding Ba_def assms by (simp add: fl_ops)


lemma day_sky_albedo:
  assumes "ang_beta s = Fin b" "0 \<le> b" "Angstrom_exponent s = Fin al" "0 \<le> al" "al \<le> 2.5"
  shows "\<exists>r. rs1 s = Fin r \<and> 0 \<le> r \<and> r < 1" "\<exists>r. rs2 s = Fin r \<and> 0 \<le> r \<and> r < 1"
proof -
  have ratio: "0 \<le> n / d \<and> n / d \<le> m / e"
    if "0 \<le> n" "k \<le> d" "0 < k" "n \<le> k * m" "0 < e" "e \<le> 1" "0 \<le> m" for n d m e k :: real
  proof -
    from that have d: "0 < d" by simp
    with that have "0 \<le> n / d" by simp
    moreover have "n / d \<le> (k * m) / k"
      using that by (intro frac_le) simp_all
    moreover have "(k * m) / k = m"
      using that by simp
    moreover have "m / 1 \<le> m / e"
      using that by (intro frac_le) simp_all
    ultimately show ?thesis by simp
  qed
  have sky: "0 \<le> (c + b * P) / (1 + b * Q) \<and> (c + b * P) / (1 + b * Q) < 1"
    if "0 \<le> c" "c < 1" "0 \<le> P" "P \<le> Q" for c P Q :: real
  proof -
    from that assms(2) have q: "0 \<le> b * Q" "0 \<le> b * P" "b * P \<le> b * Q"
      by (simp_all add: mult_left_mono)
    then have "0 < 1 + b * Q" "0 \<le> c + b * P" "c + b * P < 1 + b * Q"
      using that by simp_all
    then show ?thesis by simp
  qed
  define P1 where "P1 = (0.37567 + 0.22946 * al) / (1 - 0.10832 * al)"
  define Q1 where "Q1 = (0.84057 + 0.68683 * al) / (1 - 0.08158 * al)"
  define P2 where "P2 = (0.14618 + 0.062758 * al) / (1 - 0.19402 * al)"
  define Q2 where "Q2 = (0.58101 + 0.17426 * al) / (1 - 0.17586 * al)"
  have 1: "0 \<le> P1 \<and> P1 \<le> Q1"
    unfolding P1_def Q1_def using assms(4,5) by (intro ratio [where k = "0.7"]) simp_all
  have 2: "0 \<le> P2 \<and> P2 \<le> Q2"
    unfolding P2_def Q2_def using assms(4,5) by (intro ratio [where k = "0.5"]) simp_all
  have d: "1 - 0.10832 * al \<noteq> 0" "1 - 0.08158 * al \<noteq> 0" "1 - 0.19402 * al \<noteq> 0"
    "1 - 0.17586 * al \<noteq> 0"
    using assms(4,5) by simp_all
  from 1 assms(2) have "0 \<le> b * Q1"
    by simp
  then have n1: "1 + b * Q1 \<noteq> 0"
    by linarith
  from 2 assms(2) have "0 \<le> b * Q2"
    by simp
  then have n2: "1 + b * Q2 \<noteq> 0"
    by linarith
  have e1: "Fin b * (Fin 0.37567 + Fin 0.22946 * Fin al) / (Fin 1 - Fin 0.10832 * Fin al) = Fin (b * P1)"
    "Fin b * (Fin 0.84057 + Fin 0.68683 * Fin al) / (Fin 1 - Fin 0.08158 * Fin al) = Fin (b * Q1)"
    "Fin b * (Fin 0.14618 + Fin 0.062758 * Fin al) / (Fin 1 - Fin 0.19402 * Fin al) = Fin (b * P2)"
    "Fin b * (Fin 0.58101 + Fin 0.17426 * Fin al) / (Fin 1 - Fin 0.17586 * Fin al) = Fin (b * Q2)"
    using d by (simp_all add: fl_ops P1_def Q1_def P2_def Q2_def)
  have "rs1 s = Fin ((0.13363 + 0.00077358 * al + b * P1) / (1 + b * Q1))"
    unfolding rs1_def AB1_def alph1_def assms(1,3) e1 using n1
    by (intro fl_quot) (simp_all add: fl_ops)
  moreover have "0 \<le> (0.13363 + 0.00077358 * al + b * P1) / (1 + b * Q1) \<and>
      (0.13363 + 0.00077358 * al + b * P1) / (1 + b * Q1) < 1"
    using 1 assms(4,5) by (intro sky) simp_all
  ultimately show "\<exists>r. rs1 s = Fin r \<and> 0 \<le> r \<and> r < 1"
    by blast
  have "rs2 s = Fin ((0.010191 + 0.00085547 * al + b * P2) / (1 + b * Q2))"
    unfolding rs2_def AB2_def alph2_def assms(1,3) e1 using n2
    by (intro fl_quot) (simp_all add: fl_ops)
  moreover have "0 \<le> (0.010191 + 0.00085547 * al + b * P2) / (1 + b * Q2) \<and>
      (0.010191 + 0.00085547 * al + b * P2) / (1 + b * Q2) < 1"
    using 2 assms(4,5) by (intro sky) simp_all
  ultimately show "\<exists>r. rs2 s = Fin r \<and> 0 \<le> r \<and> r < 1"
    by blast
qed

lemma day_reflection:
  assumes "surface_albedo s = Fin g" "0 \<le> g" "g \<le> 1" "rs = Fin r" "0 \<le> r" "r < 1" "no_inf X"
  shows "no_inf (rg s * rs * X / (Fin 1 - rg s * rs))"
proof -
  have "g * r \<le> 1 * r"
    using assms by (intro mult_right_mono) simp_all
  with assms(6) have "1 - g * r \<noteq> 0"
    by simp
  then show ?thesis
    unfolding rg_def assms(1,4) using assms(7)
    by (intro no_inf_div [where d = "1 - g * r"] no_inf_mult) (simp_all add: fl_ops)
qed

lemma day_element:
  assumes z: "zenith_angle s = Fin \<theta>" "0 \<le> \<theta>" "\<theta> * 180 / pi \<le> 90"
    and E: "Eext s = Fin E"
    and p: "pressure s = Fin p" "300 \<le> p" "p \<le> 1100"
    and w: "water_vapour s = Fin w" "0 \<le> w" "w \<le> 10"
    and u: "ozone s = Fin u" "0 \<le> u" "u \<le> 0.6"
    and n: "nitrogen_dioxide s = Fin n" "0 \<le> n"
    and q: "AOD550 s = Fin q"
    and al: "Angstrom_exponent s = Fin al" "0 \<le> al" "al \<le> 2.5"
    and g: "surface_albedo s = Fin g" "0 \<le> g" "g \<le> 1"
  shows "no_inf (dni0 s)" "no_inf (Ebh0 s)" "no_inf (dhi0 s)"
proof -
  from day_air_masses [OF z] obtain A W O3 R where
    A: "ama s = Fin A" "0.165 \<le> A" and
    W: "amw s = Fin W" "0 < W" and
    O3: "amo s = Fin O3" "0 < O3" and
    R: "amR s = Fin R" "0 < R" "R \<le> 84"
    by blast
  have "isnan (pressure s) \<or> (\<exists>r\<ge>0. pressure s = Fin r)"
    unfolding p(1) using p(2) by simp
  from amRe_amR [OF this] have Re: "amRe s = Fin (p / 1013.25 * R)"
    by (simp add: p(1) R(1) fl_ops)
  have "p / 1013.25 * R \<le> 1100 / 1013.25 * 84"
    using p R by (intro mult_mono divide_right_mono) simp_all
  then have Rb: "0 \<le> p / 1013.25 * R" "p / 1013.25 * R \<le> 92"
    using p R by simp_all
  from A have A0: "0 < A" "0 \<le> A"
    by simp_all
  from W O3 have W0: "0 \<le> W" and O0: "0 \<le> O3"
    by simp_all
  from day_beta [OF q al(1)] obtain b where b: "ang_beta s = Fin b" "0 \<le> b" "b \<le> 1.1"
    by blast
  from day_sky_albedo [OF b(1,2) al] obtain r1 r2 where
    r1: "rs1 s = Fin r1" "0 \<le> r1" "r1 < 1" and r2: "rs2 s = Fin r2" "0 \<le> r2" "r2 < 1"
    by blast
  have t1: "not_neg (ta1 s)"
    unfolding ta1_def by (rule not_neg_abs)
  have t2: "not_neg (ta2 s)"
    unfolding ta2_def by (rule no_inf_cabs)
  note aer = day_aerosol [OF A(1) A0(1)]
  note f = no_inf_add no_inf_diff no_inf_mult no_inf_cos quarter_power no_inf_Fin
    day_TR1 [OF Re Rb(1)] day_Tg1 [OF Re Rb(1)] day_To1 [OF u O3(1) O0]
    day_Tn1 [OF n W(1) W0] day_Tw1 [OF w(1,2) W(1) W0] day_BR1 [OF R(1)]
    day_F1 [OF A t1] day_TR2 [OF Re Rb] day_Tg2 [OF Re Rb(1)] day_Tw2 [OF w W(1) W0]
    day_F2 [OF A(1) A0(1) t2] day_Ba [OF z(1)] aer
  have bn1: "no_inf (Ebn1 s)"
    unfolding Ebn1_def E0n1_def E by (intro f)
  have bn2: "no_inf (Ebn2 s)"
    unfolding Ebn2_def E0n2_def E To2_def Tn2_def by (intro f)
  have dp1: "no_inf (Edp1 s)"
    unfolding Edp1_def E0n1_def E by (intro f)
  have dp2: "no_inf (Edp2 s)"
    unfolding Edp2_def E0n2_def E To2_def Tn2166_def BR2_def by (intro f)
  have dd1: "no_inf (Edd1 s)"
    unfolding Edd1_def by (intro day_reflection [OF g r1] f bn1 dp1)
  have dd2: "no_inf (Edd2 s)"
    unfolding Edd2_def by (intro day_reflection [OF g r2] f bn2 dp2)
  show "no_inf (dni0 s)"
    unfolding dni0_def by (intro f bn1 bn2)
  show "no_inf (Ebh0 s)"
    unfolding Ebh0_def by (intro f bn1 bn2)
  show "no_inf (dhi0 s)"
    unfolding dhi0_def by (intro f dp1 dp2 dd1 dd2)
qed

subsection \<open>The outputs\<close>

lemma clamp_finite:
  assumes "isfinite x" "lo \<le> hi"
  shows "\<exists>r. clamp (Fin hi) (Fin lo) x = Fin r \<and> lo \<le> r \<and> r \<le> hi"
  using assms by (cases x) (auto simp: clamp_Fin)

lemma valid_element_outputs:
  assumes z: "isfinite (zenith_angle s)" "Fin 0 \<le> zenith_angle s"
    and E: "isfinite (Eext s)" and q: "isfinite (AOD550 s)"
    and p: "\<exists>r. pressure s = Fin r \<and> 300 \<le> r \<and> r \<le> 1100"
    and w: "\<exists>r. water_vapour s = Fin r \<and> 0 \<le> r \<and> r \<le> 10"
    and u: "\<exists>r. ozone s = Fin r \<and> 0 \<le> r \<and> r \<le> 0.6"
    and n: "\<exists>r. nitrogen_dioxide s = Fin r \<and> 0 \<le> r \<and> r \<le> 0.03"
    and al: "\<exists>r. Angstrom_exponent s = Fin r \<and> 0 \<le> r \<and> r \<le> 2.5"
    and g: "\<exists>r. surface_albedo s = Fin r \<and> 0 \<le> r \<and> r \<le> 1"
  shows "\<exists>r\<ge>0. ghi s = Fin r" "\<exists>r\<ge>0. dni s = Fin r" "\<exists>r\<ge>0. dhi s = Fin r"
proof -
  have "(\<exists>r\<ge>0. ghi s = Fin r) \<and> (\<exists>r\<ge>0. dni s = Fin r) \<and> (\<exists>r\<ge>0. dhi s = Fin r)"
  proof (cases "night s")
    case True
    then show ?thesis
      by (simp add: night_ghi night_dni night_dhi)
  next
    case False
    from z obtain \<theta> where th: "zenith_angle s = Fin \<theta>" "0 \<le> \<theta>"
      by (cases "zenith_angle s") (simp_all add: fl_ops)
    from False have d: "\<theta> * 180 / pi \<le> 90"
      by (simp add: night_def rad2deg_def th fl_ops)
    from E obtain e where e: "Eext s = Fin e"
      by (cases "Eext s") simp_all
    from q obtain a where a: "AOD550 s = Fin a"
      by (cases "AOD550 s") simp_all
    from p obtain pv where pv: "pressure s = Fin pv" "300 \<le> pv" "pv \<le> 1100" by blast
    from w obtain wv where wv: "water_vapour s = Fin wv" "0 \<le> wv" "wv \<le> 10" by blast
    from u obtain uv where uv: "ozone s = Fin uv" "0 \<le> uv" "uv \<le> 0.6" by blast
    from n obtain nv where nv: "nitrogen_dioxide s = Fin nv" "0 \<le> nv" by blast
    from al obtain av where av: "Angstrom_exponent s = Fin av" "0 \<le> av" "av \<le> 2.5" by blast
    from g obtain gv where gv: "surface_albedo s = Fin gv" "0 \<le> gv" "gv \<le> 1" by blast
    note o = day_element [OF th d e pv wv uv nv a av gv]
    have "no_inf (ghi0 s)"
      unfolding ghi0_def Ebh1_def dhi1_def using False o by (simp add: no_inf_add)
    moreover have "no_inf (dni1 s)" "no_inf (dhi1 s)"
      unfolding dni1_def dhi1_def using False o by simp_all
    ultimately show ?thesis
      unfolding ghi_qc dni_qc dhi_qc by (intro conjI floor_at_zero)
  qed
  then show "\<exists>r\<ge>0. ghi s = Fin r" "\<exists>r\<ge>0. dni s = Fin r" "\<exists>r\<ge>0. dhi s = Fin r"
    by simp_all
qed

text \<open>
  C2: where the nine arguments at a position are finite numbers and the zenith angle is
  not negative, each of the returned GHI, DNI and DHI at that position is a finite
  number that is not negative, and so not NaN. By night the three are zero. By day no
  denominator of the transmittances, the correction factors and the sky albedos
  vanishes; the aerosol wavelengths of lines 139 and 195 may be zero, infinite or
  undefined, and then the aerosol transmittance is zero or NaN, and an output that is
  NaN is set to zero by lines 259 to 261.
\<close>

theorem outputs_finite_non_negative:
  assumes "same_shape a" "i < length (zenith_angle a)" "j < length (zenith_angle a ! i)"
    and "valid_element (elem a i j)"
  shows "\<forall>x \<in> {ghi_of (clear_sky_REST2V5 a) ! i ! j, dni_of (clear_sky_REST2V5 a) ! i ! j,
                dhi_of (clear_sky_REST2V5 a) ! i ! j}.
           isfinite x \<and> \<not> isnan x \<and> \<not> x < Fin 0 \<and> (\<exists>r\<ge>0. x = Fin r)"
proof -
  define s where "s = elem (clamp_inputs a) i j"
  note c = elem_clamped_fields [OF assms(1,2,3), folded s_def]
  from assms(4) have v: "isfinite (zenith_angle a ! i ! j)" "Fin 0 \<le> zenith_angle a ! i ! j"
    "isfinite (Eext a ! i ! j)" "isfinite (pressure a ! i ! j)" "isfinite (water_vapour a ! i ! j)"
    "isfinite (ozone a ! i ! j)" "isfinite (nitrogen_dioxide a ! i ! j)"
    "isfinite (AOD550 a ! i ! j)" "isfinite (Angstrom_exponent a ! i ! j)"
    "isfinite (surface_albedo a ! i ! j)"
    by (simp_all add: valid_element_def elem_def)
  have o: "\<exists>r\<ge>0. ghi s = Fin r" "\<exists>r\<ge>0. dni s = Fin r" "\<exists>r\<ge>0. dhi s = Fin r"
    by (rule valid_element_outputs; unfold c; (intro clamp_finite v)?; simp)+
  have "isfinite x \<and> \<not> isnan x \<and> \<not> x < Fin 0 \<and> (\<exists>r\<ge>0. x = Fin r)" if "\<exists>r\<ge>0. x = Fin r" for x
    using that by (auto simp: fl_ops)
  with o show ?thesis
    unfolding out_nth [OF assms(2,3)] s_def [symmetric] by simp
qed

theorem outputs_finite_non_negative_witness:
  "same_shape slant \<and> 0 < length (zenith_angle slant) \<and> 0 < length (zenith_angle slant ! 0) \<and>
   valid_element (elem slant 0 0) \<and>
   isfinite (ghi_of (clear_sky_REST2V5 slant) ! 0 ! 0) \<and>
   isfinite (dni_of (clear_sky_REST2V5 slant) ! 0 ! 0) \<and>
   isfinite (dhi_of (clear_sky_REST2V5 slant) ! 0 ! 0) \<and>
   \<not> dni_of (clear_sky_REST2V5 slant) ! 0 ! 0 < Fin 0"
proof -
  have v: "valid_element (elem slant 0 0)"
    by (simp add: valid_element_def elem_def slant_def fl_ops)
  from outputs_finite_non_negative [OF slant_shape(1,2,3) v] slant_shape v show ?thesis
    by simp
qed


end
